theory Spec2Isabelle
  imports Complex_Main
begin

section \<open>Numbers and vectors\<close>

text \<open>
  A JavaScript number is a real here, and the counters that the program only ever
  increments from zero (combo, score, shot counts) are \<open>int\<close>. Where the outcome of a
  floor or of a comparison depends on how a product or a sum was rounded, the operation
  is the IEEE-754 binary64 one: \<open>fmul\<close> and \<open>fadd\<close> round the exact result to the
  nearest double, ties to even. That is the case for the points \<open>addScore\<close> awards, for
  the damage of the beam, and for the position and the accumulated distance of a bullet.
  Health, boost energy and the timers are kept as exact reals; the concrete values
  evaluated for them below are integers or dyadic fractions, on which double arithmetic is
  exact. NaN, the infinities and overflow beyond \<open>2^1024\<close> are outside the model.
  HOL defines \<open>x / 0 = 0\<close> where JavaScript gives NaN or Infinity, so every statement
  about a quotient carries the hypothesis that the divisor is positive.
\<close>

text \<open>
  Rounding to the nearest double: a double other than zero is \<open>m * 2^e\<close> with an integer
  \<open>m\<close> of at most 53 bits and \<open>e \<ge> -1074\<close>; the exponent of the result is fixed by the
  binary logarithm of the exact value (by -1074 in the subnormal range), and the mantissa
  is the quotient rounded to the nearest integer, a tie going to the even one.
\<close>

definition round_half_even :: "real \<Rightarrow> int" where
  "round_half_even y =
     (let f = \<lfloor>y\<rfloor>; r = y - real_of_int f
      in if r < 1 / 2 then f else if 1 / 2 < r then f + 1 else if even f then f else f + 1)"

definition double_exponent :: "real \<Rightarrow> int" where
  "double_exponent x = max (- 1074) (\<lfloor>log 2 \<bar>x\<bar>\<rfloor> - 52)"

definition round_double :: "real \<Rightarrow> real" where
  "round_double x =
     (if x = 0 then 0
      else real_of_int (round_half_even (x / 2 powi double_exponent x))
             * 2 powi double_exponent x)"

definition fadd :: "real \<Rightarrow> real \<Rightarrow> real" where
  "fadd a b = round_double (a + b)"

definition fmul :: "real \<Rightarrow> real \<Rightarrow> real" where
  "fmul a b = round_double (a * b)"

datatype vector3 = Vector3 (vec_x: real) (vec_y: real) (vec_z: real)

text \<open>\<open>Vector3.add\<close> and \<open>Vector3.multiplyScalar\<close> of three.js, component by component.\<close>

definition vec_add :: "vector3 \<Rightarrow> vector3 \<Rightarrow> vector3" where
  "vec_add a b =
     Vector3 (fadd (vec_x a) (vec_x b)) (fadd (vec_y a) (vec_y b)) (fadd (vec_z a) (vec_z b))"

definition multiplyScalar :: "vector3 \<Rightarrow> real \<Rightarrow> vector3" where
  "multiplyScalar a k = Vector3 (fmul (vec_x a) k) (fmul (vec_y a) k) (fmul (vec_z a) k)"

definition vec_length :: "vector3 \<Rightarrow> real" where
  "vec_length a = sqrt (vec_x a * vec_x a + vec_y a * vec_y a + vec_z a * vec_z a)"

text \<open>\<open>Vector3.normalize\<close> of three.js divides by \<open>length() || 1\<close>.\<close>

definition normalize :: "vector3 \<Rightarrow> vector3" where
  "normalize a =
     (let l = (if vec_length a = 0 then 1 else vec_length a)
      in Vector3 (vec_x a / l) (vec_y a / l) (vec_z a / l))"

section \<open>Scene objects\<close>

text \<open>
  A three.js \<open>Object3D\<close> is seen from two sides. A section owns its mesh together with
  the subtree below it (\<open>object3d\<close>, walked by \<open>traverse\<close>); a ray-cast intersection
  names the object that was hit together with its chain of \<open>parent\<close> references
  (\<open>scene_node\<close>). The scene graph is a tree, so both are finite. Object identity
  (\<open>===\<close>) is equality of the \<open>uuid\<close>.
\<close>

datatype object3d = Object3D (uuid: nat) (isMesh: bool) (children: "object3d list")

fun traverse :: "object3d \<Rightarrow> object3d list" where
  "traverse (Object3D u m cs) = Object3D u m cs # concat (map traverse cs)"

datatype scene_node = SceneNode (node_uuid: nat) (parent: "scene_node option")

record intersection =
  object :: scene_node
  point :: vector3

section \<open>Colony: the destructible structure\<close>

datatype section_type = window | solarPanel | dockingBay | controlTower | hullSection

record colony_section =
  mesh :: object3d
  visible :: bool
  type :: section_type
  health :: real
  maxHealth :: real
  points :: real
  destroyed :: bool

record colony =
  sections :: "colony_section list"
  totalHealth :: real
  currentHealth :: real
  destructionPercentage :: real

text \<open>The object returned by \<open>damageSection\<close>: \<open>{points, destroyed, type}\<close>.\<close>

datatype hit_result =
  HitResult (result_points: real) (result_destroyed: bool) (result_type: section_type)

text \<open>
  \<open>this.sections[sectionIndex]\<close>: an index outside the array reads \<open>undefined\<close>,
  here \<open>None\<close>.
\<close>

definition section_at :: "colony_section list \<Rightarrow> int \<Rightarrow> colony_section option" where
  "section_at ss i = (if 0 \<le> i \<and> i < int (length ss) then Some (ss ! nat i) else None)"

definition updateDestructionPercentage :: "colony \<Rightarrow> colony" where
  "updateDestructionPercentage c =
     (let destroyedHealth = totalHealth c - currentHealth c
      in c\<lparr>destructionPercentage := (destroyedHealth / totalHealth c) * 100\<rparr>)"

definition getDestructionPercentage :: "colony \<Rightarrow> real" where
  "getDestructionPercentage c = destructionPercentage c"

text \<open>
  \<open>destroySection(section)\<close> receives a reference to the section object; the model
  passes its index. It hides the mesh and recomputes the percentage.
\<close>

definition destroySection :: "nat \<Rightarrow> colony \<Rightarrow> colony" where
  "destroySection i c =
     updateDestructionPercentage
       (c\<lparr>sections := (sections c)[i := (sections c ! i)\<lparr>visible := False\<rparr>]\<rparr>)"

text \<open>
  \<open>damageSection(sectionIndex, damage)\<close>. The tint applied to the material colour is
  rendering only and is left out.
\<close>

definition damageSection :: "int \<Rightarrow> real \<Rightarrow> colony \<Rightarrow> hit_result option \<times> colony" where
  "damageSection sectionIndex damage c =
     (case section_at (sections c) sectionIndex of
        None \<Rightarrow> (None, c)
      | Some sec \<Rightarrow>
          if destroyed sec then (None, c)
          else
            let i = nat sectionIndex;
                sec1 = sec\<lparr>health := health sec - damage\<rparr>;
                c1 = c\<lparr>sections := (sections c)[i := sec1],
                       currentHealth := currentHealth c - damage\<rparr>
            in if health sec1 \<le> 0 then
                 let sec2 = sec1\<lparr>destroyed := True\<rparr>;
                     c2 = destroySection i (c1\<lparr>sections := (sections c1)[i := sec2]\<rparr>)
                 in (Some (HitResult (points sec2) True (type sec2)), c2)
               else (Some (HitResult (of_int \<lfloor>damage\<rfloor>) False (type sec1)), c1))"

text \<open>A sequence of \<open>damageSection\<close> calls, with the value each call returned.\<close>

fun damageSections :: "(int \<times> real) list \<Rightarrow> colony \<Rightarrow> hit_result option list \<times> colony" where
  "damageSections [] c = ([], c)"
| "damageSections ((i, d) # hits) c =
     (let (r, c1) = damageSection i d c;
          (rs, c2) = damageSections hits c1
      in (r # rs, c2))"

text \<open>
  A structure built the way \<open>createColony\<close> builds it, from a list of
  \<open>(mesh, type, maxHealth, points)\<close>: every section starts at full health, the total is
  the sum of the maxima, and the current health starts at the total.
\<close>

definition new_section :: "object3d \<times> section_type \<times> real \<times> real \<Rightarrow> colony_section" where
  "new_section p =
     (case p of (m, t, h, pts) \<Rightarrow>
        \<lparr>mesh = m, visible = True, type = t, health = h, maxHealth = h, points = pts,
         destroyed = False\<rparr>)"

definition build_colony :: "(object3d \<times> section_type \<times> real \<times> real) list \<Rightarrow> colony" where
  "build_colony ps =
     (let ss = map new_section ps;
          total = foldl (\<lambda>acc s. acc + maxHealth s) 0 ss
      in \<lparr>sections = ss, totalHealth = total, currentHealth = total,
          destructionPercentage = 0\<rparr>)"

text \<open>
  \<open>createColony()\<close>: 18 windows (sections 0 to 17), 4 solar panels (18 to 21), 2 docking
  bays (22, 23), the control tower (24) and 8 hull sections (25 to 32), in the order in
  which they are pushed. A window and a hull section are single meshes. A solar panel is
  a group holding the panel mesh, the support arm and nine grid lines; a docking bay is a
  group holding the dock, four arms and a light; the tower is a group holding the tower,
  the antenna and the dish. Each object gets an identity of its own; the colony's root
  group, which is not a section, has identity 1000.
\<close>

definition panel_group :: "nat \<Rightarrow> object3d" where
  "panel_group n =
     Object3D n False
       (Object3D (n + 1) True [] # Object3D (n + 2) True []
        # map (\<lambda>g. Object3D (n + 3 + g) False []) [0..<9])"

definition dock_group :: "nat \<Rightarrow> object3d" where
  "dock_group n =
     Object3D n False
       (Object3D (n + 1) True [] # map (\<lambda>a. Object3D (n + 2 + a) True []) [0..<4]
        @ [Object3D (n + 6) True []])"

definition tower_group :: "nat \<Rightarrow> object3d" where
  "tower_group n =
     Object3D n False
       [Object3D (n + 1) True [], Object3D (n + 2) True [], Object3D (n + 3) True []]"

definition createColony :: colony where
  "createColony =
     build_colony
       (map (\<lambda>n. (Object3D n True [], window, 50, 100)) [0..<18]
        @ map (\<lambda>i. (panel_group (100 + 20 * i), solarPanel, 100, 200)) [0..<4]
        @ map (\<lambda>i. (dock_group (200 + 20 * i), dockingBay, 200, 500)) [0..<2]
        @ [(tower_group 300, controlTower, 150, 300)]
        @ map (\<lambda>i. (Object3D (400 + i) True [], hullSection, 500, 1000)) [0..<8])"

text \<open>The structure of the end-to-end scenario: one window of 50 health worth 100 points.\<close>

definition one_window :: colony where
  "one_window = build_colony [(Object3D 0 True [], window, 50, 100)]"

text \<open>The one-window structure after the two hits of 30: its only section is destroyed.\<close>

definition one_window_destroyed :: colony where
  "one_window_destroyed = snd (damageSection 0 30 (snd (damageSection 0 30 one_window)))"

text \<open>
  \<open>getSectionAtPoint(intersect)\<close>. The inner \<open>while (parent)\<close> loop follows the parent
  references of the hit object until one of them is the section's mesh or the chain ends.
\<close>

fun parent_loop :: "nat \<Rightarrow> scene_node option \<Rightarrow> bool" where
  "parent_loop m None = False"
| "parent_loop m (Some (SceneNode u p)) = (if m = u then True else parent_loop m p)"

fun getSectionAtPoint_loop ::
  "scene_node \<Rightarrow> nat \<Rightarrow> colony_section list \<Rightarrow> (nat \<times> colony_section) option" where
  "getSectionAtPoint_loop target i [] = None"
| "getSectionAtPoint_loop target i (sec # rest) =
     (if destroyed sec then getSectionAtPoint_loop target (Suc i) rest
      else if uuid (mesh sec) = node_uuid target then Some (i, sec)
      else if parent_loop (uuid (mesh sec)) (parent target) then Some (i, sec)
      else getSectionAtPoint_loop target (Suc i) rest)"

definition getSectionAtPoint :: "colony \<Rightarrow> intersection \<Rightarrow> (nat \<times> colony_section) option" where
  "getSectionAtPoint c intersect = getSectionAtPoint_loop (object intersect) 0 (sections c)"

text \<open>
  \<open>getHitTargets()\<close>: for every section that is not destroyed, its mesh, then every
  object of its subtree that is a mesh (\<open>traverse\<close> visits the mesh itself first).
\<close>

definition getHitTargets :: "colony \<Rightarrow> object3d list" where
  "getHitTargets c =
     concat (map (\<lambda>sec. if \<not> destroyed sec
                          then mesh sec # filter isMesh (traverse (mesh sec)) else [])
                 (sections c))"

text \<open>
  Every \<open>new THREE.Mesh\<close> or \<open>new THREE.Group\<close> of \<open>createColony\<close> is a fresh object
  that belongs to one section only: the identities in the subtrees of all sections are
  pairwise different.
\<close>

definition scene_uuids :: "colony_section \<Rightarrow> nat list" where
  "scene_uuids sec = map uuid (traverse (mesh sec))"

definition distinct_scene :: "colony \<Rightarrow> bool" where
  "distinct_scene c = distinct (concat (map scene_uuids (sections c)))"

section \<open>ScoreSystem\<close>

record score_stats =
  totalDamage :: real
  sectionsDestroyed :: int
  maxCombo :: int
  accuracy :: real
  shotsFired :: int
  shotsHit :: int

record score_system =
  score :: int
  highScore :: int
  combo :: int
  comboTimer :: real
  comboTimeout :: real
  stats :: score_stats

text \<open>\<open>GAME\<close> of Constants.js.\<close>

definition GAME_missionTime :: real where "GAME_missionTime = 300"
definition GAME_targetDestructionRate :: real where "GAME_targetDestructionRate = 70"
definition GAME_comboTimeout :: real where "GAME_comboTimeout = 3000"

definition zero_stats :: score_stats where
  "zero_stats =
     \<lparr>totalDamage = 0, sectionsDestroyed = 0, maxCombo = 0, accuracy = 0, shotsFired = 0,
      shotsHit = 0\<rparr>"

text \<open>The constructor; the stored high score is read from localStorage.\<close>

definition new_ScoreSystem :: "int \<Rightarrow> score_system" where
  "new_ScoreSystem loadedHighScore =
     \<lparr>score = 0, highScore = loadedHighScore, combo = 0, comboTimer = 0,
      comboTimeout = GAME_comboTimeout, stats = zero_stats\<rparr>"

text \<open>The object returned by \<open>addScore\<close>: \<open>{points, combo, multiplier}\<close>.\<close>

datatype score_result =
  ScoreResult (awarded_points: int) (awarded_combo: int) (awarded_multiplier: real)

text \<open>
  \<open>addScore(basePoints)\<close>. The literal \<open>0.1\<close> is the double nearest to one tenth, and
  the product, the sum and the second product are each rounded.
\<close>

definition addScore :: "real \<Rightarrow> score_system \<Rightarrow> score_result \<times> score_system" where
  "addScore basePoints s =
     (let comboMultiplier = fadd 1 (fmul (real_of_int (combo s)) (round_double (1 / 10)));
          pts = \<lfloor>fmul basePoints comboMultiplier\<rfloor>;
          s1 = s\<lparr>score := score s + pts\<rparr>;
          s2 = s1\<lparr>combo := combo s1 + 1\<rparr>;
          s3 = s2\<lparr>comboTimer := comboTimeout s2\<rparr>;
          s4 = (if combo s3 > maxCombo (stats s3)
                then s3\<lparr>stats := (stats s3)\<lparr>maxCombo := combo s3\<rparr>\<rparr> else s3)
      in (ScoreResult pts (combo s4) comboMultiplier, s4))"

definition resetCombo :: "score_system \<Rightarrow> score_system" where
  "resetCombo s = s\<lparr>combo := 0, comboTimer := 0\<rparr>"

definition ScoreSystem_update :: "real \<Rightarrow> score_system \<Rightarrow> score_system" where
  "ScoreSystem_update deltaTime s =
     (if combo s > 0 then
        let s1 = s\<lparr>comboTimer := comboTimer s - deltaTime * 1000\<rparr>
        in if comboTimer s1 \<le> 0 then resetCombo s1 else s1
      else s)"

definition recordShot :: "bool \<Rightarrow> score_system \<Rightarrow> score_system" where
  "recordShot hit s =
     (let st1 = (stats s)\<lparr>shotsFired := shotsFired (stats s) + 1\<rparr>;
          st2 = (if hit then st1\<lparr>shotsHit := shotsHit st1 + 1\<rparr> else st1);
          st3 = st2\<lparr>accuracy :=
                      (real_of_int (shotsHit st2) / real_of_int (shotsFired st2)) * 100\<rparr>
      in s\<lparr>stats := st3\<rparr>)"

definition recordDamage :: "real \<Rightarrow> score_system \<Rightarrow> score_system" where
  "recordDamage dmg s = s\<lparr>stats := (stats s)\<lparr>totalDamage := totalDamage (stats s) + dmg\<rparr>\<rparr>"

definition recordDestruction :: "score_system \<Rightarrow> score_system" where
  "recordDestruction s =
     s\<lparr>stats := (stats s)\<lparr>sectionsDestroyed := sectionsDestroyed (stats s) + 1\<rparr>\<rparr>"

definition checkHighScore :: "score_system \<Rightarrow> bool \<times> score_system" where
  "checkHighScore s =
     (if score s > highScore s then (True, s\<lparr>highScore := score s\<rparr>) else (False, s))"

text \<open>The three operations on the combo state.\<close>

datatype score_op = AddScore real | Update real | ResetCombo

fun score_step :: "score_op \<Rightarrow> score_system \<Rightarrow> score_system" where
  "score_step (AddScore basePoints) s = snd (addScore basePoints s)"
| "score_step (Update deltaTime) s = ScoreSystem_update deltaTime s"
| "score_step ResetCombo s = resetCombo s"

section \<open>Zaku: the mobile unit and its projectiles\<close>

text \<open>A bullet: the mesh position and its \<open>userData\<close>.\<close>

record bullet =
  position :: vector3
  startPosition :: vector3
  direction :: vector3
  distanceTraveled :: real
  maxDistance :: real
  damage :: real
  speed :: real

record zaku =
  isMoving :: bool
  isBoosting :: bool
  boostEnergy :: real
  maxBoostEnergy :: real
  boostRegenRate :: real
  boostDrainRate :: real
  isFiring :: bool
  lastFireTime :: int
  fireRate :: int
  bullets :: "bullet list"
  bulletSpeed :: real
  bulletRange :: real
  bulletDamage :: real

text \<open>\<open>WEAPONS.machineGun\<close> of Constants.js.\<close>

definition machineGun_damage :: real where "machineGun_damage = 10"
definition machineGun_fireRate :: int where "machineGun_fireRate = 100"
definition machineGun_range :: real where "machineGun_range = 60"

definition new_Zaku :: zaku where
  "new_Zaku =
     \<lparr>isMoving = False, isBoosting = False, boostEnergy = 100, maxBoostEnergy = 100,
      boostRegenRate = 15, boostDrainRate = 25, isFiring = False, lastFireTime = 0,
      fireRate = machineGun_fireRate, bullets = [], bulletSpeed = 150,
      bulletRange = machineGun_range, bulletDamage = machineGun_damage\<rparr>"

text \<open>
  \<open>spawnBullet()\<close>. The muzzle is what the scene graph answers for
  \<open>getObjectByName('muzzlePoint')\<close>: \<open>None\<close> when there is no such object, otherwise its
  world position and world direction. \<open>createMachineGun\<close> always adds the object.
\<close>

definition spawnBullet :: "(vector3 \<times> vector3) option \<Rightarrow> zaku \<Rightarrow> zaku" where
  "spawnBullet muzzlePoint z =
     (case muzzlePoint of
        None \<Rightarrow> z
      | Some (startPos, dir) \<Rightarrow>
          z\<lparr>bullets := bullets z @
               [\<lparr>position = startPos, startPosition = startPos, direction = normalize dir,
                 distanceTraveled = 0, maxDistance = bulletRange z, damage = bulletDamage z,
                 speed = bulletSpeed z\<rparr>]\<rparr>)"

text \<open>
  \<open>fire()\<close>, with \<open>Date.now()\<close> as the argument \<open>now\<close> (milliseconds). The muzzle flash,
  the particles, the sound and the recoil are rendering and audio only.
\<close>

definition fire :: "int \<Rightarrow> (vector3 \<times> vector3) option \<Rightarrow> zaku \<Rightarrow> bool \<times> zaku" where
  "fire now muzzlePoint z =
     (if now - lastFireTime z < fireRate z then (False, z)
      else
        let z1 = z\<lparr>lastFireTime := now\<rparr>;
            z2 = spawnBullet muzzlePoint z1
        in (True, z2\<lparr>isFiring := True\<rparr>))"

text \<open>\<open>array.splice(i, 1)\<close>.\<close>

definition splice1 :: "nat \<Rightarrow> 'a list \<Rightarrow> 'a list" where
  "splice1 i xs = take i xs @ drop (Suc i) xs"

text \<open>The body of the loop of \<open>updateBullets\<close> up to the range check.\<close>

definition move_bullet :: "real \<Rightarrow> bullet \<Rightarrow> bullet" where
  "move_bullet deltaTime b =
     (let moveDistance = fmul (speed b) deltaTime;
          b1 = b\<lparr>position := vec_add (position b) (multiplyScalar (direction b) moveDistance)\<rparr>
      in b1\<lparr>distanceTraveled := fadd (distanceTraveled b1) moveDistance\<rparr>)"

text \<open>
  \<open>updateBullets(deltaTime)\<close>: \<open>for (let i = this.bullets.length - 1; i >= 0; i--)\<close>, with
  the splice inside the loop. Reading \<open>bullets[i]\<close> outside the array gives
  \<open>undefined\<close>, and the access to its \<open>userData\<close> throws a TypeError: \<open>None\<close>.
\<close>

function updateBullets_loop :: "real \<Rightarrow> int \<Rightarrow> bullet list \<Rightarrow> bullet list option" where
  "updateBullets_loop deltaTime i bs =
     (if 0 \<le> i then
        (if nat i < length bs then
           (let b = move_bullet deltaTime (bs ! nat i);
                bs1 = bs[nat i := b]
            in if distanceTraveled b \<ge> maxDistance b
               then updateBullets_loop deltaTime (i - 1) (splice1 (nat i) bs1)
               else updateBullets_loop deltaTime (i - 1) bs1)
         else None)
      else Some bs)"
  by pat_completeness auto
termination
  by (relation "measure (\<lambda>(deltaTime, i, bs). nat (i + 1))") auto

definition updateBullets :: "real \<Rightarrow> zaku \<Rightarrow> zaku option" where
  "updateBullets deltaTime z =
     map_option (\<lambda>bs. z\<lparr>bullets := bs\<rparr>)
       (updateBullets_loop deltaTime (int (length (bullets z)) - 1) (bullets z))"

text \<open>
  \<open>update(deltaTime)\<close> of Zaku: the animation, the muzzle particles and the recoil are
  rendering only; the bullets are the simulation state it touches.
\<close>

definition Zaku_update :: "real \<Rightarrow> zaku \<Rightarrow> zaku option" where
  "Zaku_update deltaTime z = updateBullets deltaTime z"

text \<open>A sequence of \<open>updateBullets\<close> calls, one per frame.\<close>

fun updateBullets_frames :: "real list \<Rightarrow> zaku \<Rightarrow> zaku option" where
  "updateBullets_frames [] z = Some z"
| "updateBullets_frames (deltaTime # rest) z =
     (case updateBullets deltaTime z of
        None \<Rightarrow> None
      | Some z1 \<Rightarrow> updateBullets_frames rest z1)"

text \<open>What \<open>InputManager.getMovementInput()\<close> returns.\<close>

record movement_input =
  forward :: int
  backward :: int
  left :: int
  right :: int
  up :: int
  down :: int
  rotateLeft :: int
  rotateRight :: int
  boost :: bool

text \<open>
  \<open>processMovement(input, deltaTime)\<close>, up to and including the boost energy. The rest
  of the method (yaw, tilt, velocity, position) writes the pose of the unit, which the
  boost logic never reads and which is not part of this model.
\<close>

definition processMovement :: "movement_input \<Rightarrow> real \<Rightarrow> zaku \<Rightarrow> zaku" where
  "processMovement input deltaTime z =
     (let moveX = right input - left input;
          moveZ = backward input - forward input;
          moveY = up input - down input;
          z1 = z\<lparr>isMoving := (moveX \<noteq> 0 \<or> moveZ \<noteq> 0 \<or> moveY \<noteq> 0)\<rparr>;
          z2 = z1\<lparr>isBoosting := (boost input \<and> boostEnergy z1 > 0)\<rparr>
      in if isBoosting z2
         then z2\<lparr>boostEnergy := max 0 (boostEnergy z2 - boostDrainRate z2 * deltaTime)\<rparr>
         else z2\<lparr>boostEnergy :=
                    min (maxBoostEnergy z2) (boostEnergy z2 + boostRegenRate z2 * deltaTime)\<rparr>)"

fun processMovements :: "(movement_input \<times> real) list \<Rightarrow> zaku \<Rightarrow> zaku" where
  "processMovements [] z = z"
| "processMovements ((input, deltaTime) # rest) z =
     processMovements rest (processMovement input deltaTime z)"

section \<open>Game: hit resolution and the simulation tick\<close>

datatype game_state = menu | playing | paused | gameover

record game =
  state :: game_state
  missionTimer :: real
  game_deltaTime :: real
  zaku :: zaku
  colony :: colony
  scoreSystem :: score_system
  crosshairHit :: bool

text \<open>
  What the collaborators answer during one frame: the movement keys, whether the left
  mouse button is down, \<open>Date.now()\<close>, the muzzle point, and the two ray casts of three.js
  (\<open>intersectObjects(targets, true)\<close>, nearest intersection first): the one from the
  camera centre, and the one from a bullet's position along its direction up to a
  maximum distance.
\<close>

record frame =
  frame_movement :: movement_input
  frame_mouseDown :: bool
  frame_now :: int
  frame_muzzle :: "(vector3 \<times> vector3) option"
  cameraRay :: "object3d list \<Rightarrow> intersection list"
  bulletRay :: "vector3 \<Rightarrow> vector3 \<Rightarrow> real \<Rightarrow> object3d list \<Rightarrow> intersection list"

text \<open>
  The bookkeeping both attack modes do once \<open>damageSection\<close> has returned a result:
  \<open>recordShot(true)\<close>, \<open>recordDamage(damage)\<close>, and only \<open>if (result.destroyed)\<close>
  \<open>recordDestruction()\<close> and \<open>addScore(result.points)\<close>. Explosions, debris, sound and
  camera shake are left out.
\<close>

definition record_hit :: "real \<Rightarrow> hit_result \<Rightarrow> score_system \<Rightarrow> score_system" where
  "record_hit dmg result s =
     (let s1 = recordShot True s;
          s2 = recordDamage dmg s1
      in if result_destroyed result
         then snd (addScore (result_points result) (recordDestruction s2))
         else s2)"

definition apply_damage :: "nat \<Rightarrow> real \<Rightarrow> game \<Rightarrow> game" where
  "apply_damage index dmg g =
     (let (result, c) = damageSection (int index) dmg (colony g);
          g1 = g\<lparr>colony := c\<rparr>
      in case result of
           None \<Rightarrow> g1
         | Some r \<Rightarrow> g1\<lparr>scoreSystem := record_hit dmg r (scoreSystem g1)\<rparr>)"

text \<open>\<open>handleShooting()\<close>: the beam. The value \<open>fire()\<close> returns is not used.\<close>

definition handleShooting :: "frame \<Rightarrow> game \<Rightarrow> game" where
  "handleShooting env g =
     (let g1 = g\<lparr>zaku := snd (fire (frame_now env) (frame_muzzle env) (zaku g))\<rparr>;
          targets = getHitTargets (colony g1);
          intersects = cameraRay env targets
      in case intersects of
           [] \<Rightarrow> g1\<lparr>crosshairHit := False, scoreSystem := recordShot False (scoreSystem g1)\<rparr>
         | hit # _ \<Rightarrow>
             let g2 = (case getSectionAtPoint (colony g1) hit of
                         None \<Rightarrow> g1
                       | Some (index, sec) \<Rightarrow>
                           apply_damage index (fmul (fmul 10 (game_deltaTime g1)) 60) g1)
             in g2\<lparr>crosshairHit := True\<rparr>)"

text \<open>
  \<open>checkBulletCollisions()\<close>: the targets are collected once, then the bullets are
  visited from the last to the first; a bullet whose ray intersects anything is removed,
  whether or not a section was damaged.
\<close>

function checkBulletCollisions_loop ::
  "frame \<Rightarrow> object3d list \<Rightarrow> int \<Rightarrow> game \<Rightarrow> game option" where
  "checkBulletCollisions_loop env targets i g =
     (if 0 \<le> i then
        (if nat i < length (bullets (zaku g)) then
           (let b = bullets (zaku g) ! nat i;
                intersects =
                  bulletRay env (position b) (direction b)
                    (fmul (fmul (speed b) (game_deltaTime g)) 2) targets
            in case intersects of
                 [] \<Rightarrow> checkBulletCollisions_loop env targets (i - 1) g
               | hit # _ \<Rightarrow>
                   checkBulletCollisions_loop env targets (i - 1)
                     (let g1 = (case getSectionAtPoint (colony g) hit of
                                  None \<Rightarrow> g
                                | Some (index, sec) \<Rightarrow> apply_damage index (damage b) g)
                      in g1\<lparr>zaku := (zaku g1)\<lparr>bullets := splice1 (nat i) (bullets (zaku g1))\<rparr>\<rparr>))
         else None)
      else Some g)"
  by pat_completeness auto
termination
  by (relation "measure (\<lambda>(env, targets, i, g). nat (i + 1))") auto

text \<open>The state after the body of that loop has run for the bullet at index \<open>i\<close>.\<close>

definition bullet_step :: "frame \<Rightarrow> object3d list \<Rightarrow> nat \<Rightarrow> game \<Rightarrow> game" where
  "bullet_step env targets i g =
     (let b = bullets (zaku g) ! i;
          intersects =
            bulletRay env (position b) (direction b)
              (fmul (fmul (speed b) (game_deltaTime g)) 2) targets
      in case intersects of
           [] \<Rightarrow> g
         | hit # _ \<Rightarrow>
             (let g1 = (case getSectionAtPoint (colony g) hit of
                          None \<Rightarrow> g
                        | Some (index, sec) \<Rightarrow> apply_damage index (damage b) g)
              in g1\<lparr>zaku := (zaku g1)\<lparr>bullets := splice1 i (bullets (zaku g1))\<rparr>\<rparr>))"

text \<open>The number of destroyed sections.\<close>

definition destroyed_count :: "colony \<Rightarrow> int" where
  "destroyed_count c = int (length (filter destroyed (sections c)))"

definition checkBulletCollisions :: "frame \<Rightarrow> game \<Rightarrow> game option" where
  "checkBulletCollisions env g =
     checkBulletCollisions_loop env (getHitTargets (colony g))
       (int (length (bullets (zaku g))) - 1) g"

text \<open>
  \<open>endGame(victory, reason)\<close>: the state flag and the high score; the final score, the
  rankings and the game-over screen are computed from the state and stored elsewhere.
\<close>

definition endGame :: "bool \<Rightarrow> game \<Rightarrow> game" where
  "endGame victory g =
     (if state g = gameover then g
      else g\<lparr>state := gameover, scoreSystem := snd (checkHighScore (scoreSystem g))\<rparr>)"

text \<open>
  \<open>update(deltaTime)\<close> of Game, in the order of the source: mission timer, movement,
  \<open>zaku.update\<close>, the beam while the button is down, the bullet collisions, the combo
  timer, the win condition. The camera, the HUD, the particles, the colony's rotation
  and the body collision of the unit (which ends the game from a timer callback, outside
  the tick) are not modelled.
\<close>

definition Game_update :: "frame \<Rightarrow> real \<Rightarrow> game \<Rightarrow> game option" where
  "Game_update env deltaTime g =
     (let g1 = g\<lparr>missionTimer := missionTimer g - deltaTime\<rparr>
      in if missionTimer g1 \<le> 0 then Some (endGame False g1)
         else
           case Zaku_update deltaTime (processMovement (frame_movement env) deltaTime (zaku g1)) of
             None \<Rightarrow> None
           | Some z \<Rightarrow>
               let g2 = g1\<lparr>zaku := z\<rparr>;
                   g3 = (if frame_mouseDown env then handleShooting env g2 else g2)
               in case checkBulletCollisions env g3 of
                    None \<Rightarrow> None
                  | Some g4 \<Rightarrow>
                      let g5 = g4\<lparr>scoreSystem := ScoreSystem_update deltaTime (scoreSystem g4)\<rparr>
                      in if getDestructionPercentage (colony g5) \<ge> GAME_targetDestructionRate
                         then Some (endGame True g5) else Some g5)"

text \<open>\<open>gameLoop()\<close>: one rendered frame, \<open>clock.getDelta()\<close> as the argument.\<close>

definition gameLoop :: "frame \<Rightarrow> real \<Rightarrow> game \<Rightarrow> game option" where
  "gameLoop env delta g =
     (let g1 = g\<lparr>game_deltaTime := delta\<rparr>
      in if state g1 = playing then Game_update env delta g1 else Some g1)"

fun gameLoops :: "(frame \<times> real) list \<Rightarrow> game \<Rightarrow> game option" where
  "gameLoops [] g = Some g"
| "gameLoops ((env, delta) # rest) g =
     (case gameLoop env delta g of None \<Rightarrow> None | Some g1 \<Rightarrow> gameLoops rest g1)"

text \<open>The game as \<open>init\<close> and \<open>startGame\<close> leave it, with no stored high score.\<close>

definition new_game :: game where
  "new_game =
     \<lparr>state = playing, missionTimer = GAME_missionTime, game_deltaTime = 0, zaku = new_Zaku,
      colony = createColony, scoreSystem = new_ScoreSystem 0, crosshairHit = False\<rparr>"

section \<open>Concrete states used in the examples\<close>

text \<open>A score system after one award of 100 points: streak 1, full timeout.\<close>

definition combo_demo :: score_system where
  "combo_demo = snd (addScore 100 (new_ScoreSystem 0))"

text \<open>Movement input with the boost key held, and with it released.\<close>

definition boost_held :: movement_input where
  "boost_held =
     \<lparr>forward = 1, backward = 0, left = 0, right = 0, up = 0, down = 0, rotateLeft = 0,
      rotateRight = 0, boost = True\<rparr>"

definition boost_released :: movement_input where
  "boost_released = boost_held\<lparr>boost := False\<rparr>"

definition boost_steps :: "(movement_input \<times> real) list" where
  "boost_steps = [(boost_held, 1 / 2), (boost_held, 4), (boost_released, 1 / 2),
                  (boost_released, 8)]"

text \<open>A muzzle point at the unit's start position, pointing at the colony.\<close>

definition muzzle_ahead :: "(vector3 \<times> vector3) option" where
  "muzzle_ahead = Some (Vector3 0 0 150, Vector3 0 0 (- 1))"

text \<open>
  A frame in which no key and no button is down and no ray intersects anything; the
  unit after it has fired one bullet of range 60 and speed 150, and the game with that
  unit. Four frames of \<open>0.1\<close> s, and 25 ticks of \<open>0.016\<close> s: 0.4 s either way, for the
  double nearest to 0.016 lies above it.
\<close>

definition quiet_frame :: frame where
  "quiet_frame =
     \<lparr>frame_movement = boost_released\<lparr>forward := 0\<rparr>, frame_mouseDown = False,
      frame_now = 1000000, frame_muzzle = muzzle_ahead, cameraRay = (\<lambda>targets. []),
      bulletRay = (\<lambda>origin dir far targets. [])\<rparr>"

definition fired_zaku :: zaku where
  "fired_zaku = snd (fire 1000000 muzzle_ahead new_Zaku)"

definition bullet_game :: game where
  "bullet_game = new_game\<lparr>zaku := fired_zaku\<rparr>"

definition four_frames :: "(frame \<times> real) list" where
  "four_frames = replicate 4 (quiet_frame, round_double (1 / 10))"

definition slow_ticks :: "real list" where
  "slow_ticks = replicate 25 (round_double (2 / 125))"

definition slow_frames :: "(frame \<times> real) list" where
  "slow_frames = map (Pair quiet_frame) slow_ticks"

text \<open>
  A window and a solar panel (a group holding the panel mesh, the support arm and one grid
  line); the window has been destroyed by one hit of 50.
\<close>

definition window_and_panel :: colony where
  "window_and_panel =
     build_colony
       [(Object3D 0 True [], window, 50, 100),
        (Object3D 1 False [Object3D 2 True [], Object3D 3 True [], Object3D 4 False []],
         solarPanel, 100, 200)]"

definition window_gone :: colony where
  "window_gone = snd (damageSection 0 50 window_and_panel)"

text \<open>
  Intersections with the support arm of the panel and with the window; both objects hang
  below the colony's root group (identity 100).
\<close>

definition hit_arm :: intersection where
  "hit_arm =
     \<lparr>object = SceneNode 3 (Some (SceneNode 1 (Some (SceneNode 100 None)))),
      point = Vector3 90 70 0\<rparr>"

definition hit_window :: intersection where
  "hit_window = \<lparr>object = SceneNode 0 (Some (SceneNode 100 None)), point = Vector3 0 51 0\<rparr>"

text \<open>
  Intersections with the first window (section 0) and with the first hull section
  (section 25) of the colony.
\<close>

definition hit_first_window :: intersection where
  "hit_first_window =
     \<lparr>object = SceneNode 0 (Some (SceneNode 1000 None)), point = Vector3 (- 100) 44 26\<rparr>"

definition hit_hull :: intersection where
  "hit_hull = \<lparr>object = SceneNode 400 (Some (SceneNode 1000 None)), point = Vector3 (- 90) 0 48\<rparr>"

text \<open>
  A frame of 1/64 s in which the trigger is held and the camera ray hits the first hull
  section (500 health): the beam deals \<open>10 * (1/64) * 60 = 9.375\<close>. And a frame of 1/8 s
  in which it hits the first window (50 health): the beam deals 75. Both products are
  exact in double arithmetic.
\<close>

definition beam_frame :: frame where
  "beam_frame =
     quiet_frame\<lparr>frame_mouseDown := True, cameraRay := (\<lambda>targets. [hit_hull])\<rparr>"

definition beam_game :: game where
  "beam_game = new_game\<lparr>game_deltaTime := 1 / 64\<rparr>"

definition lethal_frame :: frame where
  "lethal_frame =
     quiet_frame\<lparr>frame_mouseDown := True, cameraRay := (\<lambda>targets. [hit_first_window])\<rparr>"

definition lethal_game :: game where
  "lethal_game = new_game\<lparr>game_deltaTime := 1 / 8\<rparr>"

text \<open>
  A frame of 1/64 s in which the ray of every bullet hits the first hull section, and the
  game in which the one bullet in flight (10 damage) meets it.
\<close>

definition bullet_hit_frame :: frame where
  "bullet_hit_frame = quiet_frame\<lparr>bulletRay := (\<lambda>origin dir far targets. [hit_hull])\<rparr>"

definition bullet_hit_game :: game where
  "bullet_hit_game = bullet_game\<lparr>game_deltaTime := 1 / 64\<rparr>"

text \<open>
  Two bullets in flight towards the first window, which has 10 health left, in one tick.
  The ray of a bullet intersects the window exactly when the window's mesh is among the
  objects it is cast against, as \<open>intersectObjects\<close> does.
\<close>

definition stale_colony :: colony where
  "stale_colony = snd (damageSection 0 40 createColony)"

definition two_bullets :: zaku where
  "two_bullets = snd (fire 1000100 muzzle_ahead fired_zaku)"

definition stale_frame :: frame where
  "stale_frame =
     quiet_frame\<lparr>bulletRay :=
       (\<lambda>origin dir far targets.
          if Object3D 0 True [] \<in> set targets then [hit_first_window] else [])\<rparr>"

definition stale_game :: game where
  "stale_game = new_game\<lparr>game_deltaTime := 1 / 64, zaku := two_bullets, colony := stale_colony\<rparr>"

text \<open>That game after the loop of \<open>checkBulletCollisions\<close> has handled the last bullet.\<close>

definition after_first_bullet :: game where
  "after_first_bullet =
     bullet_step stale_frame (getHitTargets (colony stale_game)) 1 stale_game"

text \<open>One hit of 600 on each of the 33 sections: the beam's damage in a frame of 1 s.\<close>

definition all_sections_600 :: "(int \<times> real) list" where
  "all_sections_600 = map (\<lambda>i. (int i, 600)) [0..<33]"

text \<open>The hits that destroy both sections of the window-and-panel structure.\<close>

definition overkill_hits :: "(int \<times> real) list" where
  "overkill_hits = [(0, 30), (0, 30), (1, 60), (1, 60)]"

text \<open>
  What holds of the percentage between calls: the total is positive and the exposed
  value is at most the value a recomputation would give.
\<close>

definition percentage_ok :: "colony \<Rightarrow> bool" where
  "percentage_ok c =
     (0 < totalHealth c
      \<and> destructionPercentage c \<le> (totalHealth c - currentHealth c) / totalHealth c * 100)"

text \<open>
  What \<open>createColony\<close> establishes and \<open>damageSection\<close> keeps: the structure-wide health
  is the sum of the section healths, a destroyed section has no health left, and when
  every section is destroyed the exposed percentage is the recomputed one.
\<close>

definition health_accounted :: "colony \<Rightarrow> bool" where
  "health_accounted c =
     (0 < totalHealth c
      \<and> currentHealth c = sum_list (map health (sections c))
      \<and> list_all (\<lambda>s. destroyed s \<longrightarrow> health s \<le> 0) (sections c)
      \<and> (list_all destroyed (sections c) \<longrightarrow>
           destructionPercentage c
             = (totalHealth c - currentHealth c) / totalHealth c * 100))"

section \<open>Double arithmetic on concrete values\<close>

lemma double_exponent_eq:
  assumes "2 powi (e + 52) \<le> \<bar>x\<bar>" "\<bar>x\<bar> < 2 powi (e + 53)" "- 1074 \<le> e"
  shows "double_exponent x = e"
proof -
  have pos: "0 < \<bar>x\<bar>"
    using assms(1) by (smt (verit) zero_less_power_int)
  have p1: "(2::real) powr real_of_int (e + 52) = 2 powi (e + 52)"
    by (rule powr_real_of_int') simp_all
  have p2: "(2::real) powr real_of_int (e + 53) = 2 powi (e + 53)"
    by (rule powr_real_of_int') simp_all
  have s: "real_of_int (e + 52) + 1 = real_of_int (e + 53)" by simp
  have "\<lfloor>log 2 \<bar>x\<bar>\<rfloor> = e + 52"
    unfolding floor_log_eq_powr_iff [OF pos, of 2, simplified] s p1 p2
    using assms(1,2) by simp
  then show ?thesis using assms(3) by (simp add: double_exponent_def)
qed

text \<open>
  How a rounding is evaluated: with the exponent \<open>e\<close> of the result at hand, the rounded
  value is the mantissa \<open>m\<close>, the nearest integer to \<open>x / 2^e\<close>, times \<open>2^e\<close>.
\<close>

lemma round_double_eqI:
  assumes "2 powi (e + 52) \<le> \<bar>x\<bar>" "\<bar>x\<bar> < 2 powi (e + 53)" "- 1074 \<le> e"
      and "round_half_even (x / 2 powi e) = m" and "y = real_of_int m * 2 powi e"
  shows "round_double x = y"
proof -
  have "x \<noteq> 0" using assms(1) by (smt (verit) zero_less_power_int)
  then show ?thesis
    using double_exponent_eq [OF assms(1-3)] assms(4,5) by (simp add: round_double_def)
qed

lemma round_double_0: "round_double 0 = 0"
  by (simp add: round_double_def)

lemma fmul_0_left: "fmul 0 x = 0"
  by (simp add: fmul_def round_double_0)

text \<open>
  The literal \<open>0.1\<close>, and the multipliers and awards of \<open>addScore\<close> at streaks 0, 3
  and 13. At streak 3 the multiplier is the double nearest to 1.3; at streak 13 it is
  the double nearest to 2.3, which lies below 2.3, and 100 points give 229.
\<close>

lemma double_tenth: "round_double (1 / 10) = 3602879701896397 / 36028797018963968"
  by (rule round_double_eqI [where e = "- 56" and m = "7205759403792794"])
    (simp_all add: round_half_even_def power_int_minus)

lemma fadd_1_0: "fadd 1 0 = 1"
  unfolding fadd_def
  by (rule round_double_eqI [where e = "- 52" and m = "4503599627370496"])
    (simp_all add: round_half_even_def power_int_minus)

lemma fmul_100_1: "fmul 100 1 = 100"
  unfolding fmul_def
  by (rule round_double_eqI [where e = "- 46" and m = "7036874417766400"])
    (simp_all add: round_half_even_def power_int_minus)

lemma fmul_3_tenth: "fmul 3 (3602879701896397 / 36028797018963968) = 1351079888211149 / 4503599627370496"
  unfolding fmul_def
  by (rule round_double_eqI [where e = "- 54" and m = "5404319552844596"])
    (simp_all add: round_half_even_def power_int_minus)

lemma fadd_1_3_tenths: "fadd 1 (1351079888211149 / 4503599627370496) = 5854679515581645 / 4503599627370496"
  unfolding fadd_def
  by (rule round_double_eqI [where e = "- 52" and m = "5854679515581645"])
    (simp_all add: round_half_even_def power_int_minus)

lemma fmul_100_streak_3: "fmul 100 (5854679515581645 / 4503599627370496) = 130"
  unfolding fmul_def
  by (rule round_double_eqI [where e = "- 45" and m = "4573968371548160"])
    (simp_all add: round_half_even_def power_int_minus)

lemma fmul_200_streak_3: "fmul 200 (5854679515581645 / 4503599627370496) = 260"
  unfolding fmul_def
  by (rule round_double_eqI [where e = "- 44" and m = "4573968371548160"])
    (simp_all add: round_half_even_def power_int_minus)

lemma fmul_300_streak_3: "fmul 300 (5854679515581645 / 4503599627370496) = 390"
  unfolding fmul_def
  by (rule round_double_eqI [where e = "- 44" and m = "6860952557322240"])
    (simp_all add: round_half_even_def power_int_minus)

lemma fmul_500_streak_3: "fmul 500 (5854679515581645 / 4503599627370496) = 650"
  unfolding fmul_def
  by (rule round_double_eqI [where e = "- 43" and m = "5717460464435200"])
    (simp_all add: round_half_even_def power_int_minus)

lemma fmul_1000_streak_3: "fmul 1000 (5854679515581645 / 4503599627370496) = 1300"
  unfolding fmul_def
  by (rule round_double_eqI [where e = "- 42" and m = "5717460464435200"])
    (simp_all add: round_half_even_def power_int_minus)

lemma fmul_13_tenth: "fmul 13 (3602879701896397 / 36028797018963968) = 5854679515581645 / 4503599627370496"
  unfolding fmul_def
  by (rule round_double_eqI [where e = "- 52" and m = "5854679515581645"])
    (simp_all add: round_half_even_def power_int_minus)

lemma fadd_1_13_tenths: "fadd 1 (5854679515581645 / 4503599627370496) = 2589569785738035 / 1125899906842624"
  unfolding fadd_def
  by (rule round_double_eqI [where e = "- 51" and m = "5179139571476070"])
    (simp_all add: round_half_even_def power_int_minus)

lemma fmul_100_streak_13: "fmul 100 (2589569785738035 / 1125899906842624) = 8092405580431359 / 35184372088832"
  unfolding fmul_def
  by (rule round_double_eqI [where e = "- 45" and m = "8092405580431359"])
    (simp_all add: round_half_even_def power_int_minus)

section \<open>Damage application\<close>

lemma one_window_eq:
  "one_window =
     \<lparr>sections = [\<lparr>mesh = Object3D 0 True [], visible = True, type = window, health = 50,
                   maxHealth = 50, points = 100, destroyed = False\<rparr>],
      totalHealth = 50, currentHealth = 50, destructionPercentage = 0\<rparr>"
  by (simp add: one_window_def build_colony_def new_section_def)

lemma one_window_first_hit:
  "damageSection 0 30 one_window =
     (Some (HitResult 30 False window),
      \<lparr>sections = [\<lparr>mesh = Object3D 0 True [], visible = True, type = window, health = 20,
                    maxHealth = 50, points = 100, destroyed = False\<rparr>],
       totalHealth = 50, currentHealth = 20, destructionPercentage = 0\<rparr>)"
  by (simp add: one_window_eq damageSection_def section_at_def)

lemma one_window_second_hit:
  "damageSection 0 30 (snd (damageSection 0 30 one_window)) =
     (Some (HitResult 100 True window),
      \<lparr>sections = [\<lparr>mesh = Object3D 0 True [], visible = False, type = window,
                    health = - 10, maxHealth = 50, points = 100, destroyed = True\<rparr>],
       totalHealth = 50, currentHealth = - 10, destructionPercentage = 120\<rparr>)"
  unfolding one_window_first_hit snd_conv
  by (simp add: damageSection_def section_at_def destroySection_def
      updateDestructionPercentage_def)

lemma window_and_panel_eq:
  "window_and_panel =
     \<lparr>sections =
        [\<lparr>mesh = Object3D 0 True [], visible = True, type = window, health = 50,
          maxHealth = 50, points = 100, destroyed = False\<rparr>,
         \<lparr>mesh = Object3D 1 False [Object3D 2 True [], Object3D 3 True [], Object3D 4 False []],
          visible = True, type = solarPanel, health = 100, maxHealth = 100, points = 200,
          destroyed = False\<rparr>],
      totalHealth = 150, currentHealth = 150, destructionPercentage = 0\<rparr>"
  by (simp add: window_and_panel_def build_colony_def new_section_def)

lemma window_gone_eq:
  "window_gone =
     \<lparr>sections =
        [\<lparr>mesh = Object3D 0 True [], visible = False, type = window, health = 0,
          maxHealth = 50, points = 100, destroyed = True\<rparr>,
         \<lparr>mesh = Object3D 1 False [Object3D 2 True [], Object3D 3 True [], Object3D 4 False []],
          visible = True, type = solarPanel, health = 100, maxHealth = 100, points = 200,
          destroyed = False\<rparr>],
      totalHealth = 150, currentHealth = 100, destructionPercentage = 100 / 3\<rparr>"
  by (simp add: window_gone_def window_and_panel_eq damageSection_def section_at_def
      destroySection_def updateDestructionPercentage_def)

text \<open>
  C2. One window of maxHealth 50 and points 100, hit twice for 30. The first call returns
  \<open>{destroyed: false, points: 30}\<close> and leaves the health at 20, as the claim says. The
  second call returns \<open>{destroyed: true, points: 100}\<close>, but the code leaves the health
  at -10 and sets the destruction percentage to 120, where the claim says 0 and 100.
\<close>

theorem damageSection_two_hits_of_30:
  "(let (r1, c1) = damageSection 0 30 one_window;
        (r2, c2) = damageSection 0 30 c1
    in r1 = Some (HitResult 30 False window) \<and> map health (sections c1) = [20]
     \<and> r2 = Some (HitResult 100 True window) \<and> map health (sections c2) = [- 10]
     \<and> map destroyed (sections c2) = [True]
     \<and> currentHealth c2 = - 10 \<and> getDestructionPercentage c2 = 120)"
  using one_window_second_hit
  unfolding one_window_first_hit snd_conv
  by (simp add: getDestructionPercentage_def)

lemma one_window_destroyed_eq:
  "one_window_destroyed =
     \<lparr>sections = [\<lparr>mesh = Object3D 0 True [], visible = False, type = window,
                    health = - 10, maxHealth = 50, points = 100, destroyed = True\<rparr>],
       totalHealth = 50, currentHealth = - 10, destructionPercentage = 120\<rparr>"
  by (simp add: one_window_destroyed_def one_window_second_hit)

lemma damageSection_None:
  assumes "sectionIndex < 0 \<or> int (length (sections c)) \<le> sectionIndex
             \<or> destroyed (sections c ! nat sectionIndex)"
  shows "damageSection sectionIndex dmg c = (None, c)"
  using assms by (auto simp: damageSection_def section_at_def)

text \<open>
  C4. \<open>damageSection\<close> returns null and leaves the whole structure as it was (so neither
  the section's health nor the structure-wide current health changes) whenever the index
  is outside the array or the indexed section is already destroyed; any number of
  repeated calls on such an index all return null and leave the structure unchanged.
\<close>

theorem damageSection_invalid_or_destroyed:
  assumes "sectionIndex < 0 \<or> int (length (sections c)) \<le> sectionIndex
             \<or> destroyed (sections c ! nat sectionIndex)"
  shows "damageSection sectionIndex dmg c = (None, c)
       \<and> damageSections (map (Pair sectionIndex) ds) c = (replicate (length ds) None, c)"
proof
  show first: "damageSection sectionIndex dmg c = (None, c)"
    using assms by (rule damageSection_None)
  show "damageSections (map (Pair sectionIndex) ds) c = (replicate (length ds) None, c)"
    by (induction ds) (simp_all add: damageSection_None [OF assms])
qed

theorem damageSection_invalid_or_destroyed_witness:
  "destroyed (sections one_window_destroyed ! nat 0)
   \<and> damageSection 0 30 one_window_destroyed = (None, one_window_destroyed)
   \<and> damageSections [(0, 30), (0, 30), (0, 30)] one_window_destroyed
       = ([None, None, None], one_window_destroyed)"
proof -
  have h: "(0::int) < 0 \<or> int (length (sections one_window_destroyed)) \<le> 0
             \<or> destroyed (sections one_window_destroyed ! nat 0)"
    by (simp add: one_window_destroyed_eq)
  show ?thesis
    using h damageSection_invalid_or_destroyed [OF h, of 30 "[30, 30, 30]"]
    by (simp add: one_window_destroyed_eq)
qed

text \<open>
  C10. The exposed destruction percentage is recomputed only when a section is destroyed:
  a \<open>damageSection\<close> call that does not destroy its section leaves the value returned by
  \<open>getDestructionPercentage\<close> unchanged, although a call that returned a result has
  subtracted the damage from the structure-wide current health.
\<close>

theorem nonlethal_hit_keeps_percentage:
  assumes "damageSection sectionIndex dmg c = (r, c')"
      and "\<forall>res. r = Some res \<longrightarrow> \<not> result_destroyed res"
  shows "getDestructionPercentage c' = getDestructionPercentage c
       \<and> (r \<noteq> None \<longrightarrow> currentHealth c' = currentHealth c - dmg
            \<and> (0 < dmg \<longrightarrow> currentHealth c' < currentHealth c))"
  using assms
  by (auto simp: damageSection_def getDestructionPercentage_def Let_def
      split: option.splits if_splits)

theorem nonlethal_hit_keeps_percentage_witness:
  "damageSection 0 30 one_window = (Some (HitResult 30 False window), snd (damageSection 0 30 one_window))
   \<and> getDestructionPercentage (snd (damageSection 0 30 one_window)) = 0
   \<and> getDestructionPercentage one_window = 0
   \<and> currentHealth one_window = 50
   \<and> currentHealth (snd (damageSection 0 30 one_window)) = 20"
proof -
  have h1: "damageSection 0 30 one_window
              = (Some (HitResult 30 False window), snd (damageSection 0 30 one_window))"
    by (simp add: one_window_first_hit)
  have h2: "\<forall>res. Some (HitResult 30 False window) = Some res \<longrightarrow> \<not> result_destroyed res"
    by auto
  show ?thesis
    using h1 nonlethal_hit_keeps_percentage [OF h1 h2]
    by (simp add: one_window_eq getDestructionPercentage_def)
qed

section \<open>Combo scoring\<close>

lemma addScore_combo:
  "combo (snd (addScore basePoints s)) = combo s + 1
   \<and> comboTimer (snd (addScore basePoints s)) = comboTimeout s
   \<and> comboTimeout (snd (addScore basePoints s)) = comboTimeout s
   \<and> score (snd (addScore basePoints s))
       = score s
         + \<lfloor>fmul basePoints
              (fadd 1 (fmul (real_of_int (combo s)) (round_double (1 / 10))))\<rfloor>"
  by (simp add: addScore_def Let_def)

lemma score_step_comboTimeout: "comboTimeout (score_step opn s) = comboTimeout s"
  by (cases opn) (simp_all add: addScore_combo ScoreSystem_update_def resetCombo_def Let_def)

lemma score_step_invariant:
  assumes "0 < comboTimeout s"
  shows "0 < combo (score_step opn s) \<longrightarrow> 0 < comboTimer (score_step opn s)"
proof (cases opn)
  case (AddScore basePoints)
  then show ?thesis using assms by (simp add: addScore_combo)
next
  case (Update deltaTime)
  then show ?thesis by (simp add: ScoreSystem_update_def resetCombo_def Let_def)
next
  case ResetCombo
  then show ?thesis by (simp add: resetCombo_def)
qed

text \<open>
  C5. With a positive combo window (the constructor sets 3000 ms and nothing changes it),
  after each of \<open>addScore\<close>, \<open>update\<close> and \<open>resetCombo\<close> a positive streak implies a
  positive remaining timeout. Every \<open>addScore\<close> increments the streak by exactly 1 and
  sets the timeout to the full window. An \<open>update\<close> during which the timeout of a running
  streak reaches 0 resets the streak to exactly 0; otherwise it only counts the timeout
  down.
\<close>

theorem combo_state_machine:
  assumes "0 < comboTimeout s"
  shows "(0 < combo (score_step opn s) \<longrightarrow> 0 < comboTimer (score_step opn s))
       \<and> 0 < comboTimeout (score_step opn s)
       \<and> combo (snd (addScore basePoints s)) = combo s + 1
       \<and> comboTimer (snd (addScore basePoints s)) = comboTimeout s
       \<and> (0 < combo s \<and> comboTimer s - deltaTime * 1000 \<le> 0
            \<longrightarrow> combo (ScoreSystem_update deltaTime s) = 0
              \<and> comboTimer (ScoreSystem_update deltaTime s) = 0)
       \<and> (0 < combo s \<and> 0 < comboTimer s - deltaTime * 1000
            \<longrightarrow> combo (ScoreSystem_update deltaTime s) = combo s
              \<and> comboTimer (ScoreSystem_update deltaTime s) = comboTimer s - deltaTime * 1000)"
  using assms score_step_invariant [OF assms, of opn]
  by (simp add: score_step_comboTimeout addScore_combo ScoreSystem_update_def resetCombo_def
      Let_def)

lemma combo_demo_eq:
  "combo_demo =
     \<lparr>score = 100, highScore = 0, combo = 1, comboTimer = 3000, comboTimeout = 3000,
      stats = zero_stats\<lparr>maxCombo := 1\<rparr>\<rparr>"
  by (simp add: combo_demo_def addScore_def new_ScoreSystem_def GAME_comboTimeout_def
      zero_stats_def fmul_0_left fadd_1_0 fmul_100_1 Let_def)

theorem combo_state_machine_witness:
  "0 < comboTimeout combo_demo
   \<and> combo (score_step (Update 1) combo_demo) = 1
   \<and> comboTimer (score_step (Update 1) combo_demo) = 2000
   \<and> combo (snd (addScore 100 combo_demo)) = 2
   \<and> comboTimer (snd (addScore 100 combo_demo)) = 3000
   \<and> combo (ScoreSystem_update 3 combo_demo) = 0
   \<and> comboTimer (ScoreSystem_update 3 combo_demo) = 0"
proof -
  have h: "0 < comboTimeout combo_demo"
    by (simp add: combo_demo_eq)
  show ?thesis
    using h combo_state_machine [OF h, of "Update 1" 100 3]
      combo_state_machine [OF h, of "Update 1" 100 1]
    by (simp add: combo_demo_eq)
qed

section \<open>Boost energy\<close>

lemma processMovement_fields:
  "maxBoostEnergy (processMovement input deltaTime z) = maxBoostEnergy z
   \<and> boostRegenRate (processMovement input deltaTime z) = boostRegenRate z
   \<and> boostDrainRate (processMovement input deltaTime z) = boostDrainRate z"
  by (simp add: processMovement_def Let_def)

lemma processMovement_range:
  assumes "0 \<le> boostEnergy z" "boostEnergy z \<le> maxBoostEnergy z"
      and "0 \<le> boostRegenRate z" "0 \<le> boostDrainRate z" "0 \<le> deltaTime"
  shows "0 \<le> boostEnergy (processMovement input deltaTime z)
       \<and> boostEnergy (processMovement input deltaTime z) \<le> maxBoostEnergy z"
proof -
  define drained where "drained = boostDrainRate z * deltaTime"
  define regained where "regained = boostRegenRate z * deltaTime"
  have nonneg: "0 \<le> drained" "0 \<le> regained"
    using assms by (simp_all add: drained_def regained_def)
  have eq: "boostEnergy (processMovement input deltaTime z)
              = (if boost input \<and> 0 < boostEnergy z
                 then max 0 (boostEnergy z - drained)
                 else min (maxBoostEnergy z) (boostEnergy z + regained))"
    by (simp add: processMovement_def Let_def drained_def regained_def)
  show ?thesis
    unfolding eq drained_def [symmetric] regained_def [symmetric]
    using nonneg assms by auto
qed

lemma processMovement_direction:
  assumes "boostEnergy z \<le> maxBoostEnergy z"
      and "0 \<le> boostRegenRate z" "0 \<le> boostDrainRate z" "0 \<le> deltaTime"
  shows "(if boost input \<and> 0 < boostEnergy z
          then boostEnergy (processMovement input deltaTime z)
                 = max 0 (boostEnergy z - boostDrainRate z * deltaTime)
             \<and> boostEnergy (processMovement input deltaTime z) \<le> boostEnergy z
          else boostEnergy (processMovement input deltaTime z)
                 = min (maxBoostEnergy z) (boostEnergy z + boostRegenRate z * deltaTime)
             \<and> boostEnergy z \<le> boostEnergy (processMovement input deltaTime z))"
proof -
  define drained where "drained = boostDrainRate z * deltaTime"
  define regained where "regained = boostRegenRate z * deltaTime"
  have nonneg: "0 \<le> drained" "0 \<le> regained"
    using assms by (simp_all add: drained_def regained_def)
  have eq: "boostEnergy (processMovement input deltaTime z)
              = (if boost input \<and> 0 < boostEnergy z
                 then max 0 (boostEnergy z - drained)
                 else min (maxBoostEnergy z) (boostEnergy z + regained))"
    by (simp add: processMovement_def Let_def drained_def regained_def)
  show ?thesis
    unfolding eq drained_def [symmetric] regained_def [symmetric]
    using nonneg assms by auto
qed

lemma processMovements_range:
  assumes "0 \<le> boostEnergy z" "boostEnergy z \<le> maxBoostEnergy z"
      and "0 \<le> boostRegenRate z" "0 \<le> boostDrainRate z"
      and "\<forall>step \<in> set steps. 0 \<le> snd step"
  shows "0 \<le> boostEnergy (processMovements steps z)
       \<and> boostEnergy (processMovements steps z) \<le> maxBoostEnergy z"
  using assms
proof (induction steps arbitrary: z)
  case Nil
  then show ?case by simp
next
  case (Cons step steps)
  obtain input deltaTime where step: "step = (input, deltaTime)" by (cases step)
  let ?z = "processMovement input deltaTime z"
  have dt: "0 \<le> deltaTime" using Cons.prems(5) step by simp
  have r: "0 \<le> boostEnergy ?z \<and> boostEnergy ?z \<le> maxBoostEnergy z"
    using processMovement_range [OF Cons.prems(1-4) dt] .
  have "0 \<le> boostEnergy (processMovements steps ?z)
      \<and> boostEnergy (processMovements steps ?z) \<le> maxBoostEnergy ?z"
    using Cons.prems r by (intro Cons.IH) (simp_all add: processMovement_fields)
  then show ?case by (simp add: step processMovement_fields)
qed

text \<open>
  C9. Starting with the boost energy in \<open>[0, maxBoostEnergy]\<close> and non-negative rates,
  after each call of any sequence of \<open>processMovement\<close> calls with non-negative
  \<open>deltaTime\<close> and any boost flags the energy is again in \<open>[0, maxBoostEnergy]\<close>. While
  boosting (flag set and energy left) it drains by the drain rate, stopping at 0;
  otherwise it regenerates by the regeneration rate, stopping at the maximum.
\<close>

theorem boostEnergy_stays_in_range:
  assumes "0 \<le> boostEnergy z" "boostEnergy z \<le> maxBoostEnergy z"
      and "0 \<le> boostRegenRate z" "0 \<le> boostDrainRate z"
      and "\<forall>step \<in> set steps. 0 \<le> snd step"
  shows "(\<forall>n \<le> length steps.
            0 \<le> boostEnergy (processMovements (take n steps) z)
          \<and> boostEnergy (processMovements (take n steps) z) \<le> maxBoostEnergy z)
       \<and> (0 \<le> deltaTime \<longrightarrow>
            (if boost input \<and> 0 < boostEnergy z
             then boostEnergy (processMovement input deltaTime z)
                    = max 0 (boostEnergy z - boostDrainRate z * deltaTime)
                \<and> boostEnergy (processMovement input deltaTime z) \<le> boostEnergy z
             else boostEnergy (processMovement input deltaTime z)
                    = min (maxBoostEnergy z) (boostEnergy z + boostRegenRate z * deltaTime)
                \<and> boostEnergy z \<le> boostEnergy (processMovement input deltaTime z)))"
proof (intro conjI allI impI)
  fix n assume "n \<le> length steps"
  have "\<forall>step \<in> set (take n steps). 0 \<le> snd step"
    using assms(5) by (meson in_set_takeD)
  from processMovements_range [OF assms(1-4) this]
  show "0 \<le> boostEnergy (processMovements (take n steps) z)"
    and "boostEnergy (processMovements (take n steps) z) \<le> maxBoostEnergy z"
    by simp_all
next
  assume "0 \<le> deltaTime"
  from processMovement_direction [OF assms(2-4) this]
  show "if boost input \<and> 0 < boostEnergy z
        then boostEnergy (processMovement input deltaTime z)
               = max 0 (boostEnergy z - boostDrainRate z * deltaTime)
           \<and> boostEnergy (processMovement input deltaTime z) \<le> boostEnergy z
        else boostEnergy (processMovement input deltaTime z)
               = min (maxBoostEnergy z) (boostEnergy z + boostRegenRate z * deltaTime)
           \<and> boostEnergy z \<le> boostEnergy (processMovement input deltaTime z)" .
qed

lemma boost_steps_energy:
  "boostEnergy (processMovements (take 1 boost_steps) new_Zaku) = 175 / 2
   \<and> boostEnergy (processMovements (take 2 boost_steps) new_Zaku) = 0
   \<and> boostEnergy (processMovements (take 3 boost_steps) new_Zaku) = 15 / 2
   \<and> boostEnergy (processMovements (take 4 boost_steps) new_Zaku) = 100"
  by (simp add: boost_steps_def new_Zaku_def processMovement_def boost_held_def
      boost_released_def Let_def)

theorem boostEnergy_stays_in_range_witness:
  "0 \<le> boostEnergy new_Zaku \<and> boostEnergy new_Zaku \<le> maxBoostEnergy new_Zaku
   \<and> 0 \<le> boostRegenRate new_Zaku \<and> 0 \<le> boostDrainRate new_Zaku
   \<and> 0 \<le> boostEnergy (processMovements (take 2 boost_steps) new_Zaku)
   \<and> boostEnergy (processMovements (take 2 boost_steps) new_Zaku) = 0
   \<and> boostEnergy (processMovements (take 4 boost_steps) new_Zaku) \<le> maxBoostEnergy new_Zaku
   \<and> boostEnergy (processMovements (take 4 boost_steps) new_Zaku) = 100
   \<and> boostEnergy (processMovement boost_held (1 / 2) new_Zaku) = 175 / 2"
proof -
  have h1: "0 \<le> boostEnergy new_Zaku" and h2: "boostEnergy new_Zaku \<le> maxBoostEnergy new_Zaku"
    and h3: "0 \<le> boostRegenRate new_Zaku" and h4: "0 \<le> boostDrainRate new_Zaku"
    by (simp_all add: new_Zaku_def)
  have h5: "\<forall>step \<in> set boost_steps. 0 \<le> snd step"
    by (simp add: boost_steps_def)
  have len: "2 \<le> length boost_steps" "4 \<le> length boost_steps"
    by (simp_all add: boost_steps_def)
  have held: "boost boost_held \<and> 0 < boostEnergy new_Zaku"
    by (simp add: boost_held_def new_Zaku_def)
  note inst = boostEnergy_stays_in_range [OF h1 h2 h3 h4 h5, of "1 / 2" boost_held]
  from inst len have
    "0 \<le> boostEnergy (processMovements (take 2 boost_steps) new_Zaku)"
    "boostEnergy (processMovements (take 4 boost_steps) new_Zaku) \<le> maxBoostEnergy new_Zaku"
    by blast+
  moreover from inst held have
    "boostEnergy (processMovement boost_held (1 / 2) new_Zaku)
       = max 0 (boostEnergy new_Zaku - boostDrainRate new_Zaku * (1 / 2))"
    by simp
  then have "boostEnergy (processMovement boost_held (1 / 2) new_Zaku) = 175 / 2"
    by (simp add: new_Zaku_def)
  ultimately show ?thesis
    using h1 h2 h3 h4 boost_steps_energy by simp
qed


section \<open>Fire-rate cooldown\<close>

lemma normalize_unit_z: "normalize (Vector3 0 0 (- 1)) = Vector3 0 0 (- 1)"
  by (simp add: normalize_def vec_length_def)

lemma fire_rejected:
  "now - lastFireTime z < fireRate z \<Longrightarrow> fire now muzzlePoint z = (False, z)"
  by (simp add: fire_def)

lemma fire_accepted:
  assumes "\<not> now - lastFireTime z < fireRate z"
  shows "fire now (Some (startPos, dir)) z =
           (True, z\<lparr>isFiring := True, lastFireTime := now,
                    bullets := bullets z @
                      [\<lparr>position = startPos, startPosition = startPos,
                        direction = normalize dir, distanceTraveled = 0,
                        maxDistance = bulletRange z, damage = bulletDamage z,
                        speed = bulletSpeed z\<rparr>]\<rparr>)"
  using assms by (simp add: fire_def spawnBullet_def Let_def)

text \<open>
  C6. If \<open>fire\<close> is requested while the time since the last accepted fire is strictly less
  than the fire rate, it returns false and changes nothing, so no bullet is spawned.
  Otherwise (the machine gun has its muzzle point, as \<open>createMachineGun\<close> builds it) it
  returns true, appends exactly one bullet to the live set and sets the cooldown timestamp
  to the current time; a second request less than one fire rate later returns false and
  leaves that state, with its one new bullet, as it is.
\<close>

theorem fire_cooldown:
  "(now - lastFireTime z < fireRate z \<longrightarrow> fire now muzzlePoint z = (False, z))
   \<and> (\<not> now - lastFireTime z < fireRate z \<longrightarrow>
        fst (fire now (Some (startPos, dir)) z) = True
      \<and> length (bullets (snd (fire now (Some (startPos, dir)) z))) = length (bullets z) + 1
      \<and> butlast (bullets (snd (fire now (Some (startPos, dir)) z))) = bullets z
      \<and> lastFireTime (snd (fire now (Some (startPos, dir)) z)) = now
      \<and> (later - now < fireRate z \<longrightarrow>
           fire later muzzlePoint (snd (fire now (Some (startPos, dir)) z))
             = (False, snd (fire now (Some (startPos, dir)) z))))"
proof (intro conjI impI)
  assume "now - lastFireTime z < fireRate z"
  then show "fire now muzzlePoint z = (False, z)" by (rule fire_rejected)
next
  assume a: "\<not> now - lastFireTime z < fireRate z"
  note eq = fire_accepted [OF a, of startPos dir]
  show "fst (fire now (Some (startPos, dir)) z) = True" by (simp add: eq)
  show "length (bullets (snd (fire now (Some (startPos, dir)) z))) = length (bullets z) + 1"
    by (simp add: eq)
  show "butlast (bullets (snd (fire now (Some (startPos, dir)) z))) = bullets z"
    by (simp add: eq)
  show "lastFireTime (snd (fire now (Some (startPos, dir)) z)) = now" by (simp add: eq)
  assume "later - now < fireRate z"
  then show "fire later muzzlePoint (snd (fire now (Some (startPos, dir)) z))
               = (False, snd (fire now (Some (startPos, dir)) z))"
    by (intro fire_rejected) (simp add: eq)
qed

theorem fire_cooldown_witness:
  "\<not> 1000000 - lastFireTime new_Zaku < fireRate new_Zaku
   \<and> 1000099 - 1000000 < fireRate new_Zaku
   \<and> fst (fire 1000000 muzzle_ahead new_Zaku) = True
   \<and> length (bullets (snd (fire 1000000 muzzle_ahead new_Zaku))) = 1
   \<and> fst (fire 1000099 muzzle_ahead (snd (fire 1000000 muzzle_ahead new_Zaku))) = False
   \<and> length (bullets (snd (fire 1000099 muzzle_ahead (snd (fire 1000000 muzzle_ahead new_Zaku))))) = 1"
proof -
  have h1: "\<not> 1000000 - lastFireTime new_Zaku < fireRate new_Zaku"
    by (simp add: new_Zaku_def machineGun_fireRate_def)
  have h2: "1000099 - 1000000 < fireRate new_Zaku"
    by (simp add: new_Zaku_def machineGun_fireRate_def)
  show ?thesis
    using h1 h2
      fire_cooldown [of 1000000 new_Zaku muzzle_ahead "Vector3 0 0 150" "Vector3 0 0 (- 1)" 1000099]
    by (simp add: muzzle_ahead_def new_Zaku_def)
qed

section \<open>Destruction percentage over a mission\<close>

lemma damageSection_percentage_mono:
  assumes "percentage_ok c" and "0 \<le> dmg"
  shows "percentage_ok (snd (damageSection sectionIndex dmg c))
       \<and> getDestructionPercentage c
           \<le> getDestructionPercentage (snd (damageSection sectionIndex dmg c))"
proof -
  have tot: "0 < totalHealth c"
    and le: "destructionPercentage c \<le> (totalHealth c - currentHealth c) / totalHealth c * 100"
    using assms(1) by (simp_all add: percentage_ok_def)
  have "(totalHealth c - currentHealth c) / totalHealth c
          \<le> (totalHealth c - (currentHealth c - dmg)) / totalHealth c"
    using tot assms(2) by (intro divide_right_mono) simp_all
  then have step: "(totalHealth c - currentHealth c) / totalHealth c * 100
                     \<le> (totalHealth c - (currentHealth c - dmg)) / totalHealth c * 100"
    by (rule mult_right_mono) simp
  show ?thesis
    using tot le step
    by (auto simp: damageSection_def destroySection_def updateDestructionPercentage_def
        percentage_ok_def getDestructionPercentage_def Let_def split: option.splits)
qed

text \<open>
  The first half of C3 holds: over any sequence of \<open>damageSection\<close> calls with
  non-negative damage on a structure with positive total health, the exposed percentage
  never decreases.
\<close>

lemma damageSections_percentage_mono:
  assumes "percentage_ok c" and "\<forall>h \<in> set hits. 0 \<le> snd h"
  shows "percentage_ok (snd (damageSections hits c))
       \<and> getDestructionPercentage c \<le> getDestructionPercentage (snd (damageSections hits c))"
  using assms
proof (induction hits arbitrary: c)
  case Nil
  then show ?case by simp
next
  case (Cons h hits)
  obtain i d where h: "h = (i, d)" by (cases h)
  let ?c1 = "snd (damageSection i d c)"
  have d: "0 \<le> d" using Cons.prems(2) h by simp
  note one = damageSection_percentage_mono [OF Cons.prems(1) d, of i]
  have rest: "percentage_ok (snd (damageSections hits ?c1))
       \<and> getDestructionPercentage ?c1 \<le> getDestructionPercentage (snd (damageSections hits ?c1))"
    using one Cons.prems(2) by (intro Cons.IH) simp_all
  have "snd (damageSections (h # hits) c) = snd (damageSections hits ?c1)"
    by (simp add: h split: prod.splits)
  with one rest show ?case by auto
qed

lemma overkill_window_and_panel:
  "map destroyed (sections (snd (damageSections overkill_hits window_and_panel))) = [True, True]
   \<and> map health (sections (snd (damageSections overkill_hits window_and_panel))) = [- 10, - 20]
   \<and> currentHealth (snd (damageSections overkill_hits window_and_panel)) = - 30
   \<and> getDestructionPercentage (snd (damageSections (take 1 overkill_hits) window_and_panel)) = 0
   \<and> getDestructionPercentage (snd (damageSections (take 2 overkill_hits) window_and_panel)) = 40
   \<and> getDestructionPercentage (snd (damageSections (take 3 overkill_hits) window_and_panel)) = 40
   \<and> getDestructionPercentage (snd (damageSections overkill_hits window_and_panel)) = 120"
  by (simp add: overkill_hits_def window_and_panel_eq damageSection_def section_at_def
      destroySection_def updateDestructionPercentage_def getDestructionPercentage_def)

lemma sum_list_map_update:
  fixes f :: "'a \<Rightarrow> real"
  shows "i < length xs \<Longrightarrow>
           sum_list (map f (xs[i := y])) = sum_list (map f xs) - f (xs ! i) + f y"
proof (induction xs arbitrary: i)
  case Nil
  then show ?case by simp
next
  case (Cons x xs)
  then show ?case by (cases i) simp_all
qed

lemma list_all_update:
  "list_all P xs \<Longrightarrow> P y \<Longrightarrow> list_all P (xs[i := y])"
  by (induction xs arbitrary: i) (auto split: nat.splits)

lemma damageSection_health_accounted:
  assumes "health_accounted c"
  shows "health_accounted (snd (damageSection sectionIndex dmg c))"
proof (cases "section_at (sections c) sectionIndex")
  case None
  then show ?thesis using assms by (simp add: damageSection_def)
next
  case (Some sec)
  then have idx: "0 \<le> sectionIndex" "nat sectionIndex < length (sections c)"
    and sec: "sections c ! nat sectionIndex = sec"
    by (auto simp: section_at_def split: if_splits)
  let ?i = "nat sectionIndex"
  have tot: "0 < totalHealth c"
    and cur: "currentHealth c = sum_list (map health (sections c))"
    and dead: "list_all (\<lambda>s. destroyed s \<longrightarrow> health s \<le> 0) (sections c)"
    using assms by (simp_all add: health_accounted_def)
  show ?thesis
  proof (cases "destroyed sec")
    case True
    then show ?thesis using assms Some by (simp add: damageSection_def)
  next
    case alive: False
    have not_all: "\<not> list_all destroyed (sections c)"
      using alive idx(2) sec by (auto simp: list_all_length)
    show ?thesis
    proof (cases "health sec - dmg \<le> 0")
      case True
      let ?sec2 = "sec\<lparr>health := health sec - dmg, destroyed := True, visible := False\<rparr>"
      have eq: "snd (damageSection sectionIndex dmg c)
                  = c\<lparr>sections := (sections c)[?i := ?sec2],
                       currentHealth := currentHealth c - dmg,
                       destructionPercentage :=
                         (totalHealth c - (currentHealth c - dmg)) / totalHealth c * 100\<rparr>"
        using Some alive True idx
        by (simp add: damageSection_def destroySection_def updateDestructionPercentage_def Let_def)
      have "sum_list (map health ((sections c)[?i := ?sec2])) = currentHealth c - dmg"
        using idx(2) sec cur by (simp add: sum_list_map_update)
      moreover have "list_all (\<lambda>s. destroyed s \<longrightarrow> health s \<le> 0) ((sections c)[?i := ?sec2])"
        using dead True by (intro list_all_update) simp_all
      ultimately show ?thesis
        using tot by (simp add: eq health_accounted_def)
    next
      case False
      let ?sec1 = "sec\<lparr>health := health sec - dmg\<rparr>"
      have eq: "snd (damageSection sectionIndex dmg c)
                  = c\<lparr>sections := (sections c)[?i := ?sec1],
                       currentHealth := currentHealth c - dmg\<rparr>"
        using Some alive False idx by (simp add: damageSection_def Let_def)
      have "sum_list (map health ((sections c)[?i := ?sec1])) = currentHealth c - dmg"
        using idx(2) sec cur by (simp add: sum_list_map_update)
      moreover have "list_all (\<lambda>s. destroyed s \<longrightarrow> health s \<le> 0) ((sections c)[?i := ?sec1])"
        using dead alive by (intro list_all_update) simp_all
      moreover have "\<not> list_all destroyed ((sections c)[?i := ?sec1])"
        using alive idx(2) by (auto simp: list_all_length intro!: exI [of _ ?i])
      ultimately show ?thesis
        using tot by (simp add: eq health_accounted_def)
    qed
  qed
qed

lemma damageSections_health_accounted:
  "health_accounted c \<Longrightarrow> health_accounted (snd (damageSections hits c))"
proof (induction hits arbitrary: c)
  case Nil
  then show ?case by simp
next
  case (Cons h hits)
  obtain i d where h: "h = (i, d)" by (cases h)
  have "snd (damageSections (h # hits) c) = snd (damageSections hits (snd (damageSection i d c)))"
    by (simp add: h split: prod.splits)
  with Cons.IH [OF damageSection_health_accounted [OF Cons.prems, of i d]]
  show ?case by simp
qed

text \<open>
  What the code guarantees in place of the second half of C3: once every section is
  destroyed, the exposed percentage is at least 100, and it is exactly 100 precisely
  when the destroyed sections' healths sum to zero, that is, when no finishing hit dealt
  more than the health that was left.
\<close>

lemma all_destroyed_percentage_at_least_100:
  assumes "health_accounted c" and "list_all destroyed (sections c)"
  shows "100 \<le> getDestructionPercentage c
       \<and> (getDestructionPercentage c = 100 \<longleftrightarrow> sum_list (map health (sections c)) = 0)"
proof -
  let ?t = "totalHealth c" and ?h = "sum_list (map health (sections c))"
  have tot: "0 < ?t" and cur: "currentHealth c = ?h"
    and dead: "list_all (\<lambda>s. destroyed s \<longrightarrow> health s \<le> 0) (sections c)"
    and pct: "destructionPercentage c = (?t - currentHealth c) / ?t * 100"
    using assms by (simp_all add: health_accounted_def)
  have "\<forall>s \<in> set (sections c). health s \<le> 0"
    using dead assms(2) by (auto simp: list_all_iff)
  then have neg: "?h \<le> 0"
    by (intro sum_list_nonpos) auto
  have split: "(?t - ?h) / ?t * 100 = 100 + (- ?h) / ?t * 100"
    using tot by (simp add: field_simps)
  have "0 \<le> (- ?h) / ?t" using neg tot by (intro divide_nonneg_pos) simp_all
  then have "0 \<le> (- ?h) / ?t * 100" by (intro mult_nonneg_nonneg) simp_all
  moreover have "(- ?h) / ?t * 100 = 0 \<longleftrightarrow> ?h = 0" using tot by simp
  ultimately show ?thesis
    unfolding getDestructionPercentage_def pct cur split by linarith
qed

lemma createColony_health_accounted: "health_accounted createColony"
  by (simp add: health_accounted_def createColony_def build_colony_def new_section_def
      upt_conv_Cons Let_def)

text \<open>
  C3. The colony as constructed, one hit of 600 on each of its 33 sections: every
  section is destroyed, and the exposed destruction percentage is \<open>4400 / 13\<close>, about
  338.5, where the claim says exactly 100. Each hit subtracts its full 600 from the
  structure-wide health, whatever was left of the section.
\<close>

theorem all_destroyed_percentage_above_100:
  "(case damageSections all_sections_600 createColony of
      (results, c) \<Rightarrow>
        list_all destroyed (sections c) \<and> length (sections c) = 33
      \<and> currentHealth c = - 13950 \<and> getDestructionPercentage c = 4400 / 13)"
  by (simp add: all_sections_600_def createColony_def build_colony_def new_section_def
      upt_conv_Cons Let_def damageSection_def section_at_def destroySection_def
      updateDestructionPercentage_def getDestructionPercentage_def)

text \<open>
  The scenario of C2 on the colony as constructed: its first window has 50 health and is
  worth 100 points, and after two hits of 30 its health is -10.
\<close>

lemma createColony_window_two_hits:
  "fst (damageSection 0 30 createColony) = Some (HitResult 30 False window)
   \<and> health (sections (snd (damageSection 0 30 createColony)) ! 0) = 20
   \<and> fst (damageSection 0 30 (snd (damageSection 0 30 createColony)))
       = Some (HitResult 100 True window)
   \<and> health (sections (snd (damageSection 0 30 (snd (damageSection 0 30 createColony)))) ! 0)
       = - 10
   \<and> getDestructionPercentage (snd (damageSection 0 30 (snd (damageSection 0 30 createColony))))
       = 40 / 39"
  by (simp add: createColony_def build_colony_def new_section_def
      upt_conv_Cons Let_def damageSection_def section_at_def destroySection_def
      updateDestructionPercentage_def getDestructionPercentage_def)

section \<open>Projectiles\<close>

declare updateBullets_loop.simps [simp del]
declare checkBulletCollisions_loop.simps [simp del]

lemma splice1_take: "k < length xs \<Longrightarrow> take k (splice1 k (xs[k := v])) = take k xs"
  by (simp add: splice1_def)

lemma splice1_drop: "k < length xs \<Longrightarrow> drop k (splice1 k (xs[k := v])) = drop (Suc k) xs"
  by (simp add: splice1_def)

lemma splice1_length: "k < length xs \<Longrightarrow> length (splice1 k xs) = length xs - 1"
  by (simp add: splice1_def)

lemma updateBullets_loop_closed:
  "n \<le> length bs \<Longrightarrow>
     updateBullets_loop deltaTime (int n - 1) bs =
       Some (filter (\<lambda>b. distanceTraveled b < maxDistance b)
               (map (move_bullet deltaTime) (take n bs)) @ drop n bs)"
proof (induction n arbitrary: bs)
  case 0
  then show ?case by (simp add: updateBullets_loop.simps)
next
  case (Suc k)
  then have k: "k < length bs" by simp
  let ?b = "move_bullet deltaTime (bs ! k)"
  let ?bs1 = "bs[k := ?b]"
  have tk: "take (Suc k) bs = take k bs @ [bs ! k]"
    using k by (simp add: take_Suc_conv_app_nth)
  show ?case
  proof (cases "distanceTraveled ?b \<ge> maxDistance ?b")
    case True
    have len: "k \<le> length (splice1 k ?bs1)" using k by (simp add: splice1_length)
    have "updateBullets_loop deltaTime (int (Suc k) - 1) bs
            = updateBullets_loop deltaTime (int k - 1) (splice1 k ?bs1)"
      using k True by (subst updateBullets_loop.simps) (simp add: Let_def)
    also have "\<dots> = Some (filter (\<lambda>b. distanceTraveled b < maxDistance b)
                        (map (move_bullet deltaTime) (take k bs)) @ drop (Suc k) bs)"
      using Suc.IH [OF len] k by (simp add: splice1_take splice1_drop)
    finally show ?thesis using True by (simp add: tk)
  next
    case False
    have len: "k \<le> length ?bs1" using k by simp
    have "updateBullets_loop deltaTime (int (Suc k) - 1) bs
            = updateBullets_loop deltaTime (int k - 1) ?bs1"
      using k False by (subst updateBullets_loop.simps) (simp add: Let_def)
    also have "\<dots> = Some (filter (\<lambda>b. distanceTraveled b < maxDistance b)
                        (map (move_bullet deltaTime) (take k bs)) @ ?b # drop (Suc k) bs)"
      using Suc.IH [OF len] k by (simp add: drop_update_cancel Cons_nth_drop_Suc [symmetric] upd_conv_take_nth_drop)
    finally show ?thesis using False by (simp add: tk)
  qed
qed

lemma updateBullets_closed:
  "updateBullets deltaTime z =
     Some (z\<lparr>bullets := filter (\<lambda>b. distanceTraveled b < maxDistance b)
                           (map (move_bullet deltaTime) (bullets z))\<rparr>)"
  using updateBullets_loop_closed [of "length (bullets z)" "bullets z" deltaTime]
  by (simp add: updateBullets_def)

lemma move_bullet_fields:
  "position (move_bullet deltaTime b)
     = vec_add (position b) (multiplyScalar (direction b) (fmul (speed b) deltaTime))
   \<and> distanceTraveled (move_bullet deltaTime b)
       = fadd (distanceTraveled b) (fmul (speed b) deltaTime)
   \<and> maxDistance (move_bullet deltaTime b) = maxDistance b
   \<and> speed (move_bullet deltaTime b) = speed b
   \<and> direction (move_bullet deltaTime b) = direction b
   \<and> damage (move_bullet deltaTime b) = damage b"
  by (simp add: move_bullet_def Let_def)

lemma checkBulletCollisions_loop_no_hit:
  assumes "\<forall>p d far ts. bulletRay env p d far ts = []"
  shows "n \<le> length (bullets (zaku g)) \<Longrightarrow>
           checkBulletCollisions_loop env targets (int n - 1) g = Some g"
proof (induction n)
  case 0
  then show ?case by (simp add: checkBulletCollisions_loop.simps)
next
  case (Suc k)
  then have "checkBulletCollisions_loop env targets (int (Suc k) - 1) g
               = checkBulletCollisions_loop env targets (int k - 1) g"
    using assms by (subst checkBulletCollisions_loop.simps) (simp add: Let_def)
  with Suc show ?case by simp
qed

lemma checkBulletCollisions_no_hit:
  "\<forall>p d far ts. bulletRay env p d far ts = [] \<Longrightarrow> checkBulletCollisions env g = Some g"
  by (simp add: checkBulletCollisions_def checkBulletCollisions_loop_no_hit)

lemma processMovement_bullets: "bullets (processMovement input deltaTime z) = bullets z"
  by (simp add: processMovement_def Let_def)

lemma ScoreSystem_update_score:
  "score (ScoreSystem_update deltaTime s) = score s \<and> stats (ScoreSystem_update deltaTime s) = stats s"
  by (simp add: ScoreSystem_update_def resetCombo_def Let_def)

text \<open>One frame in which the trigger is up and no bullet ray intersects anything.\<close>

lemma gameLoop_quiet:
  assumes "state g = playing" and "delta < missionTimer g"
      and "getDestructionPercentage (colony g) < GAME_targetDestructionRate"
      and "\<not> frame_mouseDown env" and "\<forall>p d far ts. bulletRay env p d far ts = []"
  shows "\<exists>g1. gameLoop env delta g = Some g1
           \<and> state g1 = playing \<and> missionTimer g1 = missionTimer g - delta
           \<and> colony g1 = colony g
           \<and> score (scoreSystem g1) = score (scoreSystem g)
           \<and> stats (scoreSystem g1) = stats (scoreSystem g)
           \<and> bullets (zaku g1) = filter (\<lambda>b. distanceTraveled b < maxDistance b)
                                    (map (move_bullet delta) (bullets (zaku g)))"
  using assms
  by (simp add: gameLoop_def Game_update_def Zaku_update_def updateBullets_closed
      checkBulletCollisions_no_hit processMovement_bullets ScoreSystem_update_score Let_def)

text \<open>
  Over such frames the colony and the score statistics stay as they are, and the live
  set is the one a sequence of \<open>updateBullets\<close> calls with the same time steps leaves.
\<close>

lemma updateBullets_frames_bullets:
  "bullets z = bullets z' \<Longrightarrow>
     map_option bullets (updateBullets_frames dts z)
       = map_option bullets (updateBullets_frames dts z')"
proof (induction dts arbitrary: z z')
  case Nil
  then show ?case by simp
next
  case (Cons dt dts)
  let ?bs = "filter (\<lambda>b. distanceTraveled b < maxDistance b)
               (map (move_bullet dt) (bullets z))"
  have "map_option bullets (updateBullets_frames dts (z\<lparr>bullets := ?bs\<rparr>))
          = map_option bullets (updateBullets_frames dts (z'\<lparr>bullets := ?bs\<rparr>))"
    by (rule Cons.IH) simp
  then show ?case using Cons.prems by (simp add: updateBullets_closed)
qed

lemma updateBullets_frames_returns: "\<exists>z'. updateBullets_frames dts z = Some z'"
  by (induction dts arbitrary: z) (simp_all add: updateBullets_closed)

lemma gameLoops_quiet:
  assumes "\<forall>fr \<in> set frames. \<not> frame_mouseDown (fst fr)
              \<and> (\<forall>p d far ts. bulletRay (fst fr) p d far ts = []) \<and> 0 \<le> snd fr"
      and "state g = playing" and "sum_list (map snd frames) < missionTimer g"
      and "getDestructionPercentage (colony g) < GAME_targetDestructionRate"
  shows "\<exists>g'. gameLoops frames g = Some g'
            \<and> colony g' = colony g \<and> score (scoreSystem g') = score (scoreSystem g)
            \<and> stats (scoreSystem g') = stats (scoreSystem g)
            \<and> map_option bullets (updateBullets_frames (map snd frames) (zaku g))
                = Some (bullets (zaku g'))"
  using assms
proof (induction frames arbitrary: g)
  case Nil
  then show ?case by simp
next
  case (Cons fr frames)
  obtain env delta where fr: "fr = (env, delta)" by (cases fr)
  have quiet: "\<not> frame_mouseDown env" "\<forall>p d far ts. bulletRay env p d far ts = []" "0 \<le> delta"
    using Cons.prems(1) fr by auto
  have rest_nonneg: "0 \<le> sum_list (map snd frames)"
    using Cons.prems(1) by (intro sum_list_nonneg) auto
  have total: "sum_list (map snd (fr # frames)) = delta + sum_list (map snd frames)"
    by (simp add: fr)
  have "delta < missionTimer g"
    using Cons.prems(3) rest_nonneg total by linarith
  from gameLoop_quiet [OF Cons.prems(2) this Cons.prems(4) quiet(1,2)]
  obtain g1 where g1: "gameLoop env delta g = Some g1" "state g1 = playing"
      "missionTimer g1 = missionTimer g - delta" "colony g1 = colony g"
      "score (scoreSystem g1) = score (scoreSystem g)"
      "stats (scoreSystem g1) = stats (scoreSystem g)"
      "bullets (zaku g1) = filter (\<lambda>b. distanceTraveled b < maxDistance b)
                             (map (move_bullet delta) (bullets (zaku g)))"
    by blast
  have "\<exists>g'. gameLoops frames g1 = Some g'
            \<and> colony g' = colony g1 \<and> score (scoreSystem g') = score (scoreSystem g1)
            \<and> stats (scoreSystem g') = stats (scoreSystem g1)
            \<and> map_option bullets (updateBullets_frames (map snd frames) (zaku g1))
                = Some (bullets (zaku g'))"
  proof (rule Cons.IH)
    show "\<forall>fr \<in> set frames. \<not> frame_mouseDown (fst fr)
              \<and> (\<forall>p d far ts. bulletRay (fst fr) p d far ts = []) \<and> 0 \<le> snd fr"
      using Cons.prems(1) by simp
    show "state g1 = playing" by (rule g1(2))
    show "sum_list (map snd frames) < missionTimer g1"
      using Cons.prems(3) total g1(3) by linarith
    show "getDestructionPercentage (colony g1) < GAME_targetDestructionRate"
      using Cons.prems(4) g1(4) by simp
  qed
  then obtain g' where g': "gameLoops frames g1 = Some g'" "colony g' = colony g1"
      "score (scoreSystem g') = score (scoreSystem g1)"
      "stats (scoreSystem g') = stats (scoreSystem g1)"
      "map_option bullets (updateBullets_frames (map snd frames) (zaku g1))
         = Some (bullets (zaku g'))"
    by blast
  have same: "bullets (zaku g1) = bullets ((zaku g)\<lparr>bullets := bullets (zaku g1)\<rparr>)"
    by simp
  have "map_option bullets (updateBullets_frames (map snd (fr # frames)) (zaku g))
          = map_option bullets
              (updateBullets_frames (map snd frames) ((zaku g)\<lparr>bullets := bullets (zaku g1)\<rparr>))"
    by (simp add: fr updateBullets_closed g1(7))
  also have "\<dots> = Some (bullets (zaku g'))"
    using updateBullets_frames_bullets [OF same, of "map snd frames"] g'(5) by simp
  finally show ?case
    using g1 g' by (simp add: fr)
qed

text \<open>
  The bullet of range 60 and speed 150 in double arithmetic. A tick of 0.016 s moves it by
  the double nearest to 2.4, and the distance accumulated over 25 such ticks is
  59.99999999999998; the 26th tick takes it to 62.39999999999998. A tick of 0.1 s moves
  it by exactly 15.
\<close>

lemma double_0_016: "round_double (2 / 125) = 1152921504606847 / 72057594037927936"
  by (rule round_double_eqI [where e = "- 58" and m = "4611686018427388"])
    (simp_all add: round_half_even_def power_int_minus)

lemma fmul_150_0_016: "fmul 150 (1152921504606847 / 72057594037927936) = 5404319552844595 / 2251799813685248"
  unfolding fmul_def
  by (rule round_double_eqI [where e = "- 51" and m = "5404319552844595"])
    (simp_all add: round_half_even_def power_int_minus)

lemma slow_distance_1: "fadd 0 (5404319552844595 / 2251799813685248) = 5404319552844595 / 2251799813685248"
  unfolding fadd_def
  by (rule round_double_eqI [where e = "- 51" and m = "5404319552844595"])
    (simp_all add: round_half_even_def power_int_minus)

lemma slow_distance_2: "fadd (5404319552844595 / 2251799813685248) (5404319552844595 / 2251799813685248) = 5404319552844595 / 1125899906842624"
  unfolding fadd_def
  by (rule round_double_eqI [where e = "- 50" and m = "5404319552844595"])
    (simp_all add: round_half_even_def power_int_minus)

lemma slow_distance_3: "fadd (5404319552844595 / 1125899906842624) (5404319552844595 / 2251799813685248) = 2026619832316723 / 281474976710656"
  unfolding fadd_def
  by (rule round_double_eqI [where e = "- 50" and m = "8106479329266892"])
    (simp_all add: round_half_even_def power_int_minus)

lemma slow_distance_4: "fadd (2026619832316723 / 281474976710656) (5404319552844595 / 2251799813685248) = 5404319552844595 / 562949953421312"
  unfolding fadd_def
  by (rule round_double_eqI [where e = "- 49" and m = "5404319552844595"])
    (simp_all add: round_half_even_def power_int_minus)

lemma slow_distance_5: "fadd (5404319552844595 / 562949953421312) (5404319552844595 / 2251799813685248) = 12"
  unfolding fadd_def
  by (rule round_double_eqI [where e = "- 49" and m = "6755399441055744"])
    (simp_all add: round_half_even_def power_int_minus)

lemma slow_distance_6: "fadd 12 (5404319552844595 / 2251799813685248) = 8106479329266893 / 562949953421312"
  unfolding fadd_def
  by (rule round_double_eqI [where e = "- 49" and m = "8106479329266893"])
    (simp_all add: round_half_even_def power_int_minus)

lemma slow_distance_7: "fadd (8106479329266893 / 562949953421312) (5404319552844595 / 2251799813685248) = 4728779608739021 / 281474976710656"
  unfolding fadd_def
  by (rule round_double_eqI [where e = "- 48" and m = "4728779608739021"])
    (simp_all add: round_half_even_def power_int_minus)

lemma slow_distance_8: "fadd (4728779608739021 / 281474976710656) (5404319552844595 / 2251799813685248) = 5404319552844595 / 281474976710656"
  unfolding fadd_def
  by (rule round_double_eqI [where e = "- 48" and m = "5404319552844595"])
    (simp_all add: round_half_even_def power_int_minus)

lemma slow_distance_9: "fadd (5404319552844595 / 281474976710656) (5404319552844595 / 2251799813685248) = 6079859496950169 / 281474976710656"
  unfolding fadd_def
  by (rule round_double_eqI [where e = "- 48" and m = "6079859496950169"])
    (simp_all add: round_half_even_def power_int_minus)

lemma slow_distance_10: "fadd (6079859496950169 / 281474976710656) (5404319552844595 / 2251799813685248) = 6755399441055743 / 281474976710656"
  unfolding fadd_def
  by (rule round_double_eqI [where e = "- 48" and m = "6755399441055743"])
    (simp_all add: round_half_even_def power_int_minus)

lemma slow_distance_11: "fadd (6755399441055743 / 281474976710656) (5404319552844595 / 2251799813685248) = 7430939385161317 / 281474976710656"
  unfolding fadd_def
  by (rule round_double_eqI [where e = "- 48" and m = "7430939385161317"])
    (simp_all add: round_half_even_def power_int_minus)

lemma slow_distance_12: "fadd (7430939385161317 / 281474976710656) (5404319552844595 / 2251799813685248) = 8106479329266891 / 281474976710656"
  unfolding fadd_def
  by (rule round_double_eqI [where e = "- 48" and m = "8106479329266891"])
    (simp_all add: round_half_even_def power_int_minus)

lemma slow_distance_13: "fadd (8106479329266891 / 281474976710656) (5404319552844595 / 2251799813685248) = 8782019273372465 / 281474976710656"
  unfolding fadd_def
  by (rule round_double_eqI [where e = "- 48" and m = "8782019273372465"])
    (simp_all add: round_half_even_def power_int_minus)

lemma slow_distance_14: "fadd (8782019273372465 / 281474976710656) (5404319552844595 / 2251799813685248) = 1182194902184755 / 35184372088832"
  unfolding fadd_def
  by (rule round_double_eqI [where e = "- 47" and m = "4728779608739020"])
    (simp_all add: round_half_even_def power_int_minus)

lemma slow_distance_15: "fadd (1182194902184755 / 35184372088832) (5404319552844595 / 2251799813685248) = 5066549580791807 / 140737488355328"
  unfolding fadd_def
  by (rule round_double_eqI [where e = "- 47" and m = "5066549580791807"])
    (simp_all add: round_half_even_def power_int_minus)

lemma slow_distance_16: "fadd (5066549580791807 / 140737488355328) (5404319552844595 / 2251799813685248) = 2702159776422297 / 70368744177664"
  unfolding fadd_def
  by (rule round_double_eqI [where e = "- 47" and m = "5404319552844594"])
    (simp_all add: round_half_even_def power_int_minus)

lemma slow_distance_17: "fadd (2702159776422297 / 70368744177664) (5404319552844595 / 2251799813685248) = 5742089524897381 / 140737488355328"
  unfolding fadd_def
  by (rule round_double_eqI [where e = "- 47" and m = "5742089524897381"])
    (simp_all add: round_half_even_def power_int_minus)

lemma slow_distance_18: "fadd (5742089524897381 / 140737488355328) (5404319552844595 / 2251799813685248) = 759982437118771 / 17592186044416"
  unfolding fadd_def
  by (rule round_double_eqI [where e = "- 47" and m = "6079859496950168"])
    (simp_all add: round_half_even_def power_int_minus)

lemma slow_distance_19: "fadd (759982437118771 / 17592186044416) (5404319552844595 / 2251799813685248) = 6417629469002955 / 140737488355328"
  unfolding fadd_def
  by (rule round_double_eqI [where e = "- 47" and m = "6417629469002955"])
    (simp_all add: round_half_even_def power_int_minus)

lemma slow_distance_20: "fadd (6417629469002955 / 140737488355328) (5404319552844595 / 2251799813685248) = 3377699720527871 / 70368744177664"
  unfolding fadd_def
  by (rule round_double_eqI [where e = "- 47" and m = "6755399441055742"])
    (simp_all add: round_half_even_def power_int_minus)

lemma slow_distance_21: "fadd (3377699720527871 / 70368744177664) (5404319552844595 / 2251799813685248) = 7093169413108529 / 140737488355328"
  unfolding fadd_def
  by (rule round_double_eqI [where e = "- 47" and m = "7093169413108529"])
    (simp_all add: round_half_even_def power_int_minus)

lemma slow_distance_22: "fadd (7093169413108529 / 140737488355328) (5404319552844595 / 2251799813685248) = 1857734846290329 / 35184372088832"
  unfolding fadd_def
  by (rule round_double_eqI [where e = "- 47" and m = "7430939385161316"])
    (simp_all add: round_half_even_def power_int_minus)

lemma slow_distance_23: "fadd (1857734846290329 / 35184372088832) (5404319552844595 / 2251799813685248) = 7768709357214103 / 140737488355328"
  unfolding fadd_def
  by (rule round_double_eqI [where e = "- 47" and m = "7768709357214103"])
    (simp_all add: round_half_even_def power_int_minus)

lemma slow_distance_24: "fadd (7768709357214103 / 140737488355328) (5404319552844595 / 2251799813685248) = 4053239664633445 / 70368744177664"
  unfolding fadd_def
  by (rule round_double_eqI [where e = "- 47" and m = "8106479329266890"])
    (simp_all add: round_half_even_def power_int_minus)

lemma slow_distance_25: "fadd (4053239664633445 / 70368744177664) (5404319552844595 / 2251799813685248) = 8444249301319677 / 140737488355328"
  unfolding fadd_def
  by (rule round_double_eqI [where e = "- 47" and m = "8444249301319677"])
    (simp_all add: round_half_even_def power_int_minus)

lemma slow_distance_26: "fadd (8444249301319677 / 140737488355328) (5404319552844595 / 2251799813685248) = 548876204585779 / 8796093022208"
  unfolding fadd_def
  by (rule round_double_eqI [where e = "- 47" and m = "8782019273372464"])
    (simp_all add: round_half_even_def power_int_minus)

lemma fmul_150_tenth: "fmul 150 (3602879701896397 / 36028797018963968) = 15"
  unfolding fmul_def
  by (rule round_double_eqI [where e = "- 49" and m = "8444249301319680"])
    (simp_all add: round_half_even_def power_int_minus)

lemma tenth_distance_1: "fadd 0 15 = 15"
  unfolding fadd_def
  by (rule round_double_eqI [where e = "- 49" and m = "8444249301319680"])
    (simp_all add: round_half_even_def power_int_minus)

lemma tenth_distance_2: "fadd 15 15 = 30"
  unfolding fadd_def
  by (rule round_double_eqI [where e = "- 48" and m = "8444249301319680"])
    (simp_all add: round_half_even_def power_int_minus)

lemma tenth_distance_3: "fadd 30 15 = 45"
  unfolding fadd_def
  by (rule round_double_eqI [where e = "- 47" and m = "6333186975989760"])
    (simp_all add: round_half_even_def power_int_minus)

lemma tenth_distance_4: "fadd 45 15 = 60"
  unfolding fadd_def
  by (rule round_double_eqI [where e = "- 47" and m = "8444249301319680"])
    (simp_all add: round_half_even_def power_int_minus)

lemmas slow_distances =
  slow_distance_1 slow_distance_2 slow_distance_3 slow_distance_4 slow_distance_5
  slow_distance_6 slow_distance_7 slow_distance_8 slow_distance_9 slow_distance_10
  slow_distance_11 slow_distance_12 slow_distance_13 slow_distance_14 slow_distance_15
  slow_distance_16 slow_distance_17 slow_distance_18 slow_distance_19 slow_distance_20
  slow_distance_21 slow_distance_22 slow_distance_23 slow_distance_24 slow_distance_25
  slow_distance_26

lemma fired_zaku_bullets:
  "bullets fired_zaku =
     [\<lparr>position = Vector3 0 0 150, startPosition = Vector3 0 0 150,
       direction = Vector3 0 0 (- 1), distanceTraveled = 0, maxDistance = 60, damage = 10,
       speed = 150\<rparr>]"
  by (simp add: fired_zaku_def muzzle_ahead_def fire_def spawnBullet_def
      new_Zaku_def machineGun_fireRate_def machineGun_range_def machineGun_damage_def
      normalize_unit_z Let_def)

lemma slow_ticks_eq: "slow_ticks = replicate 25 (1152921504606847 / 72057594037927936)"
  by (simp add: slow_ticks_def double_0_016)

lemma slow_ticks_distance:
  "map_option (map distanceTraveled \<circ> bullets) (updateBullets_frames slow_ticks fired_zaku)
     = Some [8444249301319677 / 140737488355328]"
  unfolding slow_ticks_eq
  by (simp add: numeral_eq_Suc updateBullets_closed move_bullet_def fired_zaku_bullets
      fmul_150_0_016 slow_distances Let_def)

lemma tenth_ticks_removed:
  "map_option bullets
     (updateBullets_frames (replicate 4 (round_double (1 / 10))) fired_zaku) = Some []"
  by (simp add: double_tenth numeral_eq_Suc updateBullets_closed move_bullet_def
      fired_zaku_bullets fmul_150_tenth tenth_distance_1 tenth_distance_2 tenth_distance_3
      tenth_distance_4 Let_def)

lemma slow_ticks_next_removed:
  "map_option bullets
     (updateBullets_frames (slow_ticks @ [round_double (2 / 125)]) fired_zaku) = Some []"
  unfolding slow_ticks_eq
  by (simp add: double_0_016 numeral_eq_Suc updateBullets_closed move_bullet_def
      fired_zaku_bullets fmul_150_0_016 slow_distances Let_def)

text \<open>
  C7, as the code has it. \<open>updateBullets(deltaTime)\<close> returns normally, and the live set
  afterwards is the old one with every bullet moved exactly once, in the same order, and
  the bullets whose accumulated distance has reached their maximum range removed: the
  backwards loop with its splices skips none and handles none twice. Moving a bullet adds
  \<open>direction * (speed * deltaTime)\<close> to its position and \<open>speed * deltaTime\<close> to its
  distance travelled, each product and sum rounded to a double. Over frames in which the
  trigger is up and no bullet ray intersects anything, the colony and the damage and score
  statistics are what they were, and the live set is the one left by \<open>updateBullets\<close>
  alone. A bullet of range 60 and speed 150 is gone after four ticks of 0.1 s; after 25
  ticks of 0.016 s its accumulated distance is 59.99999999999998 and it is still live,
  and the 26th tick removes it.
\<close>

theorem updateBullets_range_expiry:
  "updateBullets deltaTime z =
     Some (z\<lparr>bullets := filter (\<lambda>b. distanceTraveled b < maxDistance b)
                           (map (move_bullet deltaTime) (bullets z))\<rparr>)
   \<and> position (move_bullet deltaTime b)
       = vec_add (position b) (multiplyScalar (direction b) (fmul (speed b) deltaTime))
   \<and> distanceTraveled (move_bullet deltaTime b)
       = fadd (distanceTraveled b) (fmul (speed b) deltaTime)
   \<and> maxDistance (move_bullet deltaTime b) = maxDistance b
   \<and> ((\<forall>fr \<in> set frames. \<not> frame_mouseDown (fst fr)
              \<and> (\<forall>p d far ts. bulletRay (fst fr) p d far ts = []) \<and> 0 \<le> snd fr)
        \<and> state g = playing \<and> sum_list (map snd frames) < missionTimer g
        \<and> getDestructionPercentage (colony g) < GAME_targetDestructionRate
        \<longrightarrow> (\<exists>g'. gameLoops frames g = Some g'
                 \<and> colony g' = colony g \<and> score (scoreSystem g') = score (scoreSystem g)
                 \<and> stats (scoreSystem g') = stats (scoreSystem g)
                 \<and> map_option bullets (updateBullets_frames (map snd frames) (zaku g))
                     = Some (bullets (zaku g'))))
   \<and> map_option bullets
         (updateBullets_frames (replicate 4 (round_double (1 / 10))) fired_zaku) = Some []
   \<and> map_option (map distanceTraveled \<circ> bullets) (updateBullets_frames slow_ticks fired_zaku)
       = Some [8444249301319677 / 140737488355328]
   \<and> map_option bullets
         (updateBullets_frames (slow_ticks @ [round_double (2 / 125)]) fired_zaku) = Some []"
  using updateBullets_closed [of deltaTime z] move_bullet_fields [of deltaTime b]
    gameLoops_quiet [of frames g] tenth_ticks_removed slow_ticks_distance
    slow_ticks_next_removed
  by blast

lemma four_frames_quiet:
  "\<forall>fr \<in> set four_frames. \<not> frame_mouseDown (fst fr)
      \<and> (\<forall>p d far ts. bulletRay (fst fr) p d far ts = []) \<and> 0 \<le> snd fr"
  by (simp add: four_frames_def quiet_frame_def double_tenth)

lemma four_frames_ticks: "map snd four_frames = replicate 4 (round_double (1 / 10))"
  by (simp add: four_frames_def)

lemma four_frames_time:
  "sum_list (replicate 4 (round_double (1 / 10))) = 3602879701896397 / 9007199254740992"
  by (simp add: double_tenth sum_list_replicate)

lemma createColony_percentage: "getDestructionPercentage createColony = 0"
  by (simp add: getDestructionPercentage_def createColony_def build_colony_def Let_def)

lemma new_game_fields:
  "state new_game = playing \<and> missionTimer new_game = 300 \<and> colony new_game = createColony
   \<and> score (scoreSystem new_game) = 0 \<and> combo (scoreSystem new_game) = 0
   \<and> stats (scoreSystem new_game) = zero_stats"
  by (simp add: new_game_def GAME_missionTime_def new_ScoreSystem_def)

theorem updateBullets_range_expiry_witness:
  "2 / 5 \<le> sum_list (map snd four_frames)
   \<and> map maxDistance (bullets (zaku bullet_game)) = [60]
   \<and> map speed (bullets (zaku bullet_game)) = [150]
   \<and> (\<exists>g'. gameLoops four_frames bullet_game = Some g' \<and> bullets (zaku g') = []
          \<and> colony g' = createColony \<and> score (scoreSystem g') = 0
          \<and> totalDamage (stats (scoreSystem g')) = 0)"
proof -
  have h2: "state bullet_game = playing"
    and h3: "sum_list (map snd four_frames) < missionTimer bullet_game"
    and h4: "getDestructionPercentage (colony bullet_game) < GAME_targetDestructionRate"
    by (simp_all add: four_frames_ticks four_frames_time bullet_game_def new_game_fields
        createColony_percentage GAME_targetDestructionRate_def)
  have start: "colony bullet_game = createColony" "score (scoreSystem bullet_game) = 0"
    "totalDamage (stats (scoreSystem bullet_game)) = 0" "zaku bullet_game = fired_zaku"
    by (simp_all add: bullet_game_def new_game_fields zero_stats_def)
  note inst = updateBullets_range_expiry [of _ _ _ four_frames bullet_game]
  from inst four_frames_quiet h2 h3 h4
  obtain g' where g': "gameLoops four_frames bullet_game = Some g'"
      "colony g' = colony bullet_game"
      "score (scoreSystem g') = score (scoreSystem bullet_game)"
      "stats (scoreSystem g') = stats (scoreSystem bullet_game)"
      "map_option bullets (updateBullets_frames (map snd four_frames) (zaku bullet_game))
         = Some (bullets (zaku g'))"
    by blast
  from inst have "map_option bullets
         (updateBullets_frames (replicate 4 (round_double (1 / 10))) fired_zaku) = Some []"
    by blast
  with g'(5) have "bullets (zaku g') = []"
    by (simp add: four_frames_ticks start(4))
  with g' start show ?thesis
    by (auto simp: four_frames_ticks four_frames_time fired_zaku_bullets)
qed

text \<open>
  C7, as the claim states it, fails at its own example. The unit has fired one bullet of
  range 60 and speed 150; 25 ticks of 0.016 s follow, 0.4 s in all, in frames with no
  intersection. The distance the code has accumulated is 59.99999999999998, below 60, and
  the bullet is still in the live set.
\<close>

theorem bullet_live_after_slow_ticks_counterexample:
  "2 / 5 \<le> sum_list slow_ticks
   \<and> map maxDistance (bullets fired_zaku) = [60]
   \<and> map speed (bullets fired_zaku) = [150]
   \<and> map_option (map distanceTraveled \<circ> bullets) (updateBullets_frames slow_ticks fired_zaku)
       = Some [8444249301319677 / 140737488355328]
   \<and> map_option (map distanceTraveled \<circ> bullets \<circ> zaku) (gameLoops slow_frames bullet_game)
       = Some [8444249301319677 / 140737488355328]
   \<and> (8444249301319677 / 140737488355328 :: real) < 60"
proof -
  have quiet: "\<forall>fr \<in> set slow_frames. \<not> frame_mouseDown (fst fr)
      \<and> (\<forall>p d far ts. bulletRay (fst fr) p d far ts = []) \<and> 0 \<le> snd fr"
    by (simp add: slow_frames_def slow_ticks_eq quiet_frame_def)
  have ticks: "map snd slow_frames = slow_ticks"
    by (simp add: slow_frames_def comp_def)
  have total: "sum_list slow_ticks = 28823037615171175 / 72057594037927936"
    by (simp add: slow_ticks_eq sum_list_replicate)
  have h2: "state bullet_game = playing"
    and h3: "sum_list (map snd slow_frames) < missionTimer bullet_game"
    and h4: "getDestructionPercentage (colony bullet_game) < GAME_targetDestructionRate"
    by (simp_all add: ticks total bullet_game_def new_game_fields
        createColony_percentage GAME_targetDestructionRate_def)
  from gameLoops_quiet [OF quiet h2 h3 h4]
  obtain g' where g': "gameLoops slow_frames bullet_game = Some g'"
      "map_option bullets (updateBullets_frames slow_ticks (zaku bullet_game))
         = Some (bullets (zaku g'))"
    unfolding ticks by blast
  have "zaku bullet_game = fired_zaku" by (simp add: bullet_game_def)
  with g'(2) slow_ticks_distance
  have "map distanceTraveled (bullets (zaku g')) = [8444249301319677 / 140737488355328]"
    by (auto simp: option.map_comp [symmetric])
  then show ?thesis
    using slow_ticks_distance g'(1) by (simp add: total fired_zaku_bullets)
qed

section \<open>Hit resolution\<close>

lemma getSectionAtPoint_loop_sound:
  "getSectionAtPoint_loop target i ss = Some (j, sec) \<Longrightarrow>
     i \<le> j \<and> j - i < length ss \<and> ss ! (j - i) = sec \<and> \<not> destroyed sec
   \<and> (uuid (mesh sec) = node_uuid target \<or> parent_loop (uuid (mesh sec)) (parent target))"
proof (induction ss arbitrary: i)
  case Nil
  then show ?case by simp
next
  case (Cons s ss)
  show ?case
  proof (cases "getSectionAtPoint_loop target i (s # ss) = getSectionAtPoint_loop target (Suc i) ss")
    case True
    with Cons.prems have "getSectionAtPoint_loop target (Suc i) ss = Some (j, sec)" by simp
    from Cons.IH [OF this] show ?thesis
      by (auto simp: Suc_diff_le)
  next
    case False
    then have "\<not> destroyed s" and "getSectionAtPoint_loop target i (s # ss) = Some (i, s)"
      and "uuid (mesh s) = node_uuid target \<or> parent_loop (uuid (mesh s)) (parent target)"
      by (auto split: if_splits)
    with Cons.prems show ?thesis by auto
  qed
qed

lemma getSectionAtPoint_sound:
  "getSectionAtPoint c hit = Some (index, sec) \<Longrightarrow>
     index < length (sections c) \<and> sections c ! index = sec \<and> \<not> destroyed sec"
  using getSectionAtPoint_loop_sound [of "object hit" 0 "sections c" index sec]
  by (simp add: getSectionAtPoint_def)

lemma mesh_in_traverse: "m \<in> set (traverse m)"
  by (cases m) simp

lemma getHitTargets_live:
  "t \<in> set (getHitTargets c) \<Longrightarrow>
     \<exists>s \<in> set (sections c). \<not> destroyed s \<and> t \<in> set (traverse (mesh s))"
  by (auto simp: getHitTargets_def mesh_in_traverse split: if_splits)

lemma distinct_concat_nth_disjoint:
  "distinct (concat xss) \<Longrightarrow> i < k \<Longrightarrow> k < length xss \<Longrightarrow> set (xss ! i) \<inter> set (xss ! k) = {}"
proof (induction xss arbitrary: i k)
  case Nil
  then show ?case by simp
next
  case (Cons xs xss)
  obtain k' where k': "k = Suc k'" using Cons.prems(2) by (cases k) auto
  then have mem: "xss ! k' \<in> set xss" using Cons.prems(3) by simp
  show ?case
  proof (cases i)
    case 0
    have "set xs \<inter> set (xss ! k') = {}"
      using Cons.prems(1) mem by auto
    then show ?thesis by (simp add: 0 k')
  next
    case (Suc i')
    have "set (xss ! i') \<inter> set (xss ! k') = {}"
      using Cons.prems Suc k' by (intro Cons.IH) simp_all
    then show ?thesis by (simp add: Suc k')
  qed
qed

lemma distinct_scene_disjoint:
  assumes "distinct_scene c" "s \<in> set (sections c)" "s' \<in> set (sections c)"
      and "t \<in> set (traverse (mesh s))" "t \<in> set (traverse (mesh s'))"
  shows "s = s'"
proof (rule ccontr)
  assume ne: "s \<noteq> s'"
  let ?xss = "map scene_uuids (sections c)"
  have d: "distinct (concat ?xss)"
    using assms(1) by (simp add: distinct_scene_def)
  obtain i where i: "i < length (sections c)" "sections c ! i = s"
    using assms(2) by (auto simp: in_set_conv_nth)
  obtain k where k: "k < length (sections c)" "sections c ! k = s'"
    using assms(3) by (auto simp: in_set_conv_nth)
  have u: "uuid t \<in> set (?xss ! i)" "uuid t \<in> set (?xss ! k)"
    using assms(4,5) i k by (simp_all add: scene_uuids_def)
  have "i \<noteq> k" using ne i k by auto
  then consider "i < k" | "k < i" by linarith
  then have "set (?xss ! i) \<inter> set (?xss ! k) = {}"
  proof cases
    case 1
    then show ?thesis using distinct_concat_nth_disjoint [OF d, of i k] k(1) by simp
  next
    case 2
    then show ?thesis using distinct_concat_nth_disjoint [OF d, of k i] i(1) by auto
  qed
  then show False using u by auto
qed

text \<open>
  \<open>damageSection\<close> never replaces a mesh, so the scene objects stay the ones
  \<open>createColony\<close> made, each in one section only.
\<close>

lemma damageSection_meshes:
  "map mesh (sections (snd (damageSection sectionIndex dmg c))) = map mesh (sections c)"
  by (auto simp: damageSection_def section_at_def destroySection_def
      updateDestructionPercentage_def Let_def map_update list_update_same_conv
      split: option.splits)

lemma damageSection_distinct_scene:
  assumes "distinct_scene c"
  shows "distinct_scene (snd (damageSection sectionIndex dmg c))"
proof -
  have uuids: "map scene_uuids ss = map (\<lambda>m. map uuid (traverse m)) (map mesh ss)" for ss
    by (simp add: scene_uuids_def)
  have "map scene_uuids (sections (snd (damageSection sectionIndex dmg c)))
          = map scene_uuids (sections c)"
    unfolding uuids damageSection_meshes ..
  with assms show ?thesis by (simp add: distinct_scene_def)
qed

text \<open>The loop of \<open>checkBulletCollisions\<close>, one bullet at a time.\<close>

lemma checkBulletCollisions_loop_step:
  assumes "0 \<le> i" "nat i < length (bullets (zaku g))"
  shows "checkBulletCollisions_loop env targets i g
           = checkBulletCollisions_loop env targets (i - 1) (bullet_step env targets (nat i) g)"
  using assms
  by (subst checkBulletCollisions_loop.simps)
     (simp add: bullet_step_def Let_def split: list.splits)

lemma apply_damage_fields:
  "zaku (apply_damage index dmg g) = zaku g
   \<and> game_deltaTime (apply_damage index dmg g) = game_deltaTime g
   \<and> colony (apply_damage index dmg g) = snd (damageSection (int index) dmg (colony g))
   \<and> scoreSystem (apply_damage index dmg g)
       = (case fst (damageSection (int index) dmg (colony g)) of
            None \<Rightarrow> scoreSystem g
          | Some r \<Rightarrow> record_hit dmg r (scoreSystem g))"
  by (simp add: apply_damage_def Let_def split: prod.splits option.splits)

lemma bullet_step_cases:
  "bullet_step env targets i g = g
   \<or> bullet_step env targets i g
       = g\<lparr>zaku := (zaku g)\<lparr>bullets := splice1 i (bullets (zaku g))\<rparr>\<rparr>
   \<or> (\<exists>index dmg.
         bullet_step env targets i g
           = (apply_damage index dmg g)
               \<lparr>zaku := (zaku (apply_damage index dmg g))
                  \<lparr>bullets := splice1 i (bullets (zaku g))\<rparr>\<rparr>)"
proof -
  let ?b = "bullets (zaku g) ! i"
  let ?rays = "bulletRay env (position ?b) (direction ?b)
                 (fmul (fmul (speed ?b) (game_deltaTime g)) 2) targets"
  show ?thesis
  proof (cases ?rays)
    case Nil
    then show ?thesis by (simp add: bullet_step_def Let_def)
  next
    case (Cons hit rest)
    show ?thesis
    proof (cases "getSectionAtPoint (colony g) hit")
      case None
      with Cons show ?thesis by (simp add: bullet_step_def Let_def)
    next
      case (Some found)
      obtain index sec where "found = (index, sec)" by (cases found)
      with Some Cons have "bullet_step env targets i g
           = (apply_damage index (damage ?b) g)
               \<lparr>zaku := (zaku (apply_damage index (damage ?b) g))
                  \<lparr>bullets := splice1 i (bullets (zaku g))\<rparr>\<rparr>"
        by (simp add: bullet_step_def Let_def apply_damage_fields)
      then show ?thesis by blast
    qed
  qed
qed

lemma bullet_step_length:
  assumes "i < length (bullets (zaku g))"
  shows "i \<le> length (bullets (zaku (bullet_step env targets i g)))"
  using bullet_step_cases [of env targets i g] assms
  by (auto simp: splice1_length)

text \<open>
  A relation between game states that holds of a state and itself, composes, and holds
  across the damage of one hit and across a change of the live set, holds between the
  states before and after the loop; and the loop returns.
\<close>

lemma checkBulletCollisions_loop_rel:
  assumes refl: "\<And>g. R g g"
      and trans: "\<And>g1 g2 g3. R g1 g2 \<Longrightarrow> R g2 g3 \<Longrightarrow> R g1 g3"
      and hit: "\<And>g index dmg. R g (apply_damage index dmg g)"
      and live: "\<And>g bs. R g (g\<lparr>zaku := (zaku g)\<lparr>bullets := bs\<rparr>\<rparr>)"
  shows "n \<le> length (bullets (zaku g)) \<Longrightarrow>
           \<exists>g'. checkBulletCollisions_loop env targets (int n - 1) g = Some g' \<and> R g g'"
proof (induction n arbitrary: g)
  case 0
  then show ?case by (simp add: checkBulletCollisions_loop.simps refl)
next
  case (Suc k)
  then have k: "k < length (bullets (zaku g))" by simp
  let ?g1 = "bullet_step env targets k g"
  have step: "R g ?g1"
    using bullet_step_cases [of env targets k g]
    by (metis refl hit live trans)
  have "checkBulletCollisions_loop env targets (int (Suc k) - 1) g
          = checkBulletCollisions_loop env targets (int k - 1) ?g1"
    using checkBulletCollisions_loop_step [of "int k" g env targets] k by simp
  moreover obtain g' where "checkBulletCollisions_loop env targets (int k - 1) ?g1 = Some g'"
      and "R ?g1 g'"
    using Suc.IH [OF bullet_step_length [OF k]] by blast
  ultimately show ?case using step trans by auto
qed

lemma checkBulletCollisions_rel:
  assumes "\<And>g. R g g" "\<And>g1 g2 g3. R g1 g2 \<Longrightarrow> R g2 g3 \<Longrightarrow> R g1 g3"
      and "\<And>g index dmg. R g (apply_damage index dmg g)"
      and "\<And>g bs. R g (g\<lparr>zaku := (zaku g)\<lparr>bullets := bs\<rparr>\<rparr>)"
  shows "\<exists>g'. checkBulletCollisions env g = Some g' \<and> R g g'"
  unfolding checkBulletCollisions_def
  using checkBulletCollisions_loop_rel [of R "length (bullets (zaku g))" g, OF assms]
  by simp

lemma damageSection_keeps_destroyed:
  "length (sections (snd (damageSection sectionIndex dmg c))) = length (sections c)
   \<and> (\<forall>j < length (sections c). destroyed (sections c ! j) \<longrightarrow>
          sections (snd (damageSection sectionIndex dmg c)) ! j = sections c ! j)"
  by (auto simp: damageSection_def section_at_def destroySection_def
      updateDestructionPercentage_def Let_def nth_list_update split: option.splits)

lemma damageSection_alive:
  assumes "index < length (sections c)" "\<not> destroyed (sections c ! index)"
  shows "fst (damageSection (int index) dmg c) \<noteq> None"
  using assms by (simp add: damageSection_def section_at_def Let_def)

lemma handleShooting_colony:
  "colony (handleShooting env g)
     = (case cameraRay env (getHitTargets (colony g)) of
          [] \<Rightarrow> colony g
        | hit # rest \<Rightarrow>
            (case getSectionAtPoint (colony g) hit of
               None \<Rightarrow> colony g
             | Some (index, sec) \<Rightarrow>
                 snd (damageSection (int index) (fmul (fmul 10 (game_deltaTime g)) 60)
                        (colony g))))"
  by (simp add: handleShooting_def apply_damage_fields Let_def
      split: list.splits option.splits)

lemma handleShooting_keeps_destroyed:
  "length (sections (colony (handleShooting env g))) = length (sections (colony g))
   \<and> (\<forall>j < length (sections (colony g)). destroyed (sections (colony g) ! j) \<longrightarrow>
          sections (colony (handleShooting env g)) ! j = sections (colony g) ! j)"
  using damageSection_keeps_destroyed
  by (simp add: handleShooting_colony split: list.splits option.splits)

lemma checkBulletCollisions_keeps_destroyed:
  "\<exists>g'. checkBulletCollisions env g = Some g'
      \<and> length (sections (colony g')) = length (sections (colony g))
      \<and> (\<forall>j < length (sections (colony g)). destroyed (sections (colony g) ! j) \<longrightarrow>
             sections (colony g') ! j = sections (colony g) ! j)"
proof (rule checkBulletCollisions_rel
    [where R = "\<lambda>g g'. length (sections (colony g')) = length (sections (colony g))
      \<and> (\<forall>j < length (sections (colony g)). destroyed (sections (colony g) ! j) \<longrightarrow>
             sections (colony g') ! j = sections (colony g) ! j)"])
  fix g :: game
  show "length (sections (colony g)) = length (sections (colony g))
      \<and> (\<forall>j < length (sections (colony g)). destroyed (sections (colony g) ! j) \<longrightarrow>
             sections (colony g) ! j = sections (colony g) ! j)"
    by simp
next
  fix g1 g2 g3 :: game
  assume "length (sections (colony g2)) = length (sections (colony g1))
      \<and> (\<forall>j < length (sections (colony g1)). destroyed (sections (colony g1) ! j) \<longrightarrow>
             sections (colony g2) ! j = sections (colony g1) ! j)"
    and "length (sections (colony g3)) = length (sections (colony g2))
      \<and> (\<forall>j < length (sections (colony g2)). destroyed (sections (colony g2) ! j) \<longrightarrow>
             sections (colony g3) ! j = sections (colony g2) ! j)"
  then show "length (sections (colony g3)) = length (sections (colony g1))
      \<and> (\<forall>j < length (sections (colony g1)). destroyed (sections (colony g1) ! j) \<longrightarrow>
             sections (colony g3) ! j = sections (colony g1) ! j)"
    by auto
next
  fix g :: game and index dmg
  show "length (sections (colony (apply_damage index dmg g))) = length (sections (colony g))
      \<and> (\<forall>j < length (sections (colony g)). destroyed (sections (colony g) ! j) \<longrightarrow>
             sections (colony (apply_damage index dmg g)) ! j = sections (colony g) ! j)"
    using damageSection_keeps_destroyed by (simp add: apply_damage_fields)
next
  fix g :: game and bs
  show "length (sections (colony (g\<lparr>zaku := (zaku g)\<lparr>bullets := bs\<rparr>\<rparr>)))
          = length (sections (colony g))
      \<and> (\<forall>j < length (sections (colony g)). destroyed (sections (colony g) ! j) \<longrightarrow>
             sections (colony (g\<lparr>zaku := (zaku g)\<lparr>bullets := bs\<rparr>\<rparr>)) ! j
               = sections (colony g) ! j)"
    by simp
qed

lemma bullet_step_colony:
  assumes "bulletRay env (position (bullets (zaku g) ! i)) (direction (bullets (zaku g) ! i))
             (fmul (fmul (speed (bullets (zaku g) ! i)) (game_deltaTime g)) 2) targets
           = hit # rest"
  shows "colony (bullet_step env targets i g)
           = (case getSectionAtPoint (colony g) hit of
                None \<Rightarrow> colony g
              | Some (index, sec) \<Rightarrow>
                  snd (damageSection (int index) (damage (bullets (zaku g) ! i)) (colony g)))
       \<and> scoreSystem (bullet_step env targets i g)
           = (case getSectionAtPoint (colony g) hit of
                None \<Rightarrow> scoreSystem g
              | Some (index, sec) \<Rightarrow>
                  (case fst (damageSection (int index) (damage (bullets (zaku g) ! i))
                               (colony g)) of
                     None \<Rightarrow> scoreSystem g
                   | Some r \<Rightarrow>
                       record_hit (damage (bullets (zaku g) ! i)) r (scoreSystem g)))
       \<and> bullets (zaku (bullet_step env targets i g)) = splice1 i (bullets (zaku g))"
  using assms
  by (simp add: bullet_step_def apply_damage_fields Let_def split: option.splits)

text \<open>
  C8, as the code has it. Whatever object an intersection names, \<open>getSectionAtPoint\<close>
  returns either null or the index of a section of the array together with that section,
  and the section is not destroyed. Every object in the list \<open>getHitTargets\<close> returns is
  the mesh, or lies in the subtree of the mesh, of a section that is not destroyed in the
  state in which it is called; with every scene object belonging to one section only, no
  object of a section destroyed in that state is in the list. The beam is cast against
  the list collected in the same call. The bullets of one tick are all cast against the
  list collected at the start of the tick, whatever has been destroyed since. On either
  path, and against any list of targets, a hit that selects a section selects one that is
  not destroyed, the \<open>damageSection\<close> call on it takes effect, and a hit that selects
  none leaves the colony as it is. A beam shot and a tick of bullet collisions return
  and leave every section that was destroyed before exactly as it was.
\<close>

theorem hit_resolution_skips_destroyed:
  "(getSectionAtPoint c hit = Some (index, sec) \<longrightarrow>
      index < length (sections c) \<and> sections c ! index = sec \<and> \<not> destroyed sec)
   \<and> (\<forall>t \<in> set (getHitTargets c).
         \<exists>s \<in> set (sections c). \<not> destroyed s \<and> t \<in> set (traverse (mesh s)))
   \<and> (distinct_scene c \<longrightarrow>
        (\<forall>s \<in> set (sections c). destroyed s \<longrightarrow>
           (\<forall>t \<in> set (traverse (mesh s)). t \<notin> set (getHitTargets c))))
   \<and> (cameraRay env (getHitTargets (colony g)) = hit # rest \<longrightarrow>
        (getSectionAtPoint (colony g) hit = None \<longrightarrow>
           colony (handleShooting env g) = colony g)
      \<and> (getSectionAtPoint (colony g) hit = Some (index, sec) \<longrightarrow>
           \<not> destroyed (sections (colony g) ! index)
         \<and> fst (damageSection (int index) (fmul (fmul 10 (game_deltaTime g)) 60) (colony g))
             \<noteq> None
         \<and> colony (handleShooting env g)
             = snd (damageSection (int index) (fmul (fmul 10 (game_deltaTime g)) 60)
                      (colony g))))
   \<and> checkBulletCollisions env g
       = checkBulletCollisions_loop env (getHitTargets (colony g))
           (int (length (bullets (zaku g))) - 1) g
   \<and> (0 \<le> i \<and> nat i < length (bullets (zaku g)) \<longrightarrow>
        checkBulletCollisions_loop env targets i g
          = checkBulletCollisions_loop env targets (i - 1) (bullet_step env targets (nat i) g))
   \<and> (bulletRay env (position (bullets (zaku g) ! k)) (direction (bullets (zaku g) ! k))
         (fmul (fmul (speed (bullets (zaku g) ! k)) (game_deltaTime g)) 2) targets
         = hit # rest \<longrightarrow>
        (getSectionAtPoint (colony g) hit = None \<longrightarrow>
           colony (bullet_step env targets k g) = colony g)
      \<and> (getSectionAtPoint (colony g) hit = Some (index, sec) \<longrightarrow>
           \<not> destroyed (sections (colony g) ! index)
         \<and> fst (damageSection (int index) (damage (bullets (zaku g) ! k)) (colony g)) \<noteq> None
         \<and> colony (bullet_step env targets k g)
             = snd (damageSection (int index) (damage (bullets (zaku g) ! k)) (colony g))))
   \<and> length (sections (colony (handleShooting env g))) = length (sections (colony g))
   \<and> (\<forall>j < length (sections (colony g)). destroyed (sections (colony g) ! j) \<longrightarrow>
          sections (colony (handleShooting env g)) ! j = sections (colony g) ! j)
   \<and> (\<exists>g'. checkBulletCollisions env g = Some g'
          \<and> length (sections (colony g')) = length (sections (colony g))
          \<and> (\<forall>j < length (sections (colony g)). destroyed (sections (colony g) ! j) \<longrightarrow>
                 sections (colony g') ! j = sections (colony g) ! j))"
proof -
  have sel: "getSectionAtPoint c' h = Some (index, sec) \<Longrightarrow>
               index < length (sections c') \<and> sections c' ! index = sec
             \<and> \<not> destroyed (sections c' ! index)
             \<and> fst (damageSection (int index) dmg c') \<noteq> None" for c' h dmg
    using getSectionAtPoint_sound [of c' h index sec] damageSection_alive [of index c' dmg]
    by auto
  have a: "getSectionAtPoint c hit = Some (index, sec) \<longrightarrow>
      index < length (sections c) \<and> sections c ! index = sec \<and> \<not> destroyed sec"
    using getSectionAtPoint_sound by blast
  have b: "\<forall>t \<in> set (getHitTargets c).
         \<exists>s \<in> set (sections c). \<not> destroyed s \<and> t \<in> set (traverse (mesh s))"
    using getHitTargets_live by blast
  have c: "distinct_scene c \<longrightarrow>
        (\<forall>s \<in> set (sections c). destroyed s \<longrightarrow>
           (\<forall>t \<in> set (traverse (mesh s)). t \<notin> set (getHitTargets c)))"
  proof (intro impI ballI)
    fix s t
    assume d: "distinct_scene c" and s: "s \<in> set (sections c)" "destroyed s"
      and t: "t \<in> set (traverse (mesh s))"
    show "t \<notin> set (getHitTargets c)"
    proof
      assume "t \<in> set (getHitTargets c)"
      from getHitTargets_live [OF this]
      obtain s' where s': "s' \<in> set (sections c)" "\<not> destroyed s'"
          "t \<in> set (traverse (mesh s'))"
        by blast
      from distinct_scene_disjoint [OF d s(1) s'(1) t s'(3)] s(2) s'(2)
      show False by simp
    qed
  qed
  have d: "cameraRay env (getHitTargets (colony g)) = hit # rest \<longrightarrow>
        (getSectionAtPoint (colony g) hit = None \<longrightarrow>
           colony (handleShooting env g) = colony g)
      \<and> (getSectionAtPoint (colony g) hit = Some (index, sec) \<longrightarrow>
           \<not> destroyed (sections (colony g) ! index)
         \<and> fst (damageSection (int index) (fmul (fmul 10 (game_deltaTime g)) 60) (colony g))
             \<noteq> None
         \<and> colony (handleShooting env g)
             = snd (damageSection (int index) (fmul (fmul 10 (game_deltaTime g)) 60)
                      (colony g)))"
    using sel [of "colony g" hit] by (auto simp: handleShooting_colony)
  have e: "checkBulletCollisions env g
       = checkBulletCollisions_loop env (getHitTargets (colony g))
           (int (length (bullets (zaku g))) - 1) g"
    by (simp add: checkBulletCollisions_def)
  have f: "0 \<le> i \<and> nat i < length (bullets (zaku g)) \<longrightarrow>
        checkBulletCollisions_loop env targets i g
          = checkBulletCollisions_loop env targets (i - 1) (bullet_step env targets (nat i) g)"
    using checkBulletCollisions_loop_step by blast
  have h: "bulletRay env (position (bullets (zaku g) ! k)) (direction (bullets (zaku g) ! k))
         (fmul (fmul (speed (bullets (zaku g) ! k)) (game_deltaTime g)) 2) targets
         = hit # rest \<longrightarrow>
        (getSectionAtPoint (colony g) hit = None \<longrightarrow>
           colony (bullet_step env targets k g) = colony g)
      \<and> (getSectionAtPoint (colony g) hit = Some (index, sec) \<longrightarrow>
           \<not> destroyed (sections (colony g) ! index)
         \<and> fst (damageSection (int index) (damage (bullets (zaku g) ! k)) (colony g)) \<noteq> None
         \<and> colony (bullet_step env targets k g)
             = snd (damageSection (int index) (damage (bullets (zaku g) ! k)) (colony g)))"
    using sel [of "colony g" hit] by (auto simp: bullet_step_colony)
  show ?thesis
    using a b c d e f h handleShooting_keeps_destroyed [of env g]
      checkBulletCollisions_keeps_destroyed [of env g]
    by (intro conjI) blast+
qed

section \<open>The colony as constructed\<close>

lemma createColony_totals:
  "totalHealth createColony = 5850 \<and> currentHealth createColony = 5850
   \<and> destructionPercentage createColony = 0 \<and> length (sections createColony) = 33"
  by (simp add: createColony_def build_colony_def new_section_def upt_conv_Cons Let_def)

lemma createColony_distinct: "distinct_scene createColony"
  by (simp add: createColony_def build_colony_def new_section_def upt_conv_Cons Let_def
      distinct_scene_def scene_uuids_def panel_group_def dock_group_def tower_group_def)

lemma createColony_percentage_ok: "percentage_ok createColony"
  by (simp add: percentage_ok_def createColony_totals)

lemma createColony_hull:
  "sections createColony ! 25 =
     \<lparr>mesh = Object3D 400 True [], visible = True, type = hullSection, health = 500,
      maxHealth = 500, points = 1000, destroyed = False\<rparr>"
  by (simp add: createColony_def build_colony_def new_section_def upt_conv_Cons Let_def)

lemma createColony_window:
  "sections createColony ! 0 =
     \<lparr>mesh = Object3D 0 True [], visible = True, type = window, health = 50,
      maxHealth = 50, points = 100, destroyed = False\<rparr>"
  by (simp add: createColony_def build_colony_def new_section_def upt_conv_Cons Let_def)

lemma two_bullets_bullets:
  "bullets two_bullets =
     [\<lparr>position = Vector3 0 0 150, startPosition = Vector3 0 0 150,
       direction = Vector3 0 0 (- 1), distanceTraveled = 0, maxDistance = 60, damage = 10,
       speed = 150\<rparr>,
      \<lparr>position = Vector3 0 0 150, startPosition = Vector3 0 0 150,
       direction = Vector3 0 0 (- 1), distanceTraveled = 0, maxDistance = 60, damage = 10,
       speed = 150\<rparr>]"
  by (simp add: two_bullets_def fired_zaku_def muzzle_ahead_def fire_def spawnBullet_def
      new_Zaku_def machineGun_fireRate_def machineGun_range_def machineGun_damage_def
      normalize_unit_z Let_def)

lemma stale_game_fields:
  "colony stale_game = stale_colony \<and> zaku stale_game = two_bullets
   \<and> game_deltaTime stale_game = 1 / 64 \<and> scoreSystem stale_game = new_ScoreSystem 0"
  by (simp add: stale_game_def new_game_def)

lemma stale_colony_window:
  "length (sections stale_colony) = 33
   \<and> sections stale_colony ! 0 = (sections createColony ! 0)\<lparr>health := 10\<rparr>"
  by (simp add: stale_colony_def damageSection_def section_at_def createColony_totals
      createColony_window)

lemma stale_targets: "Object3D 0 True [] \<in> set (getHitTargets stale_colony)"
  by (simp add: stale_colony_def getHitTargets_def damageSection_def section_at_def
      createColony_def build_colony_def new_section_def upt_conv_Cons Let_def)

lemma stale_select:
  "getSectionAtPoint stale_colony hit_first_window = Some (0, sections stale_colony ! 0)"
  by (simp add: stale_colony_def getSectionAtPoint_def hit_first_window_def damageSection_def
      section_at_def createColony_def build_colony_def new_section_def upt_conv_Cons Let_def)

lemma stale_hit:
  "fst (damageSection 0 10 stale_colony) = Some (HitResult 100 True window)
   \<and> sections (snd (damageSection 0 10 stale_colony)) ! 0
       = (sections createColony ! 0)\<lparr>health := 0, destroyed := True, visible := False\<rparr>"
  by (simp add: damageSection_def section_at_def stale_colony_window createColony_window
      destroySection_def updateDestructionPercentage_def)

lemma stale_ray:
  "bulletRay stale_frame origin dir far targets
     = (if Object3D 0 True [] \<in> set targets then [hit_first_window] else [])"
  by (simp add: stale_frame_def quiet_frame_def)

lemma after_first_bullet_step:
  "colony after_first_bullet = snd (damageSection 0 10 stale_colony)
   \<and> scoreSystem after_first_bullet
       = record_hit 10 (HitResult 100 True window) (new_ScoreSystem 0)
   \<and> bullets (zaku after_first_bullet) = [bullets two_bullets ! 0]"
proof -
  have ray: "bulletRay stale_frame (position (bullets (zaku stale_game) ! 1))
               (direction (bullets (zaku stale_game) ! 1))
               (fmul (fmul (speed (bullets (zaku stale_game) ! 1)) (game_deltaTime stale_game)) 2)
               (getHitTargets (colony stale_game)) = hit_first_window # []"
    by (simp add: stale_ray stale_game_fields stale_targets)
  have dmg: "damage (bullets (zaku stale_game) ! 1) = 10"
    by (simp add: stale_game_fields two_bullets_bullets)
  have sel: "getSectionAtPoint (colony stale_game) hit_first_window
               = Some (0, sections stale_colony ! 0)"
    by (simp add: stale_game_fields stale_select)
  have hit: "fst (damageSection (int 0) 10 (colony stale_game))
               = Some (HitResult 100 True window)"
    by (simp add: stale_game_fields stale_hit)
  have sp: "splice1 1 (bullets (zaku stale_game)) = [bullets two_bullets ! 0]"
    by (simp add: stale_game_fields two_bullets_bullets splice1_def)
  note st = bullet_step_colony [OF ray, folded after_first_bullet_def, unfolded dmg sel sp]
  from st hit show ?thesis
    by (simp add: stale_game_fields)
qed

lemma after_first_bullet_deltaTime: "game_deltaTime after_first_bullet = 1 / 64"
  using bullet_step_cases [of stale_frame "getHitTargets (colony stale_game)" 1 stale_game]
  by (auto simp: after_first_bullet_def apply_damage_fields stale_game_fields)

lemma after_first_bullet_colony:
  "Object3D 0 True [] \<notin> set (getHitTargets (colony after_first_bullet))
   \<and> getSectionAtPoint (colony after_first_bullet) hit_first_window = None
   \<and> destroyed (sections (colony after_first_bullet) ! 0)
   \<and> mesh (sections (colony after_first_bullet) ! 0) = Object3D 0 True []"
  by (simp add: after_first_bullet_step stale_colony_def getHitTargets_def
      getSectionAtPoint_def hit_first_window_def damageSection_def section_at_def
      destroySection_def updateDestructionPercentage_def createColony_def build_colony_def
      new_section_def upt_conv_Cons panel_group_def dock_group_def tower_group_def Let_def)

lemma after_first_bullet_bullets:
  "bullets (zaku after_first_bullet) = [bullets two_bullets ! 0]
   \<and> length (bullets (zaku after_first_bullet)) = 1"
  by (simp add: after_first_bullet_step)

lemma after_first_bullet_score:
  "scoreSystem after_first_bullet
     = record_hit 10 (HitResult 100 True window) (new_ScoreSystem 0)"
  by (simp add: after_first_bullet_step)

lemma stale_tick_unrolled:
  "checkBulletCollisions stale_frame stale_game
     = checkBulletCollisions_loop stale_frame (getHitTargets (colony stale_game)) 0
         after_first_bullet"
  using checkBulletCollisions_loop_step
    [of 1 stale_game stale_frame "getHitTargets (colony stale_game)"]
  by (simp add: checkBulletCollisions_def after_first_bullet_def stale_game_fields
      two_bullets_bullets)

lemma stale_tick_result:
  "checkBulletCollisions stale_frame stale_game
     = Some (after_first_bullet\<lparr>zaku := (zaku after_first_bullet)\<lparr>bullets := []\<rparr>\<rparr>)"
proof -
  let ?targets = "getHitTargets (colony stale_game)"
  have ray: "bulletRay stale_frame (position (bullets (zaku after_first_bullet) ! 0))
               (direction (bullets (zaku after_first_bullet) ! 0))
               (fmul (fmul (speed (bullets (zaku after_first_bullet) ! 0))
                  (game_deltaTime after_first_bullet)) 2) ?targets = hit_first_window # []"
    by (simp add: stale_ray stale_game_fields stale_targets)
  have last: "bullet_step stale_frame ?targets 0 after_first_bullet
                = after_first_bullet\<lparr>zaku := (zaku after_first_bullet)\<lparr>bullets := []\<rparr>\<rparr>"
    using ray
    by (simp add: bullet_step_def after_first_bullet_colony after_first_bullet_bullets
        splice1_def Let_def)
  have "checkBulletCollisions_loop stale_frame ?targets 0 after_first_bullet
          = checkBulletCollisions_loop stale_frame ?targets (0 - 1)
              (bullet_step stale_frame ?targets (nat 0) after_first_bullet)"
    by (rule checkBulletCollisions_loop_step) (simp_all add: after_first_bullet_bullets)
  also have "\<dots> = Some (after_first_bullet\<lparr>zaku := (zaku after_first_bullet)\<lparr>bullets := []\<rparr>\<rparr>)"
    by (simp add: last checkBulletCollisions_loop.simps)
  finally show ?thesis by (simp only: stale_tick_unrolled)
qed

theorem hit_resolution_skips_destroyed_witness:
  "distinct_scene window_gone
   \<and> map destroyed (sections window_gone) = [True, False]
   \<and> getSectionAtPoint window_gone hit_arm = Some (1, sections window_gone ! 1)
   \<and> \<not> destroyed (sections window_gone ! 1)
   \<and> getSectionAtPoint window_gone hit_window = None
   \<and> map uuid (getHitTargets window_gone) = [1, 2, 3]
   \<and> Object3D 0 True [] \<notin> set (getHitTargets window_gone)
   \<and> getSectionAtPoint (colony stale_game) hit_first_window
       = Some (0, sections stale_colony ! 0)
   \<and> \<not> destroyed (sections (colony stale_game) ! 0)
   \<and> fst (damageSection 0 10 (colony stale_game)) = Some (HitResult 100 True window)
   \<and> colony after_first_bullet = snd (damageSection 0 10 (colony stale_game))
   \<and> getSectionAtPoint (colony after_first_bullet) hit_first_window = None
   \<and> colony (bullet_step stale_frame (getHitTargets (colony stale_game)) 0 after_first_bullet)
       = colony after_first_bullet"
proof -
  have d: "distinct_scene window_gone"
    by (simp add: distinct_scene_def scene_uuids_def window_gone_eq)
  have arm: "getSectionAtPoint window_gone hit_arm = Some (1, sections window_gone ! 1)"
    by (simp add: getSectionAtPoint_def hit_arm_def window_gone_eq)
  have win: "sections window_gone ! 0 \<in> set (sections window_gone)"
    "destroyed (sections window_gone ! 0)"
    "Object3D 0 True [] \<in> set (traverse (mesh (sections window_gone ! 0)))"
    by (simp_all add: window_gone_eq)
  note one = hit_resolution_skips_destroyed [of window_gone hit_arm 1 "sections window_gone ! 1"]
  from one arm have "\<not> destroyed (sections window_gone ! 1)" by blast
  moreover from one d win have "Object3D 0 True [] \<notin> set (getHitTargets window_gone)" by blast
  moreover have "getSectionAtPoint window_gone hit_window = None"
    by (simp add: getSectionAtPoint_def hit_window_def window_gone_eq)
  moreover have "map uuid (getHitTargets window_gone) = [1, 2, 3]"
    by (simp add: getHitTargets_def window_gone_eq)
  moreover have "map destroyed (sections window_gone) = [True, False]"
    by (simp add: window_gone_eq)
  moreover
  let ?targets = "getHitTargets (colony stale_game)"
  have ray1: "bulletRay stale_frame (position (bullets (zaku stale_game) ! 1))
               (direction (bullets (zaku stale_game) ! 1))
               (fmul (fmul (speed (bullets (zaku stale_game) ! 1)) (game_deltaTime stale_game)) 2)
               ?targets = hit_first_window # []"
    by (simp add: stale_ray stale_game_fields stale_targets)
  have sel1: "getSectionAtPoint (colony stale_game) hit_first_window
                = Some (0, sections stale_colony ! 0)"
    by (simp add: stale_game_fields stale_select)
  have dmg: "damage (bullets (zaku stale_game) ! 1) = 10"
    by (simp add: stale_game_fields two_bullets_bullets)
  note two = hit_resolution_skips_destroyed
    [of "colony stale_game" hit_first_window 0 "sections stale_colony ! 0" stale_frame
        stale_game "[]" _ ?targets 1]
  from two ray1 sel1 have "\<not> destroyed (sections (colony stale_game) ! 0)"
    and "colony (bullet_step stale_frame ?targets 1 stale_game)
           = snd (damageSection (int 0) (damage (bullets (zaku stale_game) ! 1))
                    (colony stale_game))"
    by blast+
  then have "\<not> destroyed (sections (colony stale_game) ! 0)"
    and "colony after_first_bullet = snd (damageSection 0 10 (colony stale_game))"
    unfolding dmg after_first_bullet_def by simp_all
  moreover
  have ray0: "bulletRay stale_frame (position (bullets (zaku after_first_bullet) ! 0))
               (direction (bullets (zaku after_first_bullet) ! 0))
               (fmul (fmul (speed (bullets (zaku after_first_bullet) ! 0))
                  (game_deltaTime after_first_bullet)) 2) ?targets = hit_first_window # []"
    by (simp add: stale_ray stale_game_fields stale_targets)
  note three = hit_resolution_skips_destroyed
    [of _ hit_first_window _ _ stale_frame after_first_bullet "[]" _ ?targets 0]
  from three ray0 after_first_bullet_colony
  have "colony (bullet_step stale_frame ?targets 0 after_first_bullet)
          = colony after_first_bullet"
    by blast
  ultimately show ?thesis
    using d arm sel1 after_first_bullet_colony stale_hit
    by (simp add: stale_game_fields)
qed

text \<open>
  C8, as the claim states it, fails in its clause on the ray-cast targets. Two bullets
  fly towards the first window, which has 10 health left. The loop handles the last
  bullet first: its ray intersects the window, the window is selected and destroyed.
  The loop goes on with the same list of targets, which still holds the window's mesh,
  although the list \<open>getHitTargets\<close> would return now does not: the ray of the other
  bullet is cast against the destroyed window and intersects it, where against fresh
  targets it would intersect nothing. No section is selected, and the bullet is removed;
  one hit is recorded.
\<close>

theorem stale_targets_counterexample:
  "checkBulletCollisions stale_frame stale_game
     = checkBulletCollisions_loop stale_frame (getHitTargets (colony stale_game)) 0
         after_first_bullet
   \<and> destroyed (sections (colony after_first_bullet) ! 0)
   \<and> mesh (sections (colony after_first_bullet) ! 0) = Object3D 0 True []
   \<and> Object3D 0 True [] \<in> set (getHitTargets (colony stale_game))
   \<and> Object3D 0 True [] \<notin> set (getHitTargets (colony after_first_bullet))
   \<and> bulletRay stale_frame (position (bullets (zaku after_first_bullet) ! 0))
        (direction (bullets (zaku after_first_bullet) ! 0))
        (fmul (fmul (speed (bullets (zaku after_first_bullet) ! 0))
           (game_deltaTime after_first_bullet)) 2)
        (getHitTargets (colony stale_game)) = [hit_first_window]
   \<and> bulletRay stale_frame (position (bullets (zaku after_first_bullet) ! 0))
        (direction (bullets (zaku after_first_bullet) ! 0))
        (fmul (fmul (speed (bullets (zaku after_first_bullet) ! 0))
           (game_deltaTime after_first_bullet)) 2)
        (getHitTargets (colony after_first_bullet)) = []
   \<and> map_option (length \<circ> bullets \<circ> zaku) (checkBulletCollisions stale_frame stale_game)
       = Some 0
   \<and> map_option (shotsHit \<circ> stats \<circ> scoreSystem)
        (checkBulletCollisions stale_frame stale_game) = Some 1"
proof -
  have loop: "checkBulletCollisions stale_frame stale_game
     = checkBulletCollisions_loop stale_frame (getHitTargets (colony stale_game)) 0
         after_first_bullet"
    by (rule stale_tick_unrolled)
  have stale: "Object3D 0 True [] \<in> set (getHitTargets (colony stale_game))"
    by (simp add: stale_game_fields stale_targets)
  have ray_stale: "bulletRay stale_frame (position (bullets (zaku after_first_bullet) ! 0))
        (direction (bullets (zaku after_first_bullet) ! 0))
        (fmul (fmul (speed (bullets (zaku after_first_bullet) ! 0))
           (game_deltaTime after_first_bullet)) 2)
        (getHitTargets (colony stale_game)) = [hit_first_window]"
    using stale by (simp add: stale_ray)
  have ray_fresh: "bulletRay stale_frame (position (bullets (zaku after_first_bullet) ! 0))
        (direction (bullets (zaku after_first_bullet) ! 0))
        (fmul (fmul (speed (bullets (zaku after_first_bullet) ! 0))
           (game_deltaTime after_first_bullet)) 2)
        (getHitTargets (colony after_first_bullet)) = []"
    using after_first_bullet_colony by (simp add: stale_ray)
  have gone: "map_option (length \<circ> bullets \<circ> zaku)
                (checkBulletCollisions stale_frame stale_game) = Some 0"
    unfolding stale_tick_result by simp
  have hits: "map_option (shotsHit \<circ> stats \<circ> scoreSystem)
                (checkBulletCollisions stale_frame stale_game) = Some 1"
    unfolding stale_tick_result
    by (simp add: after_first_bullet_score record_hit_def recordShot_def recordDamage_def
        recordDestruction_def addScore_def new_ScoreSystem_def zero_stats_def Let_def)
  show ?thesis
    using loop stale ray_stale ray_fresh gone hits after_first_bullet_colony
    by (intro conjI) blast+
qed

section \<open>Score awarded for a hit\<close>

lemma record_hit_score:
  "score (record_hit dmg r s)
     = (if result_destroyed r
        then score s
             + \<lfloor>fmul (result_points r)
                  (fadd 1 (fmul (real_of_int (combo s)) (round_double (1 / 10))))\<rfloor>
        else score s)
   \<and> combo (record_hit dmg r s) = (if result_destroyed r then combo s + 1 else combo s)"
  by (simp add: record_hit_def recordShot_def recordDamage_def recordDestruction_def
      addScore_def Let_def)

lemma damageSection_points:
  assumes "damageSection sectionIndex dmg c = (Some r, c')"
  shows "0 \<le> sectionIndex \<and> nat sectionIndex < length (sections c)
       \<and> result_points r
           = (if result_destroyed r then points (sections c ! nat sectionIndex)
              else real_of_int \<lfloor>dmg\<rfloor>)"
  using assms
  by (auto simp: damageSection_def section_at_def Let_def split: if_splits)

lemma handleShooting_hit:
  assumes "cameraRay env (getHitTargets (colony g)) = hit # rest"
      and "getSectionAtPoint (colony g) hit = Some (index, sec)"
      and "damageSection (int index) (fmul (fmul 10 (game_deltaTime g)) 60) (colony g)
             = (Some r, c)"
  shows "scoreSystem (handleShooting env g)
           = record_hit (fmul (fmul 10 (game_deltaTime g)) 60) r (scoreSystem g)
       \<and> colony (handleShooting env g) = c"
  using assms by (simp add: handleShooting_def apply_damage_def Let_def)

lemma bullet_step_hit:
  assumes "bulletRay env (position (bullets (zaku g) ! i)) (direction (bullets (zaku g) ! i))
             (fmul (fmul (speed (bullets (zaku g) ! i)) (game_deltaTime g)) 2) targets
             = hit # rest"
      and "getSectionAtPoint (colony g) hit = Some (index, sec)"
      and "damageSection (int index) (damage (bullets (zaku g) ! i)) (colony g) = (Some r, c)"
  shows "scoreSystem (bullet_step env targets i g)
           = record_hit (damage (bullets (zaku g) ! i)) r (scoreSystem g)
       \<and> colony (bullet_step env targets i g) = c"
  using assms by (simp add: bullet_step_def apply_damage_def Let_def)

lemma filter_update_gain:
  "i < length xs \<Longrightarrow> \<not> P (xs ! i) \<Longrightarrow> P x \<Longrightarrow>
     length (filter P (xs[i := x])) = Suc (length (filter P xs))"
proof (induction xs arbitrary: i)
  case Nil
  then show ?case by simp
next
  case (Cons y ys)
  then show ?case by (cases i) simp_all
qed

lemma filter_update_same:
  "i < length xs \<Longrightarrow> P x = P (xs ! i) \<Longrightarrow>
     length (filter P (xs[i := x])) = length (filter P xs)"
proof (induction xs arbitrary: i)
  case Nil
  then show ?case by simp
next
  case (Cons y ys)
  then show ?case by (cases i) simp_all
qed

text \<open>
  \<open>damageSection\<close> raises the number of destroyed sections by one when its result says
  destroyed, and leaves it as it is otherwise.
\<close>

lemma damageSection_destroyed_count:
  "destroyed_count (snd (damageSection i d c))
     = destroyed_count c
       + (case fst (damageSection i d c) of
            None \<Rightarrow> 0
          | Some r \<Rightarrow> if result_destroyed r then 1 else 0)"
proof (cases "section_at (sections c) i")
  case None
  then show ?thesis by (simp add: damageSection_def)
next
  case (Some sec)
  then have i: "0 \<le> i" "nat i < length (sections c)" and sec: "sec = sections c ! nat i"
    by (auto simp: section_at_def split: if_splits)
  show ?thesis
  proof (cases "destroyed sec")
    case True
    with Some show ?thesis by (simp add: damageSection_def)
  next
    case False
    then have alive: "\<not> destroyed (sections c ! nat i)" using sec by simp
    show ?thesis
    proof (cases "health sec - d \<le> 0")
      case True
      have "length (filter destroyed
              ((sections c)[nat i := sec\<lparr>health := health sec - d, destroyed := True,
                                         visible := False\<rparr>]))
              = Suc (length (filter destroyed (sections c)))"
        using i(2) alive by (intro filter_update_gain) simp_all
      with Some False True i show ?thesis
        by (simp add: damageSection_def destroySection_def updateDestructionPercentage_def
            destroyed_count_def Let_def)
    next
      case lives: False
      have "length (filter destroyed ((sections c)[nat i := sec\<lparr>health := health sec - d\<rparr>]))
              = length (filter destroyed (sections c))"
        using i(2) sec by (intro filter_update_same) simp_all
      with Some False lives show ?thesis
        by (simp add: damageSection_def destroyed_count_def Let_def)
    qed
  qed
qed

text \<open>
  Across the damage of one hit: the streak grows by the number of sections destroyed, and
  the score does not change unless a section was destroyed.
\<close>

lemma apply_damage_score:
  "destroyed_count (colony g) \<le> destroyed_count (colony (apply_damage index dmg g))
   \<and> combo (scoreSystem (apply_damage index dmg g))
       = combo (scoreSystem g)
         + (destroyed_count (colony (apply_damage index dmg g)) - destroyed_count (colony g))
   \<and> (destroyed_count (colony (apply_damage index dmg g)) = destroyed_count (colony g)
        \<longrightarrow> score (scoreSystem (apply_damage index dmg g)) = score (scoreSystem g))"
  by (cases "fst (damageSection (int index) dmg (colony g))")
     (simp_all add: apply_damage_fields damageSection_destroyed_count record_hit_score)

lemma handleShooting_cases:
  "(colony (handleShooting env g) = colony g
      \<and> combo (scoreSystem (handleShooting env g)) = combo (scoreSystem g)
      \<and> score (scoreSystem (handleShooting env g)) = score (scoreSystem g))
   \<or> (\<exists>index.
         colony (handleShooting env g)
           = colony (apply_damage index (fmul (fmul 10 (game_deltaTime g)) 60) g)
       \<and> scoreSystem (handleShooting env g)
           = scoreSystem (apply_damage index (fmul (fmul 10 (game_deltaTime g)) 60) g))"
proof (cases "cameraRay env (getHitTargets (colony g))")
  case Nil
  then show ?thesis by (simp add: handleShooting_def recordShot_def Let_def)
next
  case (Cons hit rest)
  show ?thesis
  proof (cases "getSectionAtPoint (colony g) hit")
    case None
    with Cons show ?thesis by (simp add: handleShooting_def Let_def)
  next
    case (Some found)
    obtain index sec where "found = (index, sec)" by (cases found)
    with Some Cons have "colony (handleShooting env g)
           = colony (apply_damage index (fmul (fmul 10 (game_deltaTime g)) 60) g)
       \<and> scoreSystem (handleShooting env g)
           = scoreSystem (apply_damage index (fmul (fmul 10 (game_deltaTime g)) 60) g)"
      by (simp add: handleShooting_def apply_damage_fields Let_def split: option.splits)
    then show ?thesis by blast
  qed
qed

lemma handleShooting_score:
  "destroyed_count (colony g) \<le> destroyed_count (colony (handleShooting env g))
   \<and> combo (scoreSystem (handleShooting env g))
       = combo (scoreSystem g)
         + (destroyed_count (colony (handleShooting env g)) - destroyed_count (colony g))
   \<and> (destroyed_count (colony (handleShooting env g)) = destroyed_count (colony g)
        \<longrightarrow> score (scoreSystem (handleShooting env g)) = score (scoreSystem g))"
  using handleShooting_cases [of env g]
proof (elim disjE exE conjE)
  assume "colony (handleShooting env g) = colony g"
    "combo (scoreSystem (handleShooting env g)) = combo (scoreSystem g)"
    "score (scoreSystem (handleShooting env g)) = score (scoreSystem g)"
  then show ?thesis by simp
next
  fix index
  assume "colony (handleShooting env g)
           = colony (apply_damage index (fmul (fmul 10 (game_deltaTime g)) 60) g)"
    "scoreSystem (handleShooting env g)
           = scoreSystem (apply_damage index (fmul (fmul 10 (game_deltaTime g)) 60) g)"
  then show ?thesis
    using apply_damage_score [of g index "fmul (fmul 10 (game_deltaTime g)) 60"] by simp
qed

lemma checkBulletCollisions_score:
  "\<exists>g'. checkBulletCollisions env g = Some g'
      \<and> destroyed_count (colony g) \<le> destroyed_count (colony g')
      \<and> combo (scoreSystem g')
          = combo (scoreSystem g) + (destroyed_count (colony g') - destroyed_count (colony g))
      \<and> (destroyed_count (colony g') = destroyed_count (colony g)
           \<longrightarrow> score (scoreSystem g') = score (scoreSystem g))"
proof -
  let ?R = "\<lambda>g g'. destroyed_count (colony g) \<le> destroyed_count (colony g')
      \<and> combo (scoreSystem g')
          = combo (scoreSystem g) + (destroyed_count (colony g') - destroyed_count (colony g))
      \<and> (destroyed_count (colony g') = destroyed_count (colony g)
           \<longrightarrow> score (scoreSystem g') = score (scoreSystem g))"
  have "\<exists>g'. checkBulletCollisions env g = Some g' \<and> ?R g g'"
  proof (rule checkBulletCollisions_rel)
    show "?R g g" for g by simp
    show "?R g1 g3" if "?R g1 g2" "?R g2 g3" for g1 g2 g3 :: game
      using that by auto
    show "?R g (apply_damage index dmg g)" for g index dmg
      by (rule apply_damage_score)
    show "?R g (g\<lparr>zaku := (zaku g)\<lparr>bullets := bs\<rparr>\<rparr>)" for g bs by simp
  qed
  then show ?thesis by simp
qed

lemma addScore_points:
  "awarded_points (fst (addScore basePoints s))
     = \<lfloor>fmul basePoints (fadd 1 (fmul (real_of_int (combo s)) (round_double (1 / 10))))\<rfloor>"
  by (simp add: addScore_def Let_def)

lemma fmul_1_right: "fmul b 1 = round_double b"
  by (simp add: fmul_def)

lemma addScore_streak_0:
  "combo s = 0 \<Longrightarrow> round_double basePoints = basePoints \<Longrightarrow>
     awarded_points (fst (addScore basePoints s)) = \<lfloor>basePoints\<rfloor>"
  by (simp add: addScore_points fmul_0_left fadd_1_0 fmul_1_right)

lemma streak_3_multiplier:
  "fadd 1 (fmul 3 (round_double (1 / 10))) = 5854679515581645 / 4503599627370496"
  by (simp only: double_tenth fmul_3_tenth fadd_1_3_tenths)

lemma streak_13_multiplier:
  "fadd 1 (fmul 13 (round_double (1 / 10))) = 2589569785738035 / 1125899906842624"
  by (simp only: double_tenth fmul_13_tenth fadd_1_13_tenths)

lemma addScore_streak_3:
  assumes "combo s = 3"
  shows "map (\<lambda>basePoints. awarded_points (fst (addScore basePoints s)))
           [100, 200, 300, 500, 1000] = [130, 260, 390, 650, 1300]"
  using assms
  by (simp add: addScore_points streak_3_multiplier fmul_100_streak_3 fmul_200_streak_3
      fmul_300_streak_3 fmul_500_streak_3 fmul_1000_streak_3)

lemma addScore_streak_13:
  assumes "combo s = 13"
  shows "awarded_points (fst (addScore 100 s)) = 229"
  using assms
  by (simp add: addScore_points streak_13_multiplier fmul_100_streak_13)

lemma beam_product_64: "fmul 10 (1 / 64) = 5 / 32"
  unfolding fmul_def
  by (rule round_double_eqI [where e = "- 55" and m = "5629499534213120"])
    (simp_all add: round_half_even_def power_int_minus)

lemma beam_damage_64: "fmul (5 / 32) 60 = 75 / 8"
  unfolding fmul_def
  by (rule round_double_eqI [where e = "- 49" and m = "5277655813324800"])
    (simp_all add: round_half_even_def power_int_minus)

lemma beam_product_8: "fmul 10 (1 / 8) = 5 / 4"
  unfolding fmul_def
  by (rule round_double_eqI [where e = "- 52" and m = "5629499534213120"])
    (simp_all add: round_half_even_def power_int_minus)

lemma beam_damage_8: "fmul (5 / 4) 60 = 75"
  unfolding fmul_def
  by (rule round_double_eqI [where e = "- 46" and m = "5277655813324800"])
    (simp_all add: round_half_even_def power_int_minus)

lemma beam_damage_frame_64: "fmul (fmul 10 (1 / 64)) 60 = 75 / 8"
  by (simp only: beam_product_64 beam_damage_64)

lemma beam_damage_frame_8: "fmul (fmul 10 (1 / 8)) 60 = 75"
  by (simp only: beam_product_8 beam_damage_8)

lemma beam_game_fields:
  "colony beam_game = createColony \<and> game_deltaTime beam_game = 1 / 64
   \<and> score (scoreSystem beam_game) = 0 \<and> combo (scoreSystem beam_game) = 0"
  by (simp add: beam_game_def new_game_def new_ScoreSystem_def)

lemma lethal_game_fields:
  "colony lethal_game = createColony \<and> game_deltaTime lethal_game = 1 / 8
   \<and> score (scoreSystem lethal_game) = 0 \<and> combo (scoreSystem lethal_game) = 0"
  by (simp add: lethal_game_def new_game_def new_ScoreSystem_def)

lemma bullet_hit_game_fields:
  "colony bullet_hit_game = createColony \<and> zaku bullet_hit_game = fired_zaku
   \<and> game_deltaTime bullet_hit_game = 1 / 64
   \<and> score (scoreSystem bullet_hit_game) = 0 \<and> combo (scoreSystem bullet_hit_game) = 0"
  by (simp add: bullet_hit_game_def bullet_game_def new_game_def new_ScoreSystem_def)

lemma beam_on_hull:
  "getSectionAtPoint createColony hit_hull = Some (25, sections createColony ! 25)"
  by (simp add: getSectionAtPoint_def hit_hull_def createColony_def build_colony_def
      new_section_def upt_conv_Cons panel_group_def dock_group_def tower_group_def Let_def)

lemma beam_on_window:
  "getSectionAtPoint createColony hit_first_window = Some (0, sections createColony ! 0)"
  by (simp add: getSectionAtPoint_def hit_first_window_def createColony_def build_colony_def
      new_section_def upt_conv_Cons Let_def)

lemma beam_damage_hull:
  "fst (damageSection 25 (75 / 8) createColony) = Some (HitResult 9 False hullSection)
   \<and> sections (snd (damageSection 25 (75 / 8) createColony)) ! 25
       = (sections createColony ! 25)\<lparr>health := 3925 / 8\<rparr>"
  by (simp add: damageSection_def section_at_def createColony_totals createColony_hull)

lemma beam_damage_window:
  "fst (damageSection 0 75 createColony) = Some (HitResult 100 True window)
   \<and> sections (snd (damageSection 0 75 createColony)) ! 0
       = (sections createColony ! 0)\<lparr>health := - 25, destroyed := True, visible := False\<rparr>"
  by (simp add: damageSection_def section_at_def createColony_totals createColony_window
      destroySection_def updateDestructionPercentage_def)

lemma bullet_damage_hull:
  "fst (damageSection 25 10 createColony) = Some (HitResult 10 False hullSection)
   \<and> sections (snd (damageSection 25 10 createColony)) ! 25
       = (sections createColony ! 25)\<lparr>health := 490\<rparr>"
  by (simp add: damageSection_def section_at_def createColony_totals createColony_hull)

lemma beam_frame_ray:
  "cameraRay beam_frame targets = [hit_hull] \<and> cameraRay lethal_frame targets = [hit_first_window]
   \<and> bulletRay bullet_hit_frame origin dir far targets = [hit_hull]"
  by (simp add: beam_frame_def lethal_frame_def bullet_hit_frame_def)

lemma beam_hull_call:
  "damageSection (int 25) (fmul (fmul 10 (game_deltaTime beam_game)) 60) (colony beam_game)
     = (Some (HitResult 9 False hullSection), snd (damageSection 25 (75 / 8) createColony))"
proof -
  have "damageSection 25 (75 / 8) createColony
          = (Some (HitResult 9 False hullSection), snd (damageSection 25 (75 / 8) createColony))"
    using beam_damage_hull by (simp add: prod_eq_iff)
  then show ?thesis by (simp add: beam_game_fields beam_damage_frame_64)
qed

lemma beam_window_call:
  "damageSection (int 0) (fmul (fmul 10 (game_deltaTime lethal_game)) 60) (colony lethal_game)
     = (Some (HitResult 100 True window), snd (damageSection 0 75 createColony))"
proof -
  have "damageSection 0 75 createColony
          = (Some (HitResult 100 True window), snd (damageSection 0 75 createColony))"
    using beam_damage_window by (simp add: prod_eq_iff)
  then show ?thesis by (simp add: lethal_game_fields beam_damage_frame_8)
qed

lemma bullet_hull_call:
  "damageSection (int 25) (damage (bullets (zaku bullet_hit_game) ! 0)) (colony bullet_hit_game)
     = (Some (HitResult 10 False hullSection), snd (damageSection 25 10 createColony))"
proof -
  have "damageSection 25 10 createColony
          = (Some (HitResult 10 False hullSection), snd (damageSection 25 10 createColony))"
    using bullet_damage_hull by (simp add: prod_eq_iff)
  then show ?thesis by (simp add: bullet_hit_game_fields fired_zaku_bullets)
qed

lemma bullet_window_call:
  "damageSection (int 0) (damage (bullets (zaku stale_game) ! 1)) (colony stale_game)
     = (Some (HitResult 100 True window), snd (damageSection 0 10 stale_colony))"
proof -
  have "damageSection 0 10 stale_colony
          = (Some (HitResult 100 True window), snd (damageSection 0 10 stale_colony))"
    using stale_hit by (simp add: prod_eq_iff)
  then show ?thesis by (simp add: stale_game_fields two_bullets_bullets)
qed

lemma stale_colony_count: "destroyed_count stale_colony = 0"
  by (simp add: destroyed_count_def stale_colony_def damageSection_def section_at_def
      createColony_def build_colony_def new_section_def upt_conv_Cons Let_def)

lemma round_double_100: "round_double 100 = 100"
  using fmul_100_1 by (simp add: fmul_def)

text \<open>
  C1, as the code has it, for the beam (\<open>handleShooting\<close>) and for a projectile (the
  body of the loop of \<open>checkBulletCollisions\<close>, and the whole call). When a hit selects
  a section and \<open>damageSection\<close> returns a result: for a hit that does not destroy the
  section the result carries \<open>points = floor(damage)\<close>, but the score and the streak stay
  as they were; for a hit that destroys it the result carries the section's point value,
  the score grows by \<open>floor(points * (1 + streak * 0.1))\<close>, each operation rounded to a
  double, and the streak grows by 1. Over a whole call of either function the streak
  grows by the number of sections destroyed, and the score is unchanged when none was.
  \<open>addScore(basePoints)\<close> awards \<open>floor(basePoints)\<close> at streak 0; at streak 3 it awards
  130, 260, 390, 650 and 1300 for the point values 100, 200, 300, 500 and 1000 of the
  colony; at streak 13 it awards 229 for 100 points, the product being the double
  229.99999999999997.
\<close>

theorem hit_score_awarded:
  "(cameraRay env (getHitTargets (colony g)) = hit # rest
      \<and> getSectionAtPoint (colony g) hit = Some (index, sec)
      \<and> damageSection (int index) (fmul (fmul 10 (game_deltaTime g)) 60) (colony g)
          = (Some r, c)
    \<longrightarrow> (\<not> result_destroyed r \<longrightarrow>
            result_points r = real_of_int \<lfloor>fmul (fmul 10 (game_deltaTime g)) 60\<rfloor>
          \<and> score (scoreSystem (handleShooting env g)) = score (scoreSystem g)
          \<and> combo (scoreSystem (handleShooting env g)) = combo (scoreSystem g))
       \<and> (result_destroyed r \<longrightarrow>
            result_points r = points sec
          \<and> score (scoreSystem (handleShooting env g))
              = score (scoreSystem g)
                + \<lfloor>fmul (points sec)
                     (fadd 1 (fmul (real_of_int (combo (scoreSystem g)))
                                (round_double (1 / 10))))\<rfloor>
          \<and> combo (scoreSystem (handleShooting env g)) = combo (scoreSystem g) + 1))
   \<and> (bulletRay env (position (bullets (zaku g) ! i)) (direction (bullets (zaku g) ! i))
        (fmul (fmul (speed (bullets (zaku g) ! i)) (game_deltaTime g)) 2) targets = hit # rest
      \<and> getSectionAtPoint (colony g) hit = Some (index, sec)
      \<and> damageSection (int index) (damage (bullets (zaku g) ! i)) (colony g) = (Some r, c)
    \<longrightarrow> (\<not> result_destroyed r \<longrightarrow>
            result_points r = real_of_int \<lfloor>damage (bullets (zaku g) ! i)\<rfloor>
          \<and> score (scoreSystem (bullet_step env targets i g)) = score (scoreSystem g)
          \<and> combo (scoreSystem (bullet_step env targets i g)) = combo (scoreSystem g))
       \<and> (result_destroyed r \<longrightarrow>
            result_points r = points sec
          \<and> score (scoreSystem (bullet_step env targets i g))
              = score (scoreSystem g)
                + \<lfloor>fmul (points sec)
                     (fadd 1 (fmul (real_of_int (combo (scoreSystem g)))
                                (round_double (1 / 10))))\<rfloor>
          \<and> combo (scoreSystem (bullet_step env targets i g)) = combo (scoreSystem g) + 1))
   \<and> checkBulletCollisions env g
       = checkBulletCollisions_loop env (getHitTargets (colony g))
           (int (length (bullets (zaku g))) - 1) g
   \<and> (0 \<le> k \<and> nat k < length (bullets (zaku g)) \<longrightarrow>
        checkBulletCollisions_loop env targets k g
          = checkBulletCollisions_loop env targets (k - 1) (bullet_step env targets (nat k) g))
   \<and> destroyed_count (colony g) \<le> destroyed_count (colony (handleShooting env g))
   \<and> combo (scoreSystem (handleShooting env g))
       = combo (scoreSystem g)
         + (destroyed_count (colony (handleShooting env g)) - destroyed_count (colony g))
   \<and> (destroyed_count (colony (handleShooting env g)) = destroyed_count (colony g)
        \<longrightarrow> score (scoreSystem (handleShooting env g)) = score (scoreSystem g))
   \<and> (\<exists>g'. checkBulletCollisions env g = Some g'
         \<and> destroyed_count (colony g) \<le> destroyed_count (colony g')
         \<and> combo (scoreSystem g')
             = combo (scoreSystem g)
               + (destroyed_count (colony g') - destroyed_count (colony g))
         \<and> (destroyed_count (colony g') = destroyed_count (colony g)
              \<longrightarrow> score (scoreSystem g') = score (scoreSystem g)))
   \<and> awarded_points (fst (addScore basePoints s))
       = \<lfloor>fmul basePoints (fadd 1 (fmul (real_of_int (combo s)) (round_double (1 / 10))))\<rfloor>
   \<and> (combo s = 0 \<and> round_double basePoints = basePoints \<longrightarrow>
        awarded_points (fst (addScore basePoints s)) = \<lfloor>basePoints\<rfloor>)
   \<and> (combo s = 3 \<longrightarrow>
        map (\<lambda>basePoints. awarded_points (fst (addScore basePoints s)))
          [100, 200, 300, 500, 1000] = [130, 260, 390, 650, 1300])
   \<and> (combo s = 13 \<longrightarrow> awarded_points (fst (addScore 100 s)) = 229)"
proof -
  have beam: "(\<not> result_destroyed r \<longrightarrow>
            result_points r = real_of_int \<lfloor>fmul (fmul 10 (game_deltaTime g)) 60\<rfloor>
          \<and> score (scoreSystem (handleShooting env g)) = score (scoreSystem g)
          \<and> combo (scoreSystem (handleShooting env g)) = combo (scoreSystem g))
       \<and> (result_destroyed r \<longrightarrow>
            result_points r = points sec
          \<and> score (scoreSystem (handleShooting env g))
              = score (scoreSystem g)
                + \<lfloor>fmul (points sec)
                     (fadd 1 (fmul (real_of_int (combo (scoreSystem g)))
                                (round_double (1 / 10))))\<rfloor>
          \<and> combo (scoreSystem (handleShooting env g)) = combo (scoreSystem g) + 1)"
    if ray: "cameraRay env (getHitTargets (colony g)) = hit # rest"
      and sel: "getSectionAtPoint (colony g) hit = Some (index, sec)"
      and res: "damageSection (int index) (fmul (fmul 10 (game_deltaTime g)) 60) (colony g)
                  = (Some r, c)"
  proof -
    have sec: "sections (colony g) ! index = sec"
      using getSectionAtPoint_sound [OF sel] by simp
    have pts: "result_points r
                 = (if result_destroyed r then points sec
                    else real_of_int \<lfloor>fmul (fmul 10 (game_deltaTime g)) 60\<rfloor>)"
      using damageSection_points [OF res] sec by simp
    show ?thesis
      using handleShooting_hit [OF ray sel res] pts by (simp add: record_hit_score)
  qed
  have bullet: "(\<not> result_destroyed r \<longrightarrow>
            result_points r = real_of_int \<lfloor>damage (bullets (zaku g) ! i)\<rfloor>
          \<and> score (scoreSystem (bullet_step env targets i g)) = score (scoreSystem g)
          \<and> combo (scoreSystem (bullet_step env targets i g)) = combo (scoreSystem g))
       \<and> (result_destroyed r \<longrightarrow>
            result_points r = points sec
          \<and> score (scoreSystem (bullet_step env targets i g))
              = score (scoreSystem g)
                + \<lfloor>fmul (points sec)
                     (fadd 1 (fmul (real_of_int (combo (scoreSystem g)))
                                (round_double (1 / 10))))\<rfloor>
          \<and> combo (scoreSystem (bullet_step env targets i g)) = combo (scoreSystem g) + 1)"
    if ray: "bulletRay env (position (bullets (zaku g) ! i)) (direction (bullets (zaku g) ! i))
               (fmul (fmul (speed (bullets (zaku g) ! i)) (game_deltaTime g)) 2) targets
               = hit # rest"
      and sel: "getSectionAtPoint (colony g) hit = Some (index, sec)"
      and res: "damageSection (int index) (damage (bullets (zaku g) ! i)) (colony g)
                  = (Some r, c)"
  proof -
    have sec: "sections (colony g) ! index = sec"
      using getSectionAtPoint_sound [OF sel] by simp
    have pts: "result_points r
                 = (if result_destroyed r then points sec
                    else real_of_int \<lfloor>damage (bullets (zaku g) ! i)\<rfloor>)"
      using damageSection_points [OF res] sec by simp
    show ?thesis
      using bullet_step_hit [OF ray sel res] pts by (simp add: record_hit_score)
  qed
  have step: "checkBulletCollisions_loop env targets k g
          = checkBulletCollisions_loop env targets (k - 1) (bullet_step env targets (nat k) g)"
    if "0 \<le> k" "nat k < length (bullets (zaku g))"
    using that by (rule checkBulletCollisions_loop_step)
  have whole: "checkBulletCollisions env g
       = checkBulletCollisions_loop env (getHitTargets (colony g))
           (int (length (bullets (zaku g))) - 1) g"
    by (simp add: checkBulletCollisions_def)
  have streak0: "awarded_points (fst (addScore basePoints s)) = \<lfloor>basePoints\<rfloor>"
    if "combo s = 0" "round_double basePoints = basePoints"
    using that by (rule addScore_streak_0)
  note beam_tick = handleShooting_score [of g env]
  show ?thesis
  proof (intro conjI)
    show "cameraRay env (getHitTargets (colony g)) = hit # rest
      \<and> getSectionAtPoint (colony g) hit = Some (index, sec)
      \<and> damageSection (int index) (fmul (fmul 10 (game_deltaTime g)) 60) (colony g)
          = (Some r, c)
    \<longrightarrow> (\<not> result_destroyed r \<longrightarrow>
            result_points r = real_of_int \<lfloor>fmul (fmul 10 (game_deltaTime g)) 60\<rfloor>
          \<and> score (scoreSystem (handleShooting env g)) = score (scoreSystem g)
          \<and> combo (scoreSystem (handleShooting env g)) = combo (scoreSystem g))
       \<and> (result_destroyed r \<longrightarrow>
            result_points r = points sec
          \<and> score (scoreSystem (handleShooting env g))
              = score (scoreSystem g)
                + \<lfloor>fmul (points sec)
                     (fadd 1 (fmul (real_of_int (combo (scoreSystem g)))
                                (round_double (1 / 10))))\<rfloor>
          \<and> combo (scoreSystem (handleShooting env g)) = combo (scoreSystem g) + 1)"
    proof (rule impI, elim conjE)
      assume "cameraRay env (getHitTargets (colony g)) = hit # rest"
        "getSectionAtPoint (colony g) hit = Some (index, sec)"
        "damageSection (int index) (fmul (fmul 10 (game_deltaTime g)) 60) (colony g)
          = (Some r, c)"
      then show "(\<not> result_destroyed r \<longrightarrow>
            result_points r = real_of_int \<lfloor>fmul (fmul 10 (game_deltaTime g)) 60\<rfloor>
          \<and> score (scoreSystem (handleShooting env g)) = score (scoreSystem g)
          \<and> combo (scoreSystem (handleShooting env g)) = combo (scoreSystem g))
       \<and> (result_destroyed r \<longrightarrow>
            result_points r = points sec
          \<and> score (scoreSystem (handleShooting env g))
              = score (scoreSystem g)
                + \<lfloor>fmul (points sec)
                     (fadd 1 (fmul (real_of_int (combo (scoreSystem g)))
                                (round_double (1 / 10))))\<rfloor>
          \<and> combo (scoreSystem (handleShooting env g)) = combo (scoreSystem g) + 1)"
        by (rule beam)
    qed
    show "bulletRay env (position (bullets (zaku g) ! i)) (direction (bullets (zaku g) ! i))
        (fmul (fmul (speed (bullets (zaku g) ! i)) (game_deltaTime g)) 2) targets = hit # rest
      \<and> getSectionAtPoint (colony g) hit = Some (index, sec)
      \<and> damageSection (int index) (damage (bullets (zaku g) ! i)) (colony g) = (Some r, c)
    \<longrightarrow> (\<not> result_destroyed r \<longrightarrow>
            result_points r = real_of_int \<lfloor>damage (bullets (zaku g) ! i)\<rfloor>
          \<and> score (scoreSystem (bullet_step env targets i g)) = score (scoreSystem g)
          \<and> combo (scoreSystem (bullet_step env targets i g)) = combo (scoreSystem g))
       \<and> (result_destroyed r \<longrightarrow>
            result_points r = points sec
          \<and> score (scoreSystem (bullet_step env targets i g))
              = score (scoreSystem g)
                + \<lfloor>fmul (points sec)
                     (fadd 1 (fmul (real_of_int (combo (scoreSystem g)))
                                (round_double (1 / 10))))\<rfloor>
          \<and> combo (scoreSystem (bullet_step env targets i g)) = combo (scoreSystem g) + 1)"
    proof (rule impI, elim conjE)
      assume "bulletRay env (position (bullets (zaku g) ! i)) (direction (bullets (zaku g) ! i))
          (fmul (fmul (speed (bullets (zaku g) ! i)) (game_deltaTime g)) 2) targets = hit # rest"
        "getSectionAtPoint (colony g) hit = Some (index, sec)"
        "damageSection (int index) (damage (bullets (zaku g) ! i)) (colony g) = (Some r, c)"
      then show "(\<not> result_destroyed r \<longrightarrow>
            result_points r = real_of_int \<lfloor>damage (bullets (zaku g) ! i)\<rfloor>
          \<and> score (scoreSystem (bullet_step env targets i g)) = score (scoreSystem g)
          \<and> combo (scoreSystem (bullet_step env targets i g)) = combo (scoreSystem g))
       \<and> (result_destroyed r \<longrightarrow>
            result_points r = points sec
          \<and> score (scoreSystem (bullet_step env targets i g))
              = score (scoreSystem g)
                + \<lfloor>fmul (points sec)
                     (fadd 1 (fmul (real_of_int (combo (scoreSystem g)))
                                (round_double (1 / 10))))\<rfloor>
          \<and> combo (scoreSystem (bullet_step env targets i g)) = combo (scoreSystem g) + 1)"
        by (rule bullet)
    qed
    show "checkBulletCollisions env g
       = checkBulletCollisions_loop env (getHitTargets (colony g))
           (int (length (bullets (zaku g))) - 1) g"
      by (rule whole)
    show "0 \<le> k \<and> nat k < length (bullets (zaku g)) \<longrightarrow>
        checkBulletCollisions_loop env targets k g
          = checkBulletCollisions_loop env targets (k - 1) (bullet_step env targets (nat k) g)"
      using step by blast
    show "destroyed_count (colony g) \<le> destroyed_count (colony (handleShooting env g))"
      using beam_tick by (rule conjunct1)
    show "combo (scoreSystem (handleShooting env g))
       = combo (scoreSystem g)
         + (destroyed_count (colony (handleShooting env g)) - destroyed_count (colony g))"
      using beam_tick [THEN conjunct2] by (rule conjunct1)
    show "destroyed_count (colony (handleShooting env g)) = destroyed_count (colony g)
        \<longrightarrow> score (scoreSystem (handleShooting env g)) = score (scoreSystem g)"
      using beam_tick [THEN conjunct2] by (rule conjunct2)
    show "\<exists>g'. checkBulletCollisions env g = Some g'
         \<and> destroyed_count (colony g) \<le> destroyed_count (colony g')
         \<and> combo (scoreSystem g')
             = combo (scoreSystem g)
               + (destroyed_count (colony g') - destroyed_count (colony g))
         \<and> (destroyed_count (colony g') = destroyed_count (colony g)
              \<longrightarrow> score (scoreSystem g') = score (scoreSystem g))"
      by (rule checkBulletCollisions_score)
    show "awarded_points (fst (addScore basePoints s))
       = \<lfloor>fmul basePoints (fadd 1 (fmul (real_of_int (combo s)) (round_double (1 / 10))))\<rfloor>"
      by (rule addScore_points)
    show "combo s = 0 \<and> round_double basePoints = basePoints \<longrightarrow>
        awarded_points (fst (addScore basePoints s)) = \<lfloor>basePoints\<rfloor>"
      using streak0 by blast
    show "combo s = 3 \<longrightarrow>
        map (\<lambda>basePoints. awarded_points (fst (addScore basePoints s)))
          [100, 200, 300, 500, 1000] = [130, 260, 390, 650, 1300]"
      by (rule impI) (rule addScore_streak_3)
    show "combo s = 13 \<longrightarrow> awarded_points (fst (addScore 100 s)) = 229"
      by (rule impI) (rule addScore_streak_13)
  qed
qed

lemma fmul_beam_damage_1: "fmul (75 / 8) 1 = 75 / 8"
  unfolding fmul_def
  by (rule round_double_eqI [where e = "- 49" and m = "5277655813324800"])
    (simp_all add: round_half_even_def power_int_minus)

lemma streak_0_award: "\<lfloor>fmul 100 (fadd 1 (fmul 0 (round_double (1 / 10))))\<rfloor> = 100"
  by (simp add: fmul_0_left fadd_1_0 fmul_100_1)

theorem hit_score_awarded_witness:
  "fst (damageSection 25 (75 / 8) createColony) = Some (HitResult 9 False hullSection)
   \<and> score (scoreSystem (handleShooting beam_frame beam_game)) = 0
   \<and> combo (scoreSystem (handleShooting beam_frame beam_game)) = 0
   \<and> fst (damageSection 0 75 createColony) = Some (HitResult 100 True window)
   \<and> score (scoreSystem (handleShooting lethal_frame lethal_game)) = 100
   \<and> combo (scoreSystem (handleShooting lethal_frame lethal_game)) = 1
   \<and> fst (damageSection 25 10 createColony) = Some (HitResult 10 False hullSection)
   \<and> score (scoreSystem (bullet_step bullet_hit_frame (getHitTargets (colony bullet_hit_game))
               0 bullet_hit_game)) = 0
   \<and> combo (scoreSystem (bullet_step bullet_hit_frame (getHitTargets (colony bullet_hit_game))
               0 bullet_hit_game)) = 0
   \<and> fst (damageSection 0 10 stale_colony) = Some (HitResult 100 True window)
   \<and> score (scoreSystem after_first_bullet) = 100
   \<and> combo (scoreSystem after_first_bullet) = 1
   \<and> map_option (combo \<circ> scoreSystem) (checkBulletCollisions stale_frame stale_game) = Some 1
   \<and> map_option (destroyed_count \<circ> colony) (checkBulletCollisions stale_frame stale_game)
       = Some 1
   \<and> awarded_points (fst (addScore 100 (new_ScoreSystem 0))) = 100
   \<and> map (\<lambda>basePoints. awarded_points (fst (addScore basePoints ((new_ScoreSystem 0)\<lparr>combo := 3\<rparr>))))
        [100, 200, 300, 500, 1000] = [130, 260, 390, 650, 1300]
   \<and> awarded_points (fst (addScore 100 ((new_ScoreSystem 0)\<lparr>combo := 13\<rparr>))) = 229"
proof -
  note beam = hit_score_awarded [THEN conjunct1, rule_format]
  note bullet = hit_score_awarded [THEN conjunct2, THEN conjunct1, rule_format]
  note rest = hit_score_awarded [THEN conjunct2, THEN conjunct2, THEN conjunct2,
      THEN conjunct2, THEN conjunct2, THEN conjunct2, THEN conjunct2]
  note tick = rest [THEN conjunct1]
  note streak_0 = rest [THEN conjunct2, THEN conjunct2, THEN conjunct1, rule_format]
  note streak_3 = rest [THEN conjunct2, THEN conjunct2, THEN conjunct2, THEN conjunct1,
      rule_format]
  note streak_13 = rest [THEN conjunct2, THEN conjunct2, THEN conjunct2, THEN conjunct2,
      rule_format]
  have a1: "cameraRay beam_frame (getHitTargets (colony beam_game)) = hit_hull # []"
    by (simp add: beam_frame_ray)
  have a2: "getSectionAtPoint (colony beam_game) hit_hull = Some (25, sections createColony ! 25)"
    by (simp add: beam_game_fields beam_on_hull)
  have b1: "cameraRay lethal_frame (getHitTargets (colony lethal_game)) = hit_first_window # []"
    by (simp add: beam_frame_ray)
  have b2: "getSectionAtPoint (colony lethal_game) hit_first_window
              = Some (0, sections createColony ! 0)"
    by (simp add: lethal_game_fields beam_on_window)
  have c1: "bulletRay bullet_hit_frame (position (bullets (zaku bullet_hit_game) ! 0))
              (direction (bullets (zaku bullet_hit_game) ! 0))
              (fmul (fmul (speed (bullets (zaku bullet_hit_game) ! 0))
                 (game_deltaTime bullet_hit_game)) 2)
              (getHitTargets (colony bullet_hit_game)) = hit_hull # []"
    by (simp add: beam_frame_ray)
  have c2: "getSectionAtPoint (colony bullet_hit_game) hit_hull
              = Some (25, sections createColony ! 25)"
    by (simp add: bullet_hit_game_fields beam_on_hull)
  have d1: "bulletRay stale_frame (position (bullets (zaku stale_game) ! 1))
              (direction (bullets (zaku stale_game) ! 1))
              (fmul (fmul (speed (bullets (zaku stale_game) ! 1)) (game_deltaTime stale_game)) 2)
              (getHitTargets (colony stale_game)) = hit_first_window # []"
    by (simp add: stale_ray stale_game_fields stale_targets)
  have d2: "getSectionAtPoint (colony stale_game) hit_first_window
              = Some (0, sections stale_colony ! 0)"
    by (simp add: stale_game_fields stale_select)
  have w1: "score (scoreSystem (handleShooting beam_frame beam_game)) = 0
          \<and> combo (scoreSystem (handleShooting beam_frame beam_game)) = 0"
    using beam [of beam_frame beam_game hit_hull "[]" 25 "sections createColony ! 25"
        "HitResult 9 False hullSection" "snd (damageSection 25 (75 / 8) createColony)"]
      a1 a2 beam_hull_call
    by (simp add: beam_game_fields)
  have w2: "score (scoreSystem (handleShooting lethal_frame lethal_game)) = 100
          \<and> combo (scoreSystem (handleShooting lethal_frame lethal_game)) = 1"
    using beam [of lethal_frame lethal_game hit_first_window "[]" 0 "sections createColony ! 0"
        "HitResult 100 True window" "snd (damageSection 0 75 createColony)"]
      b1 b2 beam_window_call
    by (simp add: lethal_game_fields createColony_window streak_0_award)
  have w3: "score (scoreSystem (bullet_step bullet_hit_frame
                     (getHitTargets (colony bullet_hit_game)) 0 bullet_hit_game)) = 0
          \<and> combo (scoreSystem (bullet_step bullet_hit_frame
                     (getHitTargets (colony bullet_hit_game)) 0 bullet_hit_game)) = 0"
    using bullet [of bullet_hit_frame bullet_hit_game 0 "getHitTargets (colony bullet_hit_game)"
        hit_hull "[]" 25 "sections createColony ! 25"
        "HitResult 10 False hullSection" "snd (damageSection 25 10 createColony)"]
      c1 c2 bullet_hull_call
    by (simp add: bullet_hit_game_fields)
  have w4: "score (scoreSystem after_first_bullet) = 100
          \<and> combo (scoreSystem after_first_bullet) = 1"
    using bullet [of stale_frame stale_game 1 "getHitTargets (colony stale_game)"
        hit_first_window "[]" 0 "sections stale_colony ! 0"
        "HitResult 100 True window" "snd (damageSection 0 10 stale_colony)"]
      d1 d2 bullet_window_call
    unfolding after_first_bullet_def [symmetric]
    by (simp add: stale_game_fields stale_colony_window createColony_window
        new_ScoreSystem_def streak_0_award)
  from tick [of stale_frame stale_game] obtain g'
    where g': "checkBulletCollisions stale_frame stale_game = Some g'"
      and cnt: "combo (scoreSystem g')
                  = combo (scoreSystem stale_game)
                    + (destroyed_count (colony g') - destroyed_count (colony stale_game))"
    by blast
  have "g' = after_first_bullet\<lparr>zaku := (zaku after_first_bullet)\<lparr>bullets := []\<rparr>\<rparr>"
    using g' stale_tick_result by simp
  then have streak: "combo (scoreSystem g') = 1"
    using w4 by simp
  then have count: "destroyed_count (colony g') = 1"
    using cnt by (simp add: stale_game_fields stale_colony_count new_ScoreSystem_def)
  have w5: "map_option (combo \<circ> scoreSystem) (checkBulletCollisions stale_frame stale_game)
              = Some 1
          \<and> map_option (destroyed_count \<circ> colony)
              (checkBulletCollisions stale_frame stale_game) = Some 1"
    using g' streak count by simp
  have w6: "awarded_points (fst (addScore 100 (new_ScoreSystem 0))) = 100"
    using streak_0 [of "new_ScoreSystem 0" 100]
    by (simp add: new_ScoreSystem_def round_double_100)
  have w7: "map (\<lambda>basePoints.
               awarded_points (fst (addScore basePoints ((new_ScoreSystem 0)\<lparr>combo := 3\<rparr>))))
             [100, 200, 300, 500, 1000] = [130, 260, 390, 650, 1300]"
    by (rule streak_3) simp
  have w8: "awarded_points (fst (addScore 100 ((new_ScoreSystem 0)\<lparr>combo := 13\<rparr>))) = 229"
    by (rule streak_13) simp
  show ?thesis
    using w1 w2 w3 w4 w5 w6 w7 w8 beam_damage_hull beam_damage_window bullet_damage_hull
      stale_hit
    by (intro conjI) blast+
qed

text \<open>
  C1, as the claim states it, fails. The game as started, a frame of 1/64 s with the
  trigger held and the camera ray on the first hull section: the beam deals 9.375, the
  section (500 health) is damaged and not destroyed, the streak is 0, so the claim asks for
  a score of \<open>floor(9.375) = 9\<close> for this hit, in exact and in double arithmetic alike;
  the score does not change.
\<close>

theorem nonlethal_hit_score_counterexample:
  "\<not> destroyed (sections (colony beam_game) ! 25)
   \<and> health (sections (colony beam_game) ! 25) = 500
   \<and> \<not> destroyed (sections (colony (handleShooting beam_frame beam_game)) ! 25)
   \<and> health (sections (colony (handleShooting beam_frame beam_game)) ! 25) = 500 - 75 / 8
   \<and> combo (scoreSystem beam_game) = 0
   \<and> \<lfloor>10 * game_deltaTime beam_game * 60
        * (1 + real_of_int (combo (scoreSystem beam_game)) * (1 / 10))\<rfloor> = 9
   \<and> \<lfloor>fmul (fmul (fmul 10 (game_deltaTime beam_game)) 60)
        (fadd 1 (fmul (real_of_int (combo (scoreSystem beam_game))) (round_double (1 / 10))))\<rfloor>
       = 9
   \<and> score (scoreSystem (handleShooting beam_frame beam_game))
       - score (scoreSystem beam_game) = 0"
proof -
  have a1: "cameraRay beam_frame (getHitTargets (colony beam_game)) = hit_hull # []"
    by (simp add: beam_frame_ray)
  have a2: "getSectionAtPoint (colony beam_game) hit_hull = Some (25, sections createColony ! 25)"
    by (simp add: beam_game_fields beam_on_hull)
  have formula: "\<lfloor>fmul (fmul (fmul 10 (game_deltaTime beam_game)) 60)
        (fadd 1 (fmul (real_of_int (combo (scoreSystem beam_game))) (round_double (1 / 10))))\<rfloor>
       = 9"
    by (simp add: beam_game_fields beam_damage_frame_64 fmul_0_left fadd_1_0
        fmul_beam_damage_1)
  from handleShooting_hit [OF a1 a2 beam_hull_call] formula
  show ?thesis
    by (simp add: record_hit_score beam_game_fields beam_damage_hull createColony_hull)
qed

end
